theory Spec2Isabelle
  imports Main
begin

section \<open>Data model of the computer extension attribute resource\<close>

text \<open>
  The nested \<open>input_type\<close> block of the Terraform schema
  (\<open>computerextensionattributes_resource.go\<close>, lines 129-162): a map with the keys
  \<open>type\<close>, \<open>platform\<close>, \<open>script\<close> and \<open>choices\<close>. The schema fixes the type of each
  key, so the type assertions of the source cannot fail and the block is a record.
  A Go nil slice and an empty slice are both the empty list: the source only ever
  takes their length.
\<close>

record input_type_block =
  it_type :: string
  it_platform :: string
  it_script :: string
  it_choices :: "string list"

text \<open>
  \<open>schema.ResourceData\<close> / \<open>schema.ResourceDiff\<close> for this resource: the stored ID and
  the attributes of the schema (lines 102-175). \<open>input_type\<close> is a list of at most one
  block (\<open>MaxItems: 1\<close>).
\<close>

record resource_data =
  d_id :: string
  d_name :: string
  d_enabled :: bool
  d_description :: string
  d_data_type :: string
  d_input_type :: "input_type_block list"
  d_inventory_display :: string
  d_recon_display :: string

section \<open>customDiffComputerExtensionAttributes\<close>

text \<open>
  The errors of \<open>customDiffComputerExtensionAttributes\<close> (lines 34-88), one constructor
  per \<open>fmt.Errorf\<close> of the source, in the order of the source.
\<close>

datatype diff_error =
    InputTypeMustBeProvided
  | ScriptPlatformNotMacOrWindows
  | ScriptFieldMustBePopulated
  | ScriptChoicesMustNotBePopulated
  | PopupChoicesMustBePopulated
  | PopupPlatformMustNotBePopulated
  | PopupScriptMustNotBePopulated
  | TextFieldScriptMustNotBePopulated
  | TextFieldChoicesMustNotBePopulated
  | TextFieldPlatformMustNotBePopulated

text \<open>
  \<open>diff.GetOk("input_type")\<close> reports \<open>ok = false\<close> for an unset or zero-valued
  attribute, which for a list is the empty list; together with the length test of
  line 37 the first branch is taken exactly for the empty list. \<open>None\<close> is the
  \<open>nil\<close> error.
\<close>

definition customDiffComputerExtensionAttributes :: "resource_data \<Rightarrow> diff_error option" where
  "customDiffComputerExtensionAttributes diff =
     (case d_input_type diff of
        [] \<Rightarrow> Some InputTypeMustBeProvided
      | inputTypeMap # _ \<Rightarrow>
          (let inputType = it_type inputTypeMap;
               platform = it_platform inputTypeMap;
               script = it_script inputTypeMap;
               choices = it_choices inputTypeMap
           in if inputType = ''script'' then
                (if platform \<noteq> ''Mac'' \<and> platform \<noteq> ''Windows'' then Some ScriptPlatformNotMacOrWindows
                 else if script = '''' then Some ScriptFieldMustBePopulated
                 else if length choices > 0 then Some ScriptChoicesMustNotBePopulated
                 else None)
              else if inputType = ''Pop-up Menu'' then
                (if length choices = 0 then Some PopupChoicesMustBePopulated
                 else if platform \<noteq> '''' then Some PopupPlatformMustNotBePopulated
                 else if script \<noteq> '''' then Some PopupScriptMustNotBePopulated
                 else None)
              else if inputType = ''Text Field'' then
                (if script \<noteq> '''' then Some TextFieldScriptMustNotBePopulated
                 else if length choices > 0 then Some TextFieldChoicesMustNotBePopulated
                 else if platform \<noteq> '''' then Some TextFieldPlatformMustNotBePopulated
                 else None)
              else None))"

section \<open>The SDK's types, errors and diagnostics\<close>

text \<open>
  \<open>jamfpro.ComputerExtensionAttributeInputType\<close> and
  \<open>jamfpro.ComputerExtensionAttributeResponse\<close>, with the fields the source reads and
  writes.
\<close>

record ComputerExtensionAttributeInputType =
  in_Type :: string
  in_Platform :: string
  in_Script :: string
  in_Choices :: "string list"

record ComputerExtensionAttributeResponse =
  ea_ID :: int
  ea_Name :: string
  ea_Enabled :: bool
  ea_Description :: string
  ea_DataType :: string
  ea_InputType :: ComputerExtensionAttributeInputType
  ea_InventoryDisplay :: string
  ea_ReconDisplay :: string

text \<open>
  An error value of the SDK. The source never inspects one; the model only tells the
  API's "not found" from every other failure, which carries its message.
\<close>

datatype api_error = ResourceNotFound | OtherApiError string

text \<open>
  The messages of the diagnostics the handlers build, one constructor per format string
  of the source, holding the values the format string is filled with:
  \<^item> \<open>FailedToParseAttributeID s\<close>: "failed to parse attribute ID: %v", for the stored ID \<open>s\<close>;
  \<^item> \<open>FailedToConstruct\<close>: "failed to construct the computer extension attribute due to
    missing or invalid input_type";
  \<^item> \<open>FromErr e\<close>: \<open>diag.FromErr(err)\<close>, the API's error as it is;
  \<^item> \<open>FailedToFetchByIDAndName i n\<close>: "Failed to fetch attribute by both ID (%d) and name
    after %d retries";
  \<^item> \<open>ReadAttemptFailed k\<close>: "Attempted to update resource state. Resource read attempt %d
    failed. Retrying..." (create);
  \<^item> \<open>ReadAttemptFailedAfterUpdate k\<close>: "Attempted to update resource state. Read attempt
    %d failed after update. Retrying..." (update);
  \<^item> \<open>FailedToDelete e\<close>: "failed to delete Computer Extension Attribute: %v";
  \<^item> \<open>ErrorConvertingResourceID s\<close>: "error converting resource ID '%s' to int: %v"
    (advanced user search);
  \<^item> \<open>FailedToDeleteAfterRetries n s e\<close>: "failed to delete Jamf Pro Advanced User Search
    '%s' (ID: %s) after retries: %v", for the name \<open>n\<close>, the stored ID \<open>s\<close> and the error \<open>e\<close>;
  \<^item> \<open>FailedToConstructResource e\<close>: "failed to construct Jamf Pro Advanced User Search:
    %v" and "failed to construct Jamf Pro App Installer: %v";
  \<^item> \<open>FailedToCreateAfterRetries n e\<close>: "failed to create Jamf Pro Advanced User Search
    '%s' after retries: %v" and "failed to create Jamf Pro App Installer '%s' after retries:
    %v", for the name \<open>n\<close> of the payload.
\<close>

datatype message =
    FailedToParseAttributeID string
  | FailedToConstruct
  | FromErr api_error
  | FailedToFetchByIDAndName int nat
  | ReadAttemptFailed nat
  | ReadAttemptFailedAfterUpdate nat
  | FailedToDelete api_error
  | ErrorConvertingResourceID string
  | FailedToDeleteAfterRetries string string api_error
  | FailedToConstructResource string
  | FailedToCreateAfterRetries string api_error

datatype severity = Error | Warning

datatype diagnostic = Diagnostic severity message

type_synonym diagnostics = "diagnostic list"

text \<open>
  What a handler hands back: its diagnostics (\<open>nil\<close> is the empty list), or the run-time
  panic of dereferencing a nil response (\<open>createdAttribute.ID\<close>, \<open>updatedAttribute.ID\<close>
  when the SDK returns neither a response nor an error).
\<close>

datatype outcome = Return diagnostics | NilPointerPanic

section \<open>The remote API and the trace of a run\<close>

text \<open>
  \<open>conn\<close>, the SDK client. The remote system is a state of type \<open>'w\<close> that every call may
  read and change; a call returns what the Go method returns: the pair of a response
  pointer and an error, each of which may be nil (\<open>None\<close>), or the error alone.
  \<open>Update...\<close> receives the pointer \<open>constructComputerExtensionAttribute\<close> returned, which
  the update handler does not test for nil.
\<close>

type_synonym response = "ComputerExtensionAttributeResponse option \<times> api_error option"

record 'w api_client =
  GetComputerExtensionAttributeByID :: "int \<Rightarrow> 'w \<Rightarrow> response \<times> 'w"
  GetComputerExtensionAttributeByName :: "string \<Rightarrow> 'w \<Rightarrow> response \<times> 'w"
  CreateComputerExtensionAttribute :: "ComputerExtensionAttributeResponse \<Rightarrow> 'w \<Rightarrow> response \<times> 'w"
  UpdateComputerExtensionAttributeByID ::
    "int \<Rightarrow> ComputerExtensionAttributeResponse option \<Rightarrow> 'w \<Rightarrow> response \<times> 'w"
  UpdateComputerExtensionAttributeByName ::
    "string \<Rightarrow> ComputerExtensionAttributeResponse option \<Rightarrow> 'w \<Rightarrow> response \<times> 'w"
  DeleteComputerExtensionAttributeByID :: "int \<Rightarrow> 'w \<Rightarrow> api_error option \<times> 'w"
  DeleteComputerExtensionAttributeByNameByID :: "string \<Rightarrow> 'w \<Rightarrow> api_error option \<times> 'w"

text \<open>
  What a run does to the outside, in order: each API call with its arguments, and each
  \<open>time.Sleep(exponentialBackoffWithJitter(i))\<close> as \<open>Sleep i\<close>. The backoff function is
  not among the source files; the trace keeps its argument.
\<close>

datatype event =
    GetByID int
  | GetByName string
  | CreateCall ComputerExtensionAttributeResponse
  | UpdateByID int "ComputerExtensionAttributeResponse option"
  | UpdateByName string "ComputerExtensionAttributeResponse option"
  | DeleteByID int
  | DeleteByName string
  | Sleep nat

record 'w session =
  world :: 'w
  trace :: "event list"

definition call :: "event \<Rightarrow> ('w \<Rightarrow> 'r \<times> 'w) \<Rightarrow> 'w session \<Rightarrow> 'r \<times> 'w session" where
  "call ev f s = (case f (world s) of (r, w') \<Rightarrow> (r, \<lparr>world = w', trace = trace s @ [ev]\<rparr>))"

definition sleep :: "nat \<Rightarrow> 'w session \<Rightarrow> 'w session" where
  "sleep i s = s\<lparr>trace := trace s @ [Sleep i]\<rparr>"

section \<open>strconv.Atoi and the \<open>%d\<close> verb\<close>

text \<open>
  \<open>strconv.Atoi\<close>: an optional sign, then one or more decimal digits, and a value that
  fits Go's 64-bit \<open>int\<close>; anything else is an error (\<open>None\<close>).
\<close>

definition is_digit :: "char \<Rightarrow> bool" where
  "is_digit c = (48 \<le> (of_char c :: nat) \<and> (of_char c :: nat) \<le> 57)"

fun parse_digits :: "string \<Rightarrow> nat \<Rightarrow> nat option" where
  "parse_digits [] acc = Some acc"
| "parse_digits (c # cs) acc =
     (if is_digit c then parse_digits cs (acc * 10 + (of_char c - 48)) else None)"

definition Atoi :: "string \<Rightarrow> int option" where
  "Atoi s =
     (case s of
        [] \<Rightarrow> None
      | c # cs \<Rightarrow>
          (let neg = (c = CHR ''-'');
               ds = (if c = CHR ''-'' \<or> c = CHR ''+'' then cs else s)
           in if ds = [] then None
              else (case parse_digits ds 0 of
                      None \<Rightarrow> None
                    | Some n \<Rightarrow>
                        (let v = (if neg then - int n else int n)
                         in if - (2 ^ 63) \<le> v \<and> v < 2 ^ 63 then Some v else None))))"

text \<open>\<open>fmt.Sprintf("%d", n)\<close>: the decimal digits of \<open>n\<close>, after a minus sign when negative.\<close>

fun nat_to_dec :: "nat \<Rightarrow> string" where
  "nat_to_dec n =
     (if n < 10 then [char_of (48 + n)]
      else nat_to_dec (n div 10) @ [char_of (48 + n mod 10)])"

declare nat_to_dec.simps [simp del]

definition Sprintf_d :: "int \<Rightarrow> string" where
  "Sprintf_d n = (if n < 0 then CHR ''-'' # nat_to_dec (nat (- n)) else nat_to_dec (nat n))"

section \<open>constructComputerExtensionAttribute\<close>

text \<open>
  Lines 181-216. \<open>None\<close> is the nil the source returns for an empty \<open>input_type\<close> list.
  The \<open>ID\<close> field is not set, so it holds Go's zero value.
\<close>

definition constructComputerExtensionAttribute ::
    "resource_data \<Rightarrow> ComputerExtensionAttributeResponse option" where
  "constructComputerExtensionAttribute d =
     (case d_input_type d of
        [] \<Rightarrow> None
      | inputTypeMap # _ \<Rightarrow>
          Some \<lparr>ea_ID = 0,
                ea_Name = d_name d,
                ea_Enabled = d_enabled d,
                ea_Description = d_description d,
                ea_DataType = d_data_type d,
                ea_InputType =
                  \<lparr>in_Type = it_type inputTypeMap,
                   in_Platform = it_platform inputTypeMap,
                   in_Script = it_script inputTypeMap,
                   in_Choices = it_choices inputTypeMap\<rparr>,
                ea_InventoryDisplay = d_inventory_display d,
                ea_ReconDisplay = d_recon_display d\<rparr>)"

section \<open>ResourceJamfProComputerExtensionAttributesRead\<close>

text \<open>
  The retry loop of lines 287-302, from index \<open>i\<close> with the current values of the
  variables \<open>attribute\<close> and \<open>err\<close>. \<open>maxReadResourceRetries\<close> is a constant of the
  package that is not among the source files; it is the parameter \<open>N\<close>.
\<close>

definition fetch_failed :: "response \<Rightarrow> bool" where
  "fetch_failed r = (snd r \<noteq> None \<or> fst r = None)"

function fetch_loop ::
    "'w api_client \<Rightarrow> nat \<Rightarrow> int \<Rightarrow> string \<Rightarrow> nat \<Rightarrow> response \<Rightarrow> 'w session
       \<Rightarrow> response \<times> 'w session" where
  "fetch_loop conn N attributeID attributeName i cur s =
     (if i < N then
        (case call (GetByID attributeID) (GetComputerExtensionAttributeByID conn attributeID) s of
           (r1, s1) \<Rightarrow>
             (case (if fetch_failed r1
                    then call (GetByName attributeName)
                           (GetComputerExtensionAttributeByName conn attributeName) s1
                    else (r1, s1)) of
                (r2, s2) \<Rightarrow>
                  if \<not> fetch_failed r2 then (r2, s2)
                  else fetch_loop conn N attributeID attributeName (Suc i) r2 (sleep i s2)))
      else (cur, s))"
  by pat_completeness auto
termination
  by (relation "measure (\<lambda>(conn, N, attributeID, attributeName, i, cur, s). N - i)") auto

declare fetch_loop.simps [simp del]

text \<open>
  Lines 308-357: the writes of the fetched attribute into the state. Every key written is
  a key of the schema and every value has the key's type, so no \<open>d.Set\<close> fails and no
  diagnostic is appended.
\<close>

definition set_state :: "ComputerExtensionAttributeResponse \<Rightarrow> resource_data \<Rightarrow> resource_data" where
  "set_state attribute d =
     (let d1 = (if ea_Name attribute \<noteq> '''' then d\<lparr>d_name := ea_Name attribute\<rparr> else d);
          d2 = d1\<lparr>d_enabled := ea_Enabled attribute\<rparr>;
          d3 = (if ea_Description attribute \<noteq> ''''
                then d2\<lparr>d_description := ea_Description attribute\<rparr> else d2);
          d4 = (if ea_DataType attribute \<noteq> ''''
                then d3\<lparr>d_data_type := ea_DataType attribute\<rparr> else d3);
          d5 = (if ea_InventoryDisplay attribute \<noteq> ''''
                then d4\<lparr>d_inventory_display := ea_InventoryDisplay attribute\<rparr> else d4);
          d6 = (if ea_ReconDisplay attribute \<noteq> ''''
                then d5\<lparr>d_recon_display := ea_ReconDisplay attribute\<rparr> else d5);
          inputType = \<lparr>it_type = in_Type (ea_InputType attribute),
                       it_platform = in_Platform (ea_InputType attribute),
                       it_script = in_Script (ea_InputType attribute),
                       it_choices = in_Choices (ea_InputType attribute)\<rparr>
      in d6\<lparr>d_input_type := [inputType]\<rparr>)"

definition ResourceJamfProComputerExtensionAttributesRead ::
    "'w api_client \<Rightarrow> nat \<Rightarrow> resource_data \<Rightarrow> 'w session
       \<Rightarrow> diagnostics \<times> resource_data \<times> 'w session" where
  "ResourceJamfProComputerExtensionAttributesRead conn N d s =
     (case Atoi (d_id d) of
        None \<Rightarrow> ([Diagnostic Error (FailedToParseAttributeID (d_id d))], d, s)
      | Some attributeID \<Rightarrow>
          (case fetch_loop conn N attributeID (d_name d) 0 (None, None) s of
             (r, s') \<Rightarrow>
               (case r of
                  (Some attribute, None) \<Rightarrow> ([], set_state attribute d, s')
                | _ \<Rightarrow> ([Diagnostic Error (FailedToFetchByIDAndName attributeID N)], d, s'))))"

section \<open>Create, update and delete\<close>

text \<open>
  The loop that follows a create (lines 248-266) and an update (lines 393-411): read
  the resource back up to \<open>N\<close> times. \<open>warn\<close> is the message of the warning that precedes
  each failed read's diagnostics, the only difference between the two loops.
\<close>

function read_back_loop ::
    "'w api_client \<Rightarrow> nat \<Rightarrow> (nat \<Rightarrow> message) \<Rightarrow> nat \<Rightarrow> diagnostics \<Rightarrow> resource_data
       \<Rightarrow> 'w session \<Rightarrow> diagnostics \<times> resource_data \<times> 'w session" where
  "read_back_loop conn N warn i diags d s =
     (if i < N then
        (case ResourceJamfProComputerExtensionAttributesRead conn N d s of
           (readDiags, d', s') \<Rightarrow>
             if length readDiags = 0 then ([], d', s')
             else read_back_loop conn N warn (Suc i)
                    (diags @ [Diagnostic Warning (warn (i + 1))] @ readDiags) d' (sleep i s'))
      else (diags, d, s))"
  by pat_completeness auto
termination
  by (relation "measure (\<lambda>(conn, N, warn, i, diags, d, s). N - i)") auto

declare read_back_loop.simps [simp del]

definition ResourceJamfProComputerExtensionAttributesCreate ::
    "'w api_client \<Rightarrow> nat \<Rightarrow> resource_data \<Rightarrow> 'w session
       \<Rightarrow> outcome \<times> resource_data \<times> 'w session" where
  "ResourceJamfProComputerExtensionAttributesCreate conn N d s =
     (case constructComputerExtensionAttribute d of
        None \<Rightarrow> (Return [Diagnostic Error FailedToConstruct], d, s)
      | Some attribute \<Rightarrow>
          (case call (CreateCall attribute) (CreateComputerExtensionAttribute conn attribute) s of
             ((createdAttribute, err), s1) \<Rightarrow>
               (case err of
                  Some e \<Rightarrow> (Return [Diagnostic Error (FromErr e)], d, s1)
                | None \<Rightarrow>
                    (case createdAttribute of
                       None \<Rightarrow> (NilPointerPanic, d, s1)
                     | Some created \<Rightarrow>
                         (case read_back_loop conn N ReadAttemptFailed 0 []
                                 (d\<lparr>d_id := Sprintf_d (ea_ID created)\<rparr>) s1 of
                            (diags, d', s') \<Rightarrow> (Return diags, d', s'))))))"

definition ResourceJamfProComputerExtensionAttributesUpdate ::
    "'w api_client \<Rightarrow> nat \<Rightarrow> resource_data \<Rightarrow> 'w session
       \<Rightarrow> outcome \<times> resource_data \<times> 'w session" where
  "ResourceJamfProComputerExtensionAttributesUpdate conn N d s =
     (let attribute = constructComputerExtensionAttribute d in
      case Atoi (d_id d) of
        None \<Rightarrow> (Return [Diagnostic Error (FailedToParseAttributeID (d_id d))], d, s)
      | Some attributeID \<Rightarrow>
          (case call (UpdateByID attributeID attribute)
                  (UpdateComputerExtensionAttributeByID conn attributeID attribute) s of
             (r1, s1) \<Rightarrow>
               (case (if snd r1 \<noteq> None
                      then call (UpdateByName (d_name d) attribute)
                             (UpdateComputerExtensionAttributeByName conn (d_name d) attribute) s1
                      else (r1, s1)) of
                  ((updatedAttribute, err), s2) \<Rightarrow>
                    (case err of
                       Some e \<Rightarrow> (Return [Diagnostic Error (FromErr e)], d, s2)
                     | None \<Rightarrow>
                         (case updatedAttribute of
                            None \<Rightarrow> (NilPointerPanic, d, s2)
                          | Some updated \<Rightarrow>
                              (case read_back_loop conn N ReadAttemptFailedAfterUpdate 0 []
                                      (d\<lparr>d_id := Sprintf_d (ea_ID updated)\<rparr>) s2 of
                                 (diags, d', s') \<Rightarrow> (Return diags, d', s')))))))"

text \<open>
  Lines 415-451. The handler starts one goroutine and blocks until it has sent on one of
  the two channels, so the run is the goroutine's body followed by the matching branch
  of the \<open>select\<close>.
\<close>

definition ResourceJamfProComputerExtensionAttributesDelete ::
    "'w api_client \<Rightarrow> resource_data \<Rightarrow> 'w session \<Rightarrow> diagnostics \<times> resource_data \<times> 'w session" where
  "ResourceJamfProComputerExtensionAttributesDelete conn d s =
     (case Atoi (d_id d) of
        None \<Rightarrow> ([Diagnostic Error (FailedToParseAttributeID (d_id d))], d, s)
      | Some attributeID \<Rightarrow>
          (case call (DeleteByID attributeID)
                  (DeleteComputerExtensionAttributeByID conn attributeID) s of
             (err1, s1) \<Rightarrow>
               (case (if err1 \<noteq> None
                      then call (DeleteByName (d_name d))
                             (DeleteComputerExtensionAttributeByNameByID conn (d_name d)) s1
                      else (err1, s1)) of
                  (err, s2) \<Rightarrow>
                    (case err of
                       Some e \<Rightarrow> ([Diagnostic Error (FailedToDelete e)], d, s2)
                     | None \<Rightarrow> ([], d\<lparr>d_id := ''''\<rparr>, s2)))))"

section \<open>A scripted remote\<close>

text \<open>
  A remote whose state is the list of the answers it will give, one per call, in the
  order of the calls, whatever the call; when the list is used up every call answers
  "not found". A delete call returns the error of its answer. The concrete runs below
  are runs against this client.
\<close>

definition next_answer :: "response list \<Rightarrow> response \<times> response list" where
  "next_answer w = (case w of [] \<Rightarrow> ((None, Some ResourceNotFound), []) | r # rest \<Rightarrow> (r, rest))"

definition scripted_client :: "response list api_client" where
  "scripted_client =
     \<lparr>GetComputerExtensionAttributeByID = (\<lambda>_. next_answer),
      GetComputerExtensionAttributeByName = (\<lambda>_. next_answer),
      CreateComputerExtensionAttribute = (\<lambda>_. next_answer),
      UpdateComputerExtensionAttributeByID = (\<lambda>_ _. next_answer),
      UpdateComputerExtensionAttributeByName = (\<lambda>_ _. next_answer),
      DeleteComputerExtensionAttributeByID = (\<lambda>_ w. case next_answer w of (r, w') \<Rightarrow> (snd r, w')),
      DeleteComputerExtensionAttributeByNameByID = (\<lambda>_ w. case next_answer w of (r, w') \<Rightarrow> (snd r, w'))\<rparr>"

definition start :: "'w \<Rightarrow> 'w session" where
  "start w = \<lparr>world = w, trace = []\<rparr>"

text \<open>A stored state and a response of the API, for the concrete runs.\<close>

definition example_state :: resource_data where
  "example_state =
     \<lparr>d_id = ''42'', d_name = ''Battery'', d_enabled = True, d_description = ''old'',
      d_data_type = ''String'',
      d_input_type = [\<lparr>it_type = ''script'', it_platform = ''Mac'',
                       it_script = ''echo'', it_choices = []\<rparr>],
      d_inventory_display = ''General'', d_recon_display = ''''\<rparr>"

definition example_attribute :: ComputerExtensionAttributeResponse where
  "example_attribute =
     \<lparr>ea_ID = 42, ea_Name = ''Battery'', ea_Enabled = False, ea_Description = '''',
      ea_DataType = ''String'',
      ea_InputType = \<lparr>in_Type = ''Text Field'', in_Platform = '''', in_Script = '''',
                      in_Choices = []\<rparr>,
      ea_InventoryDisplay = '''', ea_ReconDisplay = ''''\<rparr>"

section \<open>What the remote answers\<close>

text \<open>
  The remote deletion succeeds when the stored ID is a number and the delete by ID
  returns no error, or it returns one and the delete by name, called on the remote as
  the first call left it, returns none.
\<close>

definition deletion_succeeds :: "'w api_client \<Rightarrow> resource_data \<Rightarrow> 'w session \<Rightarrow> bool" where
  "deletion_succeeds conn d s =
     (case Atoi (d_id d) of
        None \<Rightarrow> False
      | Some attributeID \<Rightarrow>
          (case DeleteComputerExtensionAttributeByID conn attributeID (world s) of
             (None, _) \<Rightarrow> True
           | (Some _, w1) \<Rightarrow>
               fst (DeleteComputerExtensionAttributeByNameByID conn (d_name d) w1) = None))"

text \<open>
  The events of one failed attempt of the read's retry loop: the fetch by ID, the fetch
  by name and the sleep that follows, with the loop index.
\<close>

definition failed_attempt :: "int \<Rightarrow> string \<Rightarrow> nat \<Rightarrow> event list" where
  "failed_attempt attributeID attributeName j =
     [GetByID attributeID, GetByName attributeName, Sleep j]"

text \<open>
  The one diagnostic a failed read returns for the state \<open>d\<close>: the parse error of the
  stored ID, or the fetch error naming the ID and the number of attempts.
\<close>

definition read_failure :: "resource_data \<Rightarrow> nat \<Rightarrow> diagnostic" where
  "read_failure d N =
     (case Atoi (d_id d) of
        None \<Rightarrow> Diagnostic Error (FailedToParseAttributeID (d_id d))
      | Some attributeID \<Rightarrow> Diagnostic Error (FailedToFetchByIDAndName attributeID N))"

text \<open>
  The diagnostics the read-back loop has gathered after the failed reads number
  \<open>i + 1\<close> to \<open>N\<close>: for each the warning, then the read's diagnostic.
\<close>

definition failed_read_backs :: "(nat \<Rightarrow> message) \<Rightarrow> resource_data \<Rightarrow> nat \<Rightarrow> nat \<Rightarrow> diagnostics" where
  "failed_read_backs warn d N i =
     concat (map (\<lambda>k. [Diagnostic Warning (warn (k + 1)), read_failure d N]) [i..<N])"

text \<open>The events of a read: the two fetches and the sleep between attempts.\<close>

fun fetch_event :: "event \<Rightarrow> bool" where
  "fetch_event (GetByID _) = True"
| "fetch_event (GetByName _) = True"
| "fetch_event (Sleep _) = True"
| "fetch_event _ = False"

text \<open>
  The remote, as it is in state \<open>w\<close>, lets \<open>k\<close> attempts in a row fail: at each attempt
  the fetch by ID fails and the fetch by name that follows it fails too.
\<close>

fun attempts_fail :: "'w api_client \<Rightarrow> int \<Rightarrow> string \<Rightarrow> nat \<Rightarrow> 'w \<Rightarrow> bool" where
  "attempts_fail conn attributeID attributeName 0 w = True"
| "attempts_fail conn attributeID attributeName (Suc k) w =
     (case GetComputerExtensionAttributeByID conn attributeID w of
        (r1, w1) \<Rightarrow>
          fetch_failed r1 \<and>
          (case GetComputerExtensionAttributeByName conn attributeName w1 of
             (r2, w2) \<Rightarrow> fetch_failed r2 \<and> attempts_fail conn attributeID attributeName k w2))"

section \<open>The create template of the specification\<close>

text \<open>
  Following the specification's words, not the source: "each resource type follows an
  identical four-step template (construct, call, retry, read-back)", with "retry N times
  with exponential backoff, then fail". \<open>create_call_retry_loop\<close> is the create call
  wrapped in such a retry loop: up to \<open>N\<close> calls, a sleep after each failed one, the first
  success or the last failure returned. \<open>template_create\<close> constructs the payload, makes
  the retried create call, records the returned ID and reads back. It is what the source
  is compared with.
\<close>

function create_call_retry_loop ::
    "'w api_client \<Rightarrow> nat \<Rightarrow> ComputerExtensionAttributeResponse \<Rightarrow> nat \<Rightarrow> response
       \<Rightarrow> 'w session \<Rightarrow> response \<times> 'w session" where
  "create_call_retry_loop conn N attribute i cur s =
     (if i < N then
        (case call (CreateCall attribute) (CreateComputerExtensionAttribute conn attribute) s of
           (r, s1) \<Rightarrow>
             if snd r = None then (r, s1)
             else create_call_retry_loop conn N attribute (Suc i) r (sleep i s1))
      else (cur, s))"
  by pat_completeness auto
termination
  by (relation "measure (\<lambda>(conn, N, attribute, i, cur, s). N - i)") auto

declare create_call_retry_loop.simps [simp del]

definition template_create ::
    "'w api_client \<Rightarrow> nat \<Rightarrow> resource_data \<Rightarrow> 'w session
       \<Rightarrow> outcome \<times> resource_data \<times> 'w session" where
  "template_create conn N d s =
     (case constructComputerExtensionAttribute d of
        None \<Rightarrow> (Return [Diagnostic Error FailedToConstruct], d, s)
      | Some attribute \<Rightarrow>
          (case create_call_retry_loop conn N attribute 0 (None, None) s of
             ((createdAttribute, err), s1) \<Rightarrow>
               (case err of
                  Some e \<Rightarrow> (Return [Diagnostic Error (FromErr e)], d, s1)
                | None \<Rightarrow>
                    (case createdAttribute of
                       None \<Rightarrow> (NilPointerPanic, d, s1)
                     | Some created \<Rightarrow>
                         (case ResourceJamfProComputerExtensionAttributesRead conn N
                                 (d\<lparr>d_id := Sprintf_d (ea_ID created)\<rparr>) s1 of
                            (diags, d', s') \<Rightarrow> (Return diags, d', s'))))))"

section \<open>resourceJamfProAdvancedUserSearchDelete\<close>

text \<open>
  The delete handler of the advanced user search (the Go source appended to
  \<open>user-account-maintenance.yml\<close>, lines 302-332). Of its \<open>schema.ResourceData\<close> it uses the
  stored ID and the attribute \<open>name\<close>; the other attributes, whose schema is not among
  the source files, are the field \<open>rd_other\<close>.
\<close>

record 'a ResourceData =
  rd_id :: string
  rd_name :: string
  rd_other :: 'a

record 'w user_search_client =
  DeleteAdvancedUserSearchByID :: "int \<Rightarrow> 'w \<Rightarrow> api_error option \<times> 'w"
  DeleteAdvancedUserSearchByName :: "string \<Rightarrow> 'w \<Rightarrow> api_error option \<times> 'w"

text \<open>
  The closure handed to \<open>retry.RetryContext\<close> (lines 313-323): delete by ID and, when that
  returns an error, by name; the result is \<open>nil\<close> or the retryable error of the call by
  name.
\<close>

definition delete_attempt ::
    "'w user_search_client \<Rightarrow> int \<Rightarrow> string \<Rightarrow> 'w \<Rightarrow> api_error option \<times> 'w" where
  "delete_attempt client resourceIDInt resourceName w =
     (case DeleteAdvancedUserSearchByID client resourceIDInt w of
        (None, w1) \<Rightarrow> (None, w1)
      | (Some apiErr, w1) \<Rightarrow>
          (case DeleteAdvancedUserSearchByName client resourceName w1 of
             (None, w2) \<Rightarrow> (None, w2)
           | (Some apiErrByName, w2) \<Rightarrow> (Some apiErrByName, w2)))"

text \<open>
  \<open>retry.RetryContext\<close> belongs to the Terraform plugin SDK and is not among the source
  files: with its context and its timeout it is the parameter \<open>RetryContext\<close>, which takes
  the closure, may run it any number of times on the remote, and returns \<open>nil\<close> or an
  error.
\<close>

type_synonym 'w retry_context = "('w \<Rightarrow> api_error option \<times> 'w) \<Rightarrow> 'w \<Rightarrow> api_error option \<times> 'w"

definition resourceJamfProAdvancedUserSearchDelete ::
    "'w retry_context \<Rightarrow> 'w user_search_client \<Rightarrow> 'a ResourceData \<Rightarrow> 'w
       \<Rightarrow> diagnostics \<times> 'a ResourceData \<times> 'w" where
  "resourceJamfProAdvancedUserSearchDelete RetryContext client d w =
     (let resourceID = rd_id d in
      case Atoi resourceID of
        None \<Rightarrow> ([Diagnostic Error (ErrorConvertingResourceID resourceID)], d, w)
      | Some resourceIDInt \<Rightarrow>
          (case RetryContext (delete_attempt client resourceIDInt (rd_name d)) w of
             (Some err, w') \<Rightarrow>
               ([Diagnostic Error (FailedToDeleteAfterRetries (rd_name d) resourceID err)], d, w')
           | (None, w') \<Rightarrow> ([], d\<lparr>rd_id := ''''\<rparr>, w')))"

text \<open>
  Modelled from the spec: \<open>retry.RetryContext\<close> is not among the source files, and the
  specification describes the retry as "retry N times with exponential backoff, then
  fail" and "after N failed attempts, operation surfaces the last error". \<open>retry_at_most n\<close>
  is a \<open>RetryContext\<close> whose time is up after \<open>n + 1\<close> runs of the closure: it runs the
  closure again as long as it returns a retryable error, stops at the first run that
  returns \<open>nil\<close>, and after the last run returns that run's error. The waits between the
  runs are not modelled. \<open>scripted_user_search_client\<close> is a user search client that
  answers from a list like the scripted client above.
\<close>

fun retry_at_most :: "nat \<Rightarrow> 'w retry_context" where
  "retry_at_most 0 f w = f w"
| "retry_at_most (Suc n) f w =
     (case f w of (None, w') \<Rightarrow> (None, w') | (Some e, w') \<Rightarrow> retry_at_most n f w')"

definition scripted_user_search_client :: "response list user_search_client" where
  "scripted_user_search_client =
     \<lparr>DeleteAdvancedUserSearchByID = (\<lambda>_ w. case next_answer w of (r, w') \<Rightarrow> (snd r, w')),
      DeleteAdvancedUserSearchByName = (\<lambda>_ w. case next_answer w of (r, w') \<Rightarrow> (snd r, w'))\<rparr>"

section \<open>The create handlers built on retry.RetryContext\<close>

text \<open>
  \<open>resourceJamfProAdvancedUserSearchCreate\<close> (\<open>user-account-maintenance.yml\<close>, lines
  206-246) and the app installer's \<open>create\<close> (\<open>appinstallers/crud.go\<close>, lines 24-53). What
  they call that is not among the source files is a parameter:
  \<^item> \<open>RetryContext\<close>, as for the delete above; here the closure also assigns the variable
    \<open>creationResponse\<close>, so the state the closure works on is the pair of that variable
    and the remote;
  \<^item> \<open>construct\<close>: \<open>constructJamfProAdvancedUserSearch\<close>, \<open>constructJamfProAppInstaller\<close>,
    returning an error message or the payload;
  \<^item> \<open>Name\<close>: the payload's name (\<open>resource.Name\<close>, \<open>resource.General.Name\<close>);
  \<^item> \<open>Create\<close>: the SDK's create call; of the response it returns only the field \<open>ID\<close> is
    read, an \<open>int\<close> for the user search and a string for the app installer, so the
    response pointer is that ID or \<open>None\<close> for nil;
  \<^item> \<open>Read\<close>: the read handler called for the read-back
    (\<open>resourceJamfProAdvancedUserSearchRead\<close>, \<open>readNoCleanup\<close>), whose helpers are missing.
  The app installer's create holds a mutex from its first statement to its return; a
  single run is not changed by it.
\<close>

definition create_attempt ::
    "('p \<Rightarrow> 'w \<Rightarrow> ('i option \<times> api_error option) \<times> 'w) \<Rightarrow> 'p \<Rightarrow> 'i option \<times> 'w
       \<Rightarrow> api_error option \<times> ('i option \<times> 'w)" where
  "create_attempt Create resource cw =
     (case Create resource (snd cw) of
        ((creationResponse, apiErr), w') \<Rightarrow> (apiErr, (creationResponse, w')))"

definition resourceJamfProAdvancedUserSearchCreate ::
    "(int option \<times> 'w) retry_context \<Rightarrow> ('a ResourceData \<Rightarrow> string + 'p) \<Rightarrow> ('p \<Rightarrow> string)
       \<Rightarrow> ('p \<Rightarrow> 'w \<Rightarrow> (int option \<times> api_error option) \<times> 'w)
       \<Rightarrow> ('a ResourceData \<Rightarrow> 'w \<Rightarrow> diagnostics \<times> 'a ResourceData \<times> 'w)
       \<Rightarrow> 'a ResourceData \<Rightarrow> 'w \<Rightarrow> outcome \<times> 'a ResourceData \<times> 'w" where
  "resourceJamfProAdvancedUserSearchCreate RetryContext construct Name Create Read d w =
     (case construct d of
        Inl err \<Rightarrow> (Return [Diagnostic Error (FailedToConstructResource err)], d, w)
      | Inr resource \<Rightarrow>
          (case RetryContext (create_attempt Create resource) (None, w) of
             (Some err, (creationResponse, w1)) \<Rightarrow>
               (Return [Diagnostic Error (FailedToCreateAfterRetries (Name resource) err)], d, w1)
           | (None, (None, w1)) \<Rightarrow> (NilPointerPanic, d, w1)
           | (None, (Some creationResponseID, w1)) \<Rightarrow>
               (case Read (d\<lparr>rd_id := Sprintf_d creationResponseID\<rparr>) w1 of
                  (diags, d', w') \<Rightarrow> (Return ([] @ diags), d', w'))))"

definition appinstallers_create ::
    "(string option \<times> 'w) retry_context \<Rightarrow> ('a ResourceData \<Rightarrow> string + 'p) \<Rightarrow> ('p \<Rightarrow> string)
       \<Rightarrow> ('p \<Rightarrow> 'w \<Rightarrow> (string option \<times> api_error option) \<times> 'w)
       \<Rightarrow> ('a ResourceData \<Rightarrow> 'w \<Rightarrow> diagnostics \<times> 'a ResourceData \<times> 'w)
       \<Rightarrow> 'a ResourceData \<Rightarrow> 'w \<Rightarrow> outcome \<times> 'a ResourceData \<times> 'w" where
  "appinstallers_create RetryContext construct Name Create readNoCleanup d w =
     (case construct d of
        Inl err \<Rightarrow> (Return [Diagnostic Error (FailedToConstructResource err)], d, w)
      | Inr resource \<Rightarrow>
          (case RetryContext (create_attempt Create resource) (None, w) of
             (Some err, (creationResponse, w1)) \<Rightarrow>
               (Return [Diagnostic Error (FailedToCreateAfterRetries (Name resource) err)], d, w1)
           | (None, (None, w1)) \<Rightarrow> (NilPointerPanic, d, w1)
           | (None, (Some creationResponseID, w1)) \<Rightarrow>
               (case readNoCleanup (d\<lparr>rd_id := creationResponseID\<rparr>) w1 of
                  (diags, d', w') \<Rightarrow> (Return ([] @ diags), d', w'))))"

section \<open>The remote's answers to a run of attempts\<close>

text \<open>
  The remote after \<open>k\<close> attempts of the read's loop, each a fetch by ID followed by a
  fetch by name. It is used where those \<open>k\<close> attempts fail (\<open>attempts_fail\<close>).
\<close>

fun world_after_failures :: "'w api_client \<Rightarrow> int \<Rightarrow> string \<Rightarrow> nat \<Rightarrow> 'w \<Rightarrow> 'w" where
  "world_after_failures conn attributeID attributeName 0 w = w"
| "world_after_failures conn attributeID attributeName (Suc k) w =
     (case GetComputerExtensionAttributeByID conn attributeID w of
        (r1, w1) \<Rightarrow>
          (case GetComputerExtensionAttributeByName conn attributeName w1 of
             (r2, w2) \<Rightarrow> world_after_failures conn attributeID attributeName k w2))"

text \<open>
  What the remote in state \<open>w\<close> gives to one attempt: the answer to the fetch by ID when
  that is a success, otherwise the answer to the fetch by name asked next.
\<close>

definition next_fetch :: "'w api_client \<Rightarrow> int \<Rightarrow> string \<Rightarrow> 'w \<Rightarrow> response \<times> 'w" where
  "next_fetch conn attributeID attributeName w =
     (case GetComputerExtensionAttributeByID conn attributeID w of
        (r1, w1) \<Rightarrow>
          if fetch_failed r1 then GetComputerExtensionAttributeByName conn attributeName w1
          else (r1, w1))"

text \<open>
  The example state before it was ever saved: it holds no ID yet, as the state a create
  receives.
\<close>

definition unsaved_state :: resource_data where
  "unsaved_state = example_state\<lparr>d_id := ''''\<rparr>"

section \<open>The remote's answers to retried calls\<close>

text \<open>
  The remote in state \<open>w\<close> lets \<open>k\<close> create calls in a row fail (each returns an error),
  and the remote after them.
\<close>

fun create_calls_fail ::
    "('p \<Rightarrow> 'w \<Rightarrow> ('i option \<times> api_error option) \<times> 'w) \<Rightarrow> 'p \<Rightarrow> nat \<Rightarrow> 'w \<Rightarrow> bool" where
  "create_calls_fail Create resource 0 w = True"
| "create_calls_fail Create resource (Suc k) w =
     (case Create resource w of
        ((r, None), w1) \<Rightarrow> False
      | ((r, Some e), w1) \<Rightarrow> create_calls_fail Create resource k w1)"

fun world_after_create_calls ::
    "('p \<Rightarrow> 'w \<Rightarrow> ('i option \<times> api_error option) \<times> 'w) \<Rightarrow> 'p \<Rightarrow> nat \<Rightarrow> 'w \<Rightarrow> 'w" where
  "world_after_create_calls Create resource 0 w = w"
| "world_after_create_calls Create resource (Suc k) w =
     world_after_create_calls Create resource k (snd (Create resource w))"

text \<open>
  The remote in state \<open>w\<close> lets \<open>k\<close> delete attempts in a row fail (at each the delete
  by ID returns an error and the delete by name that follows returns one too), and the
  remote after them.
\<close>

fun delete_attempts_fail :: "'w user_search_client \<Rightarrow> int \<Rightarrow> string \<Rightarrow> nat \<Rightarrow> 'w \<Rightarrow> bool" where
  "delete_attempts_fail client resourceIDInt resourceName 0 w = True"
| "delete_attempts_fail client resourceIDInt resourceName (Suc k) w =
     (case DeleteAdvancedUserSearchByID client resourceIDInt w of
        (None, w1) \<Rightarrow> False
      | (Some e1, w1) \<Rightarrow>
          (case DeleteAdvancedUserSearchByName client resourceName w1 of
             (None, w2) \<Rightarrow> False
           | (Some e2, w2) \<Rightarrow> delete_attempts_fail client resourceIDInt resourceName k w2))"

fun world_after_delete_attempts :: "'w user_search_client \<Rightarrow> int \<Rightarrow> string \<Rightarrow> nat \<Rightarrow> 'w \<Rightarrow> 'w" where
  "world_after_delete_attempts client resourceIDInt resourceName 0 w = w"
| "world_after_delete_attempts client resourceIDInt resourceName (Suc k) w =
     (case DeleteAdvancedUserSearchByID client resourceIDInt w of
        (e1, w1) \<Rightarrow>
          (case DeleteAdvancedUserSearchByName client resourceName w1 of
             (e2, w2) \<Rightarrow> world_after_delete_attempts client resourceIDInt resourceName k w2))"

section \<open>Validation of the input type\<close>

text \<open>
  C8. The custom-diff validation returns an error if and only if the \<open>input_type\<close> list
  is missing or empty; or the type is "script" and (the platform is neither "Mac" nor
  "Windows", or the script is empty, or choices is non-empty); or the type is
  "Pop-up Menu" and (choices is empty, or platform is non-empty, or script is
  non-empty); or the type is "Text Field" and (script, choices or platform is
  non-empty). In particular a block of type "LDAP Mapping" always passes, whatever its
  other fields hold.
\<close>

theorem customDiff_error_iff:
  "(customDiffComputerExtensionAttributes diff \<noteq> None \<longleftrightarrow>
      (d_input_type diff = []
       \<or> (\<exists>b rest. d_input_type diff = b # rest \<and>
            ((it_type b = ''script'' \<and>
                ((it_platform b \<noteq> ''Mac'' \<and> it_platform b \<noteq> ''Windows'')
                 \<or> it_script b = '''' \<or> it_choices b \<noteq> []))
             \<or> (it_type b = ''Pop-up Menu'' \<and>
                (it_choices b = [] \<or> it_platform b \<noteq> '''' \<or> it_script b \<noteq> ''''))
             \<or> (it_type b = ''Text Field'' \<and>
                (it_script b \<noteq> '''' \<or> it_choices b \<noteq> [] \<or> it_platform b \<noteq> ''''))))))
   \<and> (\<forall>b rest. d_input_type diff = b # rest \<and> it_type b = ''LDAP Mapping''
          \<longrightarrow> customDiffComputerExtensionAttributes diff = None)"
  by (cases "d_input_type diff")
     (auto simp: customDiffComputerExtensionAttributes_def Let_def)

theorem customDiff_error_iff_witness:
  "customDiffComputerExtensionAttributes
     \<lparr>d_id = ''7'', d_name = ''Battery'', d_enabled = True, d_description = '''',
      d_data_type = ''String'',
      d_input_type = [\<lparr>it_type = ''LDAP Mapping'', it_platform = ''Mac'',
                       it_script = ''echo'', it_choices = [''a'']\<rparr>],
      d_inventory_display = '''', d_recon_display = ''''\<rparr> = None"
  using customDiff_error_iff
    [of "\<lparr>d_id = ''7'', d_name = ''Battery'', d_enabled = True, d_description = '''',
      d_data_type = ''String'',
      d_input_type = [\<lparr>it_type = ''LDAP Mapping'', it_platform = ''Mac'',
                       it_script = ''echo'', it_choices = [''a'']\<rparr>],
      d_inventory_display = '''', d_recon_display = ''''\<rparr>"]
  by simp


section \<open>Concrete runs: helpers\<close>

lemma Atoi_42: "Atoi ''42'' = Some 42"
  by (simp add: Atoi_def is_digit_def)

lemma Atoi_abc: "Atoi ''abc'' = None"
  by (simp add: Atoi_def is_digit_def)

lemmas run_simps =
  scripted_client_def next_answer_def call_def sleep_def start_def fetch_failed_def

section \<open>Delete\<close>

lemma delete_example:
  "ResourceJamfProComputerExtensionAttributesDelete scripted_client example_state
     (start [(None, Some (OtherApiError ''busy'')), (None, None)])
   = ([], example_state\<lparr>d_id := ''''\<rparr>,
      \<lparr>world = [], trace = [DeleteByID 42, DeleteByName ''Battery'']\<rparr>)"
  by (simp add: ResourceJamfProComputerExtensionAttributesDelete_def example_state_def
        Atoi_42 run_simps)

section \<open>Read when the resource is gone\<close>

lemma fetch_loop_example_absent:
  "fetch_loop scripted_client 3 42 ''Battery'' 0 (None, None) (start [])
   = ((None, Some ResourceNotFound),
      \<lparr>world = [], trace = [GetByID 42, GetByName ''Battery'', Sleep 0,
                             GetByID 42, GetByName ''Battery'', Sleep 1,
                             GetByID 42, GetByName ''Battery'', Sleep 2]\<rparr>)"
  by (simp add: fetch_loop.simps run_simps)

text \<open>
  C1. The read of a computer extension attribute against a remote that answers every
  call with "not found" (the attribute was deleted outside Terraform), with three
  attempts: the handler returns an ordinary error diagnostic, "Failed to fetch attribute
  by both ID (42) and name after 3 retries", and leaves the state as it was, the stored ID
  \<open>42\<close> included. The read does not signal that the resource is absent and does not
  clear the ID.
\<close>

theorem read_not_found_keeps_id:
  "ResourceJamfProComputerExtensionAttributesRead scripted_client 3 example_state (start [])
   = ([Diagnostic Error (FailedToFetchByIDAndName 42 3)], example_state,
      \<lparr>world = [], trace = [GetByID 42, GetByName ''Battery'', Sleep 0,
                             GetByID 42, GetByName ''Battery'', Sleep 1,
                             GetByID 42, GetByName ''Battery'', Sleep 2]\<rparr>)"
  by (simp add: ResourceJamfProComputerExtensionAttributesRead_def example_state_def Atoi_42
        fetch_loop_example_absent)

section \<open>The retry loop of the read\<close>

lemma trace_call: "call ev f s = (r, s') \<Longrightarrow> trace s' = trace s @ [ev]"
  by (auto simp: call_def split: prod.splits)

lemma trace_sleep: "trace (sleep i s) = trace s @ [Sleep i]"
  by (simp add: sleep_def)

lemma fetch_loop_trace:
  assumes "fetch_failed cur" and "i \<le> N"
    and "fetch_loop conn N a nm i cur s = (r, s')"
  shows "\<exists>k fin. i + k \<le> N
           \<and> trace s' = trace s @ concat (map (failed_attempt a nm) [i..<i + k]) @ fin
           \<and> (if fetch_failed r then i + k = N \<and> fin = []
               else i + k < N \<and> (fin = [GetByID a] \<or> fin = [GetByID a, GetByName nm]))"
  using assms
proof (induction conn N a nm i cur s rule: fetch_loop.induct)
  case (1 conn N a nm i cur s)
  show ?case
  proof (cases "i < N")
    case False
    with "1.prems" have "i = N" "r = cur" "s' = s"
      by (simp_all add: fetch_loop.simps)
    with "1.prems"(1) show ?thesis
      by (intro exI [of _ 0] exI [of _ "[]"]) simp
  next
    case True
    obtain r1 s1 where c1: "call (GetByID a) (GetComputerExtensionAttributeByID conn a) s = (r1, s1)"
      by (cases "call (GetByID a) (GetComputerExtensionAttributeByID conn a) s")
    have t1: "trace s1 = trace s @ [GetByID a]" using trace_call [OF c1] .
    show ?thesis
    proof (cases "fetch_failed r1")
      case False
      with True c1 "1.prems"(3) have "r = r1" "s' = s1"
        by (simp_all add: fetch_loop.simps)
      with False t1 True show ?thesis
        by (intro exI [of _ 0] exI [of _ "[GetByID a]"]) simp
    next
      case f1: True
      obtain r2 s2 where c2:
        "call (GetByName nm) (GetComputerExtensionAttributeByName conn nm) s1 = (r2, s2)"
        by (cases "call (GetByName nm) (GetComputerExtensionAttributeByName conn nm) s1")
      have t2: "trace s2 = trace s @ [GetByID a, GetByName nm]"
        using trace_call [OF c2] t1 by simp
      show ?thesis
      proof (cases "fetch_failed r2")
        case False
        with True c1 c2 f1 "1.prems"(3) have "r = r2" "s' = s2"
          by (simp_all add: fetch_loop.simps)
        with False t2 True show ?thesis
          by (intro exI [of _ 0] exI [of _ "[GetByID a, GetByName nm]"]) simp
      next
        case f2: True
        from True c1 c2 f1 f2 "1.prems"(3)
        have rec: "fetch_loop conn N a nm (Suc i) r2 (sleep i s2) = (r, s')"
          by (simp add: fetch_loop.simps)
        have e2: "(r2, s2) = (if fetch_failed r1
                 then call (GetByName nm) (GetComputerExtensionAttributeByName conn nm) s1
                 else (r1, s1))"
          using f1 c2 by simp
        have nn: "\<not> \<not> fetch_failed r2" using f2 by simp
        have le: "Suc i \<le> N" using True by simp
        have "\<exists>k fin. Suc i + k \<le> N
           \<and> trace s' = trace (sleep i s2) @ concat (map (failed_attempt a nm) [Suc i..<Suc i + k]) @ fin
           \<and> (if fetch_failed r then Suc i + k = N \<and> fin = []
               else Suc i + k < N \<and> (fin = [GetByID a] \<or> fin = [GetByID a, GetByName nm]))"
          by (rule "1.IH" [OF True c1 [symmetric] e2 nn f2 le rec])
        then obtain k fin where k: "Suc i + k \<le> N"
          and tr: "trace s' = trace (sleep i s2) @ concat (map (failed_attempt a nm) [Suc i..<Suc i + k]) @ fin"
          and fin: "if fetch_failed r then Suc i + k = N \<and> fin = []
               else Suc i + k < N \<and> (fin = [GetByID a] \<or> fin = [GetByID a, GetByName nm])"
          by blast
        have "[i..<i + Suc k] = i # [Suc i..<Suc i + k]"
          by (simp add: upt_conv_Cons)
        with tr t2 have "trace s' = trace s @ concat (map (failed_attempt a nm) [i..<i + Suc k]) @ fin"
          by (simp only: trace_sleep failed_attempt_def list.map concat.simps append.simps append_assoc)
        moreover have "i + Suc k \<le> N" using k by simp
        moreover have "if fetch_failed r then i + Suc k = N \<and> fin = []
               else i + Suc k < N \<and> (fin = [GetByID a] \<or> fin = [GetByID a, GetByName nm])"
          using fin by (simp split: if_splits)
        ultimately show ?thesis
          by blast
      qed
    qed
  qed
qed

section \<open>The results of a read\<close>

lemma Read_result:
  assumes "ResourceJamfProComputerExtensionAttributesRead conn N d s = (diags, d', s')"
  shows "(diags = [] \<and> (\<exists>attributeID attribute.
             Atoi (d_id d) = Some attributeID
             \<and> fetch_loop conn N attributeID (d_name d) 0 (None, None) s = ((Some attribute, None), s')
             \<and> d' = set_state attribute d))
         \<or> (diags = [read_failure d N] \<and> d' = d)"
  using assms
  by (auto simp: ResourceJamfProComputerExtensionAttributesRead_def read_failure_def
        split: option.splits prod.splits)

lemma read_back_loop_result:
  assumes "read_back_loop conn N warn i acc d s = (diags, d', s')"
  shows "diags = [] \<or> (diags = acc @ failed_read_backs warn d N i \<and> d' = d)"
  using assms
proof (induction conn N warn i acc d s rule: read_back_loop.induct)
  case (1 conn N warn i acc d s)
  show ?case
  proof (cases "i < N")
    case False
    with "1.prems" show ?thesis
      by (simp add: read_back_loop.simps failed_read_backs_def)
  next
    case True
    obtain rd d1 s1 where r: "ResourceJamfProComputerExtensionAttributesRead conn N d s = (rd, d1, s1)"
      by (cases "ResourceJamfProComputerExtensionAttributesRead conn N d s")
    show ?thesis
    proof (cases "rd = []")
      case True
      with \<open>i < N\<close> r "1.prems" show ?thesis
        by (simp add: read_back_loop.simps)
    next
      case False
      with Read_result [OF r] have rd: "rd = [read_failure d N]" and d1: "d1 = d"
        by auto
      from False \<open>i < N\<close> r "1.prems"
      have rec: "read_back_loop conn N warn (Suc i)
                   (acc @ [Diagnostic Warning (warn (i + 1))] @ rd) d1 (sleep i s1) = (diags, d', s')"
        by (simp add: read_back_loop.simps)
      have ne: "\<not> length rd = 0" using False by simp
      have "diags = [] \<or> (diags = (acc @ [Diagnostic Warning (warn (i + 1))] @ rd)
                               @ failed_read_backs warn d1 N (Suc i) \<and> d' = d1)"
        by (rule "1.IH" [OF True r [symmetric] refl ne rec])
      moreover have "failed_read_backs warn d N i
           = [Diagnostic Warning (warn (i + 1)), read_failure d N] @ failed_read_backs warn d N (Suc i)"
        using \<open>i < N\<close> by (simp add: failed_read_backs_def upt_conv_Cons)
      ultimately show ?thesis
        using rd d1 by auto
    qed
  qed
qed

section \<open>The stored ID read back\<close>

lemma parse_digits_append:
  "parse_digits (xs @ ys) acc =
     (case parse_digits xs acc of None \<Rightarrow> None | Some a \<Rightarrow> parse_digits ys a)"
  by (induction xs arbitrary: acc) auto

lemma is_digit_char_of: "(n::nat) < 10 \<Longrightarrow> is_digit (char_of (48 + n))"
  by (simp add: is_digit_def)

lemma digit_value_char_of: "(n::nat) < 10 \<Longrightarrow> (of_char (char_of (48 + n)) :: nat) - 48 = n"
  by simp

lemma parse_digits_nat_to_dec: "parse_digits (nat_to_dec n) 0 = Some n"
proof (induction n rule: nat_to_dec.induct)
  case (1 n)
  show ?case
  proof (cases "n < 10")
    case True
    then show ?thesis
      by (subst nat_to_dec.simps) (simp add: is_digit_char_of)
  next
    case False
    have m: "n mod 10 < 10" by simp
    have "parse_digits (nat_to_dec (n div 10) @ [char_of (48 + n mod 10)]) 0
            = Some (n div 10 * 10 + n mod 10)"
      using "1.IH" [OF False] is_digit_char_of [OF m] digit_value_char_of [OF m]
      by (simp add: parse_digits_append)
    with False show ?thesis
      by (subst nat_to_dec.simps) simp
  qed
qed

lemma nat_to_dec_digits: "list_all is_digit (nat_to_dec n)"
proof (induction n rule: nat_to_dec.induct)
  case (1 n)
  show ?case
  proof (cases "n < 10")
    case True
    then show ?thesis
      by (subst nat_to_dec.simps) (simp add: is_digit_char_of)
  next
    case False
    have m: "n mod 10 < 10" by simp
    from False "1.IH" [OF False] is_digit_char_of [OF m] show ?thesis
      by (subst nat_to_dec.simps) simp
  qed
qed

lemma nat_to_dec_Cons: "\<exists>c cs. nat_to_dec n = c # cs \<and> is_digit c"
proof -
  have "nat_to_dec n \<noteq> []"
    by (subst nat_to_dec.simps) simp
  then obtain c cs where "nat_to_dec n = c # cs"
    by (cases "nat_to_dec n") auto
  with nat_to_dec_digits [of n] show ?thesis
    by auto
qed

lemma Atoi_Sprintf_d:
  assumes "- (2 ^ 63) \<le> n" and "n < 2 ^ 63"
  shows "Atoi (Sprintf_d n) = Some n"
proof -
  have sign: "\<not> is_digit CHR ''-''" "\<not> is_digit CHR ''+''"
    by (simp_all add: is_digit_def)
  show ?thesis
  proof (cases "n < 0")
    case True
    obtain c cs where cs: "nat_to_dec (nat (- n)) = c # cs"
      using nat_to_dec_Cons by blast
    have "parse_digits (c # cs) 0 = Some (nat (- n))"
      using parse_digits_nat_to_dec [of "nat (- n)"] cs by simp
    with True assms cs show ?thesis
      by (simp add: Atoi_def Sprintf_d_def del: parse_digits.simps)
  next
    case False
    obtain c cs where cs: "nat_to_dec (nat n) = c # cs" and c: "is_digit c"
      using nat_to_dec_Cons by blast
    from c sign have c': "c \<noteq> CHR ''-''" "c \<noteq> CHR ''+''"
      by auto
    have "parse_digits (c # cs) 0 = Some (nat n)"
      using parse_digits_nat_to_dec [of "nat n"] cs by simp
    with False assms cs c' show ?thesis
      by (simp add: Atoi_def Sprintf_d_def del: parse_digits.simps)
  qed
qed

section \<open>What a successful read writes\<close>

lemma read_example_success:
  "ResourceJamfProComputerExtensionAttributesRead scripted_client 3 example_state
     (start [(Some example_attribute, None)])
   = ([], set_state example_attribute example_state,
      \<lparr>world = [], trace = [GetByID 42]\<rparr>)"
  by (simp add: ResourceJamfProComputerExtensionAttributesRead_def example_state_def Atoi_42
        fetch_loop.simps run_simps)

text \<open>
  C2, as stated, fails: the response of this run has an empty \<open>platform\<close> and an empty
  \<open>script\<close> in its input type and \<open>enabled = false\<close>, the state held \<open>Mac\<close>, \<open>echo\<close> and
  \<open>true\<close>, and the successful read overwrites all three instead of leaving them
  unchanged.
\<close>

theorem read_overwrites_absent_fields_counterexample:
  "fst (ResourceJamfProComputerExtensionAttributesRead scripted_client 3 example_state
          (start [(Some example_attribute, None)])) = []
   \<and> in_Platform (ea_InputType example_attribute) = ''''
   \<and> in_Script (ea_InputType example_attribute) = ''''
   \<and> map it_platform (d_input_type example_state) = [''Mac'']
   \<and> map it_script (d_input_type example_state) = [''echo'']
   \<and> map it_platform (d_input_type (fst (snd
         (ResourceJamfProComputerExtensionAttributesRead scripted_client 3 example_state
            (start [(Some example_attribute, None)]))))) = ['''']
   \<and> map it_script (d_input_type (fst (snd
         (ResourceJamfProComputerExtensionAttributesRead scripted_client 3 example_state
            (start [(Some example_attribute, None)]))))) = ['''']"
  by (simp add: read_example_success)
     (simp add: example_state_def example_attribute_def set_state_def)

text \<open>
  C2, amended. A read that returns no diagnostic has fetched an attribute, and the state
  it leaves is the state before with: the stored ID unchanged; each of \<open>name\<close>,
  \<open>description\<close>, \<open>data_type\<close>, \<open>inventory_display\<close> and \<open>recon_display\<close> overwritten with the
  response's field exactly when that field is non-empty, and unchanged otherwise;
  \<open>enabled\<close> always overwritten with the response's value; \<open>input_type\<close> always
  replaced by one block holding the response's type, platform, script and choices,
  empty or not.
\<close>

theorem read_success_writes:
  assumes "ResourceJamfProComputerExtensionAttributesRead conn N d s = ([], d', s')"
  shows "\<exists>attributeID attribute.
           Atoi (d_id d) = Some attributeID
           \<and> fetch_loop conn N attributeID (d_name d) 0 (None, None) s = ((Some attribute, None), s')
           \<and> d_id d' = d_id d
           \<and> d_name d' = (if ea_Name attribute \<noteq> '''' then ea_Name attribute else d_name d)
           \<and> d_description d' =
                (if ea_Description attribute \<noteq> '''' then ea_Description attribute else d_description d)
           \<and> d_data_type d' =
                (if ea_DataType attribute \<noteq> '''' then ea_DataType attribute else d_data_type d)
           \<and> d_inventory_display d' =
                (if ea_InventoryDisplay attribute \<noteq> '''' then ea_InventoryDisplay attribute
                 else d_inventory_display d)
           \<and> d_recon_display d' =
                (if ea_ReconDisplay attribute \<noteq> '''' then ea_ReconDisplay attribute
                 else d_recon_display d)
           \<and> d_enabled d' = ea_Enabled attribute
           \<and> d_input_type d' =
                [\<lparr>it_type = in_Type (ea_InputType attribute),
                  it_platform = in_Platform (ea_InputType attribute),
                  it_script = in_Script (ea_InputType attribute),
                  it_choices = in_Choices (ea_InputType attribute)\<rparr>]"
proof -
  from Read_result [OF assms] obtain attributeID attribute where
    "Atoi (d_id d) = Some attributeID"
    "fetch_loop conn N attributeID (d_name d) 0 (None, None) s = ((Some attribute, None), s')"
    "d' = set_state attribute d"
    by auto
  then show ?thesis
    by (intro exI [of _ attributeID] exI [of _ attribute]) (simp add: set_state_def Let_def)
qed

theorem read_success_writes_witness:
  "ResourceJamfProComputerExtensionAttributesRead scripted_client 3 example_state
     (start [(Some example_attribute, None)])
   = ([], set_state example_attribute example_state, \<lparr>world = [], trace = [GetByID 42]\<rparr>)
   \<and> d_id (set_state example_attribute example_state) = ''42''
   \<and> d_enabled (set_state example_attribute example_state) = False
   \<and> d_description (set_state example_attribute example_state) = ''old''"
proof -
  from read_success_writes [OF read_example_success]
  obtain attributeID attribute where
    f: "fetch_loop scripted_client 3 attributeID (d_name example_state) 0 (None, None)
          (start [(Some example_attribute, None)])
        = ((Some attribute, None), \<lparr>world = [], trace = [GetByID 42]\<rparr>)"
    and i: "d_id (set_state example_attribute example_state) = d_id example_state"
    and e: "d_enabled (set_state example_attribute example_state) = ea_Enabled attribute"
    and d: "d_description (set_state example_attribute example_state) =
              (if ea_Description attribute \<noteq> '''' then ea_Description attribute
               else d_description example_state)"
    by blast
  from f have "attribute = example_attribute"
    by (simp add: fetch_loop.simps run_simps split: if_splits)
  with i e d read_example_success show ?thesis
    by (simp add: example_state_def example_attribute_def)
qed

section \<open>What is returned when the attempts are used up\<close>

lemma fetch_loop_example_failing:
  "fetch_loop scripted_client 2 42 ''Battery'' 0 (None, None)
     (start [(None, Some (OtherApiError ''e1'')), (None, Some (OtherApiError ''e2'')),
             (None, Some (OtherApiError ''e3'')), (None, Some (OtherApiError ''e4''))])
   = ((None, Some (OtherApiError ''e4'')),
      \<lparr>world = [], trace = [GetByID 42, GetByName ''Battery'', Sleep 0,
                             GetByID 42, GetByName ''Battery'', Sleep 1]\<rparr>)"
  by (simp add: fetch_loop.simps run_simps)

lemma read_example_failing:
  "ResourceJamfProComputerExtensionAttributesRead scripted_client 2 example_state
     (start [(None, Some (OtherApiError ''e1'')), (None, Some (OtherApiError ''e2'')),
             (None, Some (OtherApiError ''e3'')), (None, Some (OtherApiError ''e4''))])
   = ([Diagnostic Error (FailedToFetchByIDAndName 42 2)], example_state,
      \<lparr>world = [], trace = [GetByID 42, GetByName ''Battery'', Sleep 0,
                             GetByID 42, GetByName ''Battery'', Sleep 1]\<rparr>)"
  by (simp add: ResourceJamfProComputerExtensionAttributesRead_def example_state_def Atoi_42
        fetch_loop_example_failing)

text \<open>
  C4, as stated, fails: with two attempts whose four API calls fail with the errors
  \<open>e1\<close> to \<open>e4\<close>, the read returns the one diagnostic "Failed to fetch attribute by both
  ID (42) and name after 2 retries", which is not the error \<open>e4\<close> of the last failed call.
\<close>

theorem read_exhausted_not_last_error_counterexample:
  "fst (ResourceJamfProComputerExtensionAttributesRead scripted_client 2 example_state
          (start [(None, Some (OtherApiError ''e1'')), (None, Some (OtherApiError ''e2'')),
                  (None, Some (OtherApiError ''e3'')), (None, Some (OtherApiError ''e4''))]))
   = [Diagnostic Error (FailedToFetchByIDAndName 42 2)]
   \<and> fst (ResourceJamfProComputerExtensionAttributesRead scripted_client 2 example_state
          (start [(None, Some (OtherApiError ''e1'')), (None, Some (OtherApiError ''e2'')),
                  (None, Some (OtherApiError ''e3'')), (None, Some (OtherApiError ''e4''))]))
   \<noteq> [Diagnostic Error (FromErr (OtherApiError ''e4''))]"
  by (simp add: read_example_failing)

lemma Sprintf_d_42: "Sprintf_d 42 = ''42''"
  by code_simp

section \<open>Which calls are retried\<close>

lemma Read_trace:
  assumes "ResourceJamfProComputerExtensionAttributesRead conn N d s = (diags, d', s')"
    and "Atoi (d_id d) = Some i"
  shows "\<exists>k fin. k \<le> N
           \<and> trace s' = trace s @ concat (map (failed_attempt i (d_name d)) [0..<k]) @ fin
           \<and> (if diags = [] then k < N \<and> (fin = [GetByID i] \<or> fin = [GetByID i, GetByName (d_name d)])
               else k = N \<and> fin = [])"
proof -
  obtain r s1 where f: "fetch_loop conn N i (d_name d) 0 (None, None) s = (r, s1)"
    by (cases "fetch_loop conn N i (d_name d) 0 (None, None) s")
  have s1: "s' = s1" and dg: "diags = [] \<longleftrightarrow> \<not> fetch_failed r"
    using assms f
    by (auto simp: ResourceJamfProComputerExtensionAttributesRead_def fetch_failed_def
          split: option.splits prod.splits)
  have "fetch_failed (None, None)"
    by (simp add: fetch_failed_def)
  from fetch_loop_trace [OF this _ f] s1 dg show ?thesis
    by auto
qed

lemma Read_events:
  assumes "ResourceJamfProComputerExtensionAttributesRead conn N d s = (diags, d', s')"
  shows "\<exists>es. trace s' = trace s @ es \<and> list_all fetch_event es
            \<and> (\<forall>i. GetByID i \<in> set es \<longrightarrow> Atoi (d_id d) = Some i)"
proof (cases "Atoi (d_id d)")
  case None
  with assms have "s' = s"
    by (simp add: ResourceJamfProComputerExtensionAttributesRead_def)
  then show ?thesis by simp
next
  case (Some i)
  from Read_trace [OF assms Some] obtain k fin where
    t: "trace s' = trace s @ concat (map (failed_attempt i (d_name d)) [0..<k]) @ fin"
    and fin: "fin = [] \<or> fin = [GetByID i] \<or> fin = [GetByID i, GetByName (d_name d)]"
    by (auto split: if_splits)
  have "list_all fetch_event (concat (map (failed_attempt i (d_name d)) [0..<k]) @ fin)"
    using fin by (auto simp: list_all_iff failed_attempt_def)
  moreover have "\<forall>j. GetByID j \<in> set (concat (map (failed_attempt i (d_name d)) [0..<k]) @ fin)
                   \<longrightarrow> Atoi (d_id d) = Some j"
    using fin Some by (auto simp: failed_attempt_def)
  ultimately show ?thesis
    using t by blast
qed

lemma Read_keeps_id:
  assumes "ResourceJamfProComputerExtensionAttributesRead conn N d s = (diags, d', s')"
  shows "d_id d' = d_id d"
  using Read_result [OF assms] by (auto simp: set_state_def Let_def)

lemma read_back_loop_events:
  assumes "read_back_loop conn N warn i acc d s = (diags, d', s')"
  shows "d_id d' = d_id d
       \<and> (\<exists>es. trace s' = trace s @ es \<and> list_all fetch_event es
            \<and> (\<forall>j. GetByID j \<in> set es \<longrightarrow> Atoi (d_id d) = Some j))"
  using assms
proof (induction conn N warn i acc d s rule: read_back_loop.induct)
  case (1 conn N warn i acc d s)
  show ?case
  proof (cases "i < N")
    case False
    with "1.prems" show ?thesis
      by (simp add: read_back_loop.simps)
  next
    case True
    obtain rd d1 s1 where r: "ResourceJamfProComputerExtensionAttributesRead conn N d s = (rd, d1, s1)"
      by (cases "ResourceJamfProComputerExtensionAttributesRead conn N d s")
    from Read_events [OF r] obtain es where
      es: "trace s1 = trace s @ es" "list_all fetch_event es"
          "\<forall>j. GetByID j \<in> set es \<longrightarrow> Atoi (d_id d) = Some j"
      by blast
    note id1 = Read_keeps_id [OF r]
    show ?thesis
    proof (cases "rd = []")
      case True
      with \<open>i < N\<close> r "1.prems" have "d' = d1" "s' = s1"
        by (simp_all add: read_back_loop.simps)
      with es id1 show ?thesis by blast
    next
      case False
      from False \<open>i < N\<close> r "1.prems"
      have rec: "read_back_loop conn N warn (Suc i)
                   (acc @ [Diagnostic Warning (warn (i + 1))] @ rd) d1 (sleep i s1) = (diags, d', s')"
        by (simp add: read_back_loop.simps)
      have ne: "\<not> length rd = 0" using False by simp
      from "1.IH" [OF True r [symmetric] refl ne rec] obtain es' where
        es': "d_id d' = d_id d1" "trace s' = trace (sleep i s1) @ es'" "list_all fetch_event es'"
          "\<forall>j. GetByID j \<in> set es' \<longrightarrow> Atoi (d_id d1) = Some j"
        by blast
      have "trace s' = trace s @ (es @ Sleep i # es')"
        using es(1) es'(2) by (simp add: trace_sleep)
      moreover have "list_all fetch_event (es @ Sleep i # es')"
        using es(2) es'(3) by simp
      moreover have "\<forall>j. GetByID j \<in> set (es @ Sleep i # es') \<longrightarrow> Atoi (d_id d) = Some j"
        using es(3) es'(4) id1 by auto
      ultimately show ?thesis
        using es'(1) id1 by (intro conjI exI [of _ "es @ Sleep i # es'"]) simp_all
    qed
  qed
qed

lemma Create_trace:
  assumes "ResourceJamfProComputerExtensionAttributesCreate conn N d s = (out, d', s')"
  shows "case constructComputerExtensionAttribute d of
           None \<Rightarrow> s' = s
         | Some attribute \<Rightarrow>
             (\<exists>rest. trace s' = trace s @ CreateCall attribute # rest \<and> list_all fetch_event rest)"
proof (cases "constructComputerExtensionAttribute d")
  case None
  with assms show ?thesis
    by (simp add: ResourceJamfProComputerExtensionAttributesCreate_def)
next
  case (Some attribute)
  obtain createdAttribute err w1 where
    c: "CreateComputerExtensionAttribute conn attribute (world s) = ((createdAttribute, err), w1)"
    by (metis surj_pair)
  let ?s1 = "\<lparr>world = w1, trace = trace s @ [CreateCall attribute]\<rparr>"
  show ?thesis
  proof (cases "err = None \<and> createdAttribute \<noteq> None")
    case False
    with assms Some c have "s' = ?s1"
      by (auto simp: ResourceJamfProComputerExtensionAttributesCreate_def call_def
            split: option.splits)
    with Some show ?thesis by simp
  next
    case True
    then obtain created where cr: "createdAttribute = Some created" "err = None"
      by auto
    from assms Some c cr obtain diags where
      rb: "read_back_loop conn N ReadAttemptFailed 0 [] (d\<lparr>d_id := Sprintf_d (ea_ID created)\<rparr>) ?s1
             = (diags, d', s')"
      by (auto simp: ResourceJamfProComputerExtensionAttributesCreate_def call_def
            split: prod.splits)
    from read_back_loop_events [OF rb] obtain es where
      "trace s' = trace ?s1 @ es" "list_all fetch_event es"
      by blast
    with Some show ?thesis by simp
  qed
qed

lemma Create_call_fails:
  assumes "constructComputerExtensionAttribute d = Some attribute"
    and "CreateComputerExtensionAttribute conn attribute (world s) = ((x, Some e), w1)"
  shows "ResourceJamfProComputerExtensionAttributesCreate conn N d s
           = (Return [Diagnostic Error (FromErr e)], d,
              \<lparr>world = w1, trace = trace s @ [CreateCall attribute]\<rparr>)"
  using assms by (simp add: ResourceJamfProComputerExtensionAttributesCreate_def call_def)

lemma create_example_first_call_fails:
  "ResourceJamfProComputerExtensionAttributesCreate scripted_client 3 example_state
     (start [(None, Some (OtherApiError ''timeout'')), (Some example_attribute, None),
             (Some example_attribute, None)])
   = (Return [Diagnostic Error (FromErr (OtherApiError ''timeout''))], example_state,
      \<lparr>world = [(Some example_attribute, None), (Some example_attribute, None)],
       trace = [CreateCall (the (constructComputerExtensionAttribute example_state))]\<rparr>)"
  by (simp add: ResourceJamfProComputerExtensionAttributesCreate_def
        constructComputerExtensionAttribute_def example_state_def run_simps)

text \<open>
  C3, as stated, fails: with three attempts allowed, a create whose first call to the API
  fails with a transient error returns that error at once. The trace holds the one
  create call and no sleep, and the answers the remote had ready for a second attempt,
  which would have succeeded, are still unused.
\<close>

theorem create_call_not_retried_counterexample:
  "fst (ResourceJamfProComputerExtensionAttributesCreate scripted_client 3 example_state
          (start [(None, Some (OtherApiError ''timeout'')), (Some example_attribute, None),
                  (Some example_attribute, None)]))
     = Return [Diagnostic Error (FromErr (OtherApiError ''timeout''))]
   \<and> trace (snd (snd (ResourceJamfProComputerExtensionAttributesCreate scripted_client 3
        example_state
          (start [(None, Some (OtherApiError ''timeout'')), (Some example_attribute, None),
                  (Some example_attribute, None)]))))
     = [CreateCall (the (constructComputerExtensionAttribute example_state))]
   \<and> world (snd (snd (ResourceJamfProComputerExtensionAttributesCreate scripted_client 3
        example_state
          (start [(None, Some (OtherApiError ''timeout'')), (Some example_attribute, None),
                  (Some example_attribute, None)]))))
     = [(Some example_attribute, None), (Some example_attribute, None)]"
  by (simp add: create_example_first_call_fails)

section \<open>The fallback to the name\<close>

lemma world_sleep: "world (sleep i s) = world s"
  by (simp add: sleep_def)

lemma fetch_loop_fails_iff:
  assumes "fetch_failed cur" and "i \<le> N"
  shows "fetch_failed (fst (fetch_loop conn N a nm i cur s))
           \<longleftrightarrow> attempts_fail conn a nm (N - i) (world s)"
  using assms
proof (induction conn N a nm i cur s rule: fetch_loop.induct)
  case (1 conn N a nm i cur s)
  show ?case
  proof (cases "i < N")
    case False
    with "1.prems" show ?thesis
      by (simp add: fetch_loop.simps)
  next
    case True
    then obtain k where k: "N - i = Suc k" "N - Suc i = k"
      by (cases "N - i") auto
    obtain r1 w1 where g1: "GetComputerExtensionAttributeByID conn a (world s) = (r1, w1)"
      by (cases "GetComputerExtensionAttributeByID conn a (world s)")
    let ?s1 = "\<lparr>world = w1, trace = trace s @ [GetByID a]\<rparr>"
    have c1: "call (GetByID a) (GetComputerExtensionAttributeByID conn a) s = (r1, ?s1)"
      using g1 by (simp add: call_def)
    show ?thesis
    proof (cases "fetch_failed r1")
      case False
      with True c1 g1 k show ?thesis
        by (simp add: fetch_loop.simps)
    next
      case f1: True
      obtain r2 w2 where g2: "GetComputerExtensionAttributeByName conn nm w1 = (r2, w2)"
        by (cases "GetComputerExtensionAttributeByName conn nm w1")
      let ?s2 = "\<lparr>world = w2, trace = trace ?s1 @ [GetByName nm]\<rparr>"
      have c2: "call (GetByName nm) (GetComputerExtensionAttributeByName conn nm) ?s1 = (r2, ?s2)"
        using g2 by (simp add: call_def)
      show ?thesis
      proof (cases "fetch_failed r2")
        case False
        with True c1 c2 f1 g1 g2 k show ?thesis
          by (simp add: fetch_loop.simps)
      next
        case f2: True
        have e2: "(r2, ?s2) = (if fetch_failed r1
                 then call (GetByName nm) (GetComputerExtensionAttributeByName conn nm) ?s1
                 else (r1, ?s1))"
          using f1 c2 by simp
        have nn: "\<not> \<not> fetch_failed r2" using f2 by simp
        have le: "Suc i \<le> N" using True by simp
        have "fetch_failed (fst (fetch_loop conn N a nm (Suc i) r2 (sleep i ?s2)))
                \<longleftrightarrow> attempts_fail conn a nm (N - Suc i) (world (sleep i ?s2))"
          by (rule "1.IH" [OF True c1 [symmetric] e2 nn f2 le])
        moreover have "fetch_loop conn N a nm i cur s
                         = fetch_loop conn N a nm (Suc i) r2 (sleep i ?s2)"
          using True c1 c2 f1 f2 by (subst fetch_loop.simps) simp
        ultimately show ?thesis
          using g1 g2 f1 f2 k by (simp add: world_sleep)
      qed
    qed
  qed
qed

lemma Read_fails_iff:
  assumes "Atoi (d_id d) = Some i"
  shows "fst (ResourceJamfProComputerExtensionAttributesRead conn N d s) \<noteq> []
           \<longleftrightarrow> attempts_fail conn i (d_name d) N (world s)"
proof -
  have "fetch_failed (None, None)"
    by (simp add: fetch_failed_def)
  from fetch_loop_fails_iff [OF this, of 0 N conn i "d_name d" s]
  have "fetch_failed (fst (fetch_loop conn N i (d_name d) 0 (None, None) s))
           \<longleftrightarrow> attempts_fail conn i (d_name d) N (world s)"
    by simp
  moreover have "fst (ResourceJamfProComputerExtensionAttributesRead conn N d s) \<noteq> []
           \<longleftrightarrow> fetch_failed (fst (fetch_loop conn N i (d_name d) 0 (None, None) s))"
    using assms
    by (auto simp: ResourceJamfProComputerExtensionAttributesRead_def fetch_failed_def
          split: option.splits prod.splits)
  ultimately show ?thesis by simp
qed

lemma Update_fallback:
  assumes "Atoi (d_id d) = Some i"
    and "UpdateComputerExtensionAttributeByID conn i (constructComputerExtensionAttribute d)
           (world s) = ((u1, e1), w1)"
    and "UpdateComputerExtensionAttributeByName conn (d_name d)
           (constructComputerExtensionAttribute d) w1 = ((u2, e2), w2)"
  shows "(e1 \<noteq> None \<and> e2 \<noteq> None \<longrightarrow>
            ResourceJamfProComputerExtensionAttributesUpdate conn N d s
              = (Return [Diagnostic Error (FromErr (the e2))], d,
                 \<lparr>world = w2,
                  trace = trace s @ [UpdateByID i (constructComputerExtensionAttribute d),
                                     UpdateByName (d_name d) (constructComputerExtensionAttribute d)]\<rparr>))
       \<and> (e1 = None \<longrightarrow> (\<forall>updated. u1 = Some updated \<longrightarrow>
            ResourceJamfProComputerExtensionAttributesUpdate conn N d s
              = (case read_back_loop conn N ReadAttemptFailedAfterUpdate 0 []
                        (d\<lparr>d_id := Sprintf_d (ea_ID updated)\<rparr>)
                        \<lparr>world = w1,
                         trace = trace s @ [UpdateByID i (constructComputerExtensionAttribute d)]\<rparr> of
                   (diags, d', s') \<Rightarrow> (Return diags, d', s'))))
       \<and> (e1 \<noteq> None \<and> e2 = None \<longrightarrow> (\<forall>updated. u2 = Some updated \<longrightarrow>
            ResourceJamfProComputerExtensionAttributesUpdate conn N d s
              = (case read_back_loop conn N ReadAttemptFailedAfterUpdate 0 []
                        (d\<lparr>d_id := Sprintf_d (ea_ID updated)\<rparr>)
                        \<lparr>world = w2,
                         trace = trace s @ [UpdateByID i (constructComputerExtensionAttribute d),
                                            UpdateByName (d_name d)
                                              (constructComputerExtensionAttribute d)]\<rparr> of
                   (diags, d', s') \<Rightarrow> (Return diags, d', s'))))"
  using assms
  by (auto simp: ResourceJamfProComputerExtensionAttributesUpdate_def call_def Let_def
        split: option.splits)

lemma read_example_bad_id:
  "ResourceJamfProComputerExtensionAttributesRead scripted_client 3
     (example_state\<lparr>d_id := ''abc''\<rparr>) (start [(Some example_attribute, None)])
   = ([Diagnostic Error (FailedToParseAttributeID ''abc'')],
      example_state\<lparr>d_id := ''abc''\<rparr>, start [(Some example_attribute, None)])"
  by (simp add: ResourceJamfProComputerExtensionAttributesRead_def example_state_def Atoi_abc)

lemma update_example_read_back_fails:
  "ResourceJamfProComputerExtensionAttributesUpdate scripted_client 1 example_state
     (start [(Some example_attribute, None)])
   = (Return [Diagnostic Warning (ReadAttemptFailedAfterUpdate 1),
              Diagnostic Error (FailedToFetchByIDAndName 42 1)],
      example_state,
      \<lparr>world = [],
       trace = [UpdateByID 42 (constructComputerExtensionAttribute example_state),
                GetByID 42, GetByName ''Battery'', Sleep 0, Sleep 0]\<rparr>)"
  by (simp add: ResourceJamfProComputerExtensionAttributesUpdate_def
        ResourceJamfProComputerExtensionAttributesRead_def read_back_loop.simps fetch_loop.simps
        constructComputerExtensionAttribute_def example_state_def example_attribute_def
        Sprintf_d_42 Atoi_42 run_simps)

text \<open>
  C9, as stated, fails. A read whose stored ID is \<open>abc\<close> (an ID given to an import can be
  any string) returns an error although no API call failed: none was made, and the
  remote would have answered the fetch with the attribute. An update whose call by ID
  succeeds returns diagnostics all the same when the read that follows it fails.
\<close>

theorem error_without_both_calls_failing_counterexample:
  "ResourceJamfProComputerExtensionAttributesRead scripted_client 3
     (example_state\<lparr>d_id := ''abc''\<rparr>) (start [(Some example_attribute, None)])
   = ([Diagnostic Error (FailedToParseAttributeID ''abc'')],
      example_state\<lparr>d_id := ''abc''\<rparr>,
      start [(Some example_attribute, None)])
   \<and> trace (start [(Some example_attribute, None)] :: response list session) = []
   \<and> ResourceJamfProComputerExtensionAttributesUpdate scripted_client 1 example_state
       (start [(Some example_attribute, None)])
     = (Return [Diagnostic Warning (ReadAttemptFailedAfterUpdate 1),
                Diagnostic Error (FailedToFetchByIDAndName 42 1)],
        example_state,
        \<lparr>world = [],
         trace = [UpdateByID 42 (constructComputerExtensionAttribute example_state),
                  GetByID 42, GetByName ''Battery'', Sleep 0, Sleep 0]\<rparr>)"
  using read_example_bad_id update_example_read_back_fails
  by (simp add: start_def)

section \<open>Reading again after a create\<close>








section \<open>The steps of a create\<close>

lemma template_example_second_call_succeeds:
  "template_create scripted_client 3 example_state
     (start [(None, Some (OtherApiError ''timeout'')), (Some example_attribute, None),
             (Some example_attribute, None)])
   = (Return [], set_state example_attribute example_state,
      \<lparr>world = [],
       trace = [CreateCall (the (constructComputerExtensionAttribute example_state)), Sleep 0,
                CreateCall (the (constructComputerExtensionAttribute example_state)),
                GetByID 42]\<rparr>)"
  by (simp add: template_create_def create_call_retry_loop.simps
        ResourceJamfProComputerExtensionAttributesRead_def fetch_loop.simps
        constructComputerExtensionAttribute_def example_state_def example_attribute_def
        Sprintf_d_42 Atoi_42 run_simps)

text \<open>
  C5, as stated, fails for the computer extension attribute: its create is not the
  four-step template with the create call wrapped in a retry loop. Where the first
  create call fails and a second would succeed, the template creates the resource and
  reads it back; the source makes one call and returns its error.
\<close>

theorem create_is_not_the_template_counterexample:
  "fst (template_create scripted_client 3 example_state
          (start [(None, Some (OtherApiError ''timeout'')), (Some example_attribute, None),
                  (Some example_attribute, None)])) = Return []
   \<and> fst (ResourceJamfProComputerExtensionAttributesCreate scripted_client 3 example_state
          (start [(None, Some (OtherApiError ''timeout'')), (Some example_attribute, None),
                  (Some example_attribute, None)]))
       = Return [Diagnostic Error (FromErr (OtherApiError ''timeout''))]
   \<and> ResourceJamfProComputerExtensionAttributesCreate scripted_client 3 example_state
          (start [(None, Some (OtherApiError ''timeout'')), (Some example_attribute, None),
                  (Some example_attribute, None)])
       \<noteq> template_create scripted_client 3 example_state
          (start [(None, Some (OtherApiError ''timeout'')), (Some example_attribute, None),
                  (Some example_attribute, None)])"
  by (simp add: template_example_second_call_succeeds create_example_first_call_fails)

lemma Create_steps:
  assumes "ResourceJamfProComputerExtensionAttributesCreate conn N d s = (out, d', s')"
  shows "(constructComputerExtensionAttribute d = None
            \<longrightarrow> out = Return [Diagnostic Error FailedToConstruct] \<and> d' = d \<and> s' = s)
       \<and> (\<forall>attribute. constructComputerExtensionAttribute d = Some attribute \<longrightarrow>
            (\<exists>r w1 rest.
               CreateComputerExtensionAttribute conn attribute (world s) = (r, w1)
               \<and> trace s' = trace s @ CreateCall attribute # rest
               \<and> list_all fetch_event rest
               \<and> (\<forall>e. snd r = Some e
                      \<longrightarrow> out = Return [Diagnostic Error (FromErr e)] \<and> d' = d \<and> rest = [])
               \<and> (\<forall>created. r = (Some created, None)
                      \<longrightarrow> d_id d' = Sprintf_d (ea_ID created)
                          \<and> (\<forall>j. GetByID j \<in> set rest
                                \<longrightarrow> Atoi (Sprintf_d (ea_ID created)) = Some j)
                          \<and> (out = Return []
                              \<or> out = Return (failed_read_backs ReadAttemptFailed
                                                (d\<lparr>d_id := Sprintf_d (ea_ID created)\<rparr>) N 0)
                                \<and> d' = d\<lparr>d_id := Sprintf_d (ea_ID created)\<rparr>))))"
proof (rule conjI)
  show "constructComputerExtensionAttribute d = None
            \<longrightarrow> out = Return [Diagnostic Error FailedToConstruct] \<and> d' = d \<and> s' = s"
    using assms by (auto simp: ResourceJamfProComputerExtensionAttributesCreate_def)
next
  show "\<forall>attribute. constructComputerExtensionAttribute d = Some attribute \<longrightarrow>
            (\<exists>r w1 rest.
               CreateComputerExtensionAttribute conn attribute (world s) = (r, w1)
               \<and> trace s' = trace s @ CreateCall attribute # rest
               \<and> list_all fetch_event rest
               \<and> (\<forall>e. snd r = Some e
                      \<longrightarrow> out = Return [Diagnostic Error (FromErr e)] \<and> d' = d \<and> rest = [])
               \<and> (\<forall>created. r = (Some created, None)
                      \<longrightarrow> d_id d' = Sprintf_d (ea_ID created)
                          \<and> (\<forall>j. GetByID j \<in> set rest
                                \<longrightarrow> Atoi (Sprintf_d (ea_ID created)) = Some j)
                          \<and> (out = Return []
                              \<or> out = Return (failed_read_backs ReadAttemptFailed
                                                (d\<lparr>d_id := Sprintf_d (ea_ID created)\<rparr>) N 0)
                                \<and> d' = d\<lparr>d_id := Sprintf_d (ea_ID created)\<rparr>)))"
  proof (intro allI impI)
    fix attribute
    assume c: "constructComputerExtensionAttribute d = Some attribute"
    obtain createdAttribute err w1 where
      a: "CreateComputerExtensionAttribute conn attribute (world s) = ((createdAttribute, err), w1)"
      by (metis surj_pair)
    let ?s1 = "\<lparr>world = w1, trace = trace s @ [CreateCall attribute]\<rparr>"
    let ?P = "\<lambda>rest.
               trace s' = trace s @ CreateCall attribute # rest
               \<and> list_all fetch_event rest
               \<and> (\<forall>e. snd (createdAttribute, err) = Some e
                      \<longrightarrow> out = Return [Diagnostic Error (FromErr e)] \<and> d' = d \<and> rest = [])
               \<and> (\<forall>created. (createdAttribute, err) = (Some created, None)
                      \<longrightarrow> d_id d' = Sprintf_d (ea_ID created)
                          \<and> (\<forall>j. GetByID j \<in> set rest
                                \<longrightarrow> Atoi (Sprintf_d (ea_ID created)) = Some j)
                          \<and> (out = Return []
                              \<or> out = Return (failed_read_backs ReadAttemptFailed
                                                (d\<lparr>d_id := Sprintf_d (ea_ID created)\<rparr>) N 0)
                                \<and> d' = d\<lparr>d_id := Sprintf_d (ea_ID created)\<rparr>))"
    have "\<exists>rest. ?P rest"
    proof (cases "err = None \<and> createdAttribute \<noteq> None")
      case False
      with assms c a have "s' = ?s1" "d' = d"
        "\<forall>e. err = Some e \<longrightarrow> out = Return [Diagnostic Error (FromErr e)]"
        by (auto simp: ResourceJamfProComputerExtensionAttributesCreate_def call_def
              split: option.splits)
      with False have "?P []" by auto
      then show ?thesis ..
    next
      case True
      then obtain created where cr: "createdAttribute = Some created" "err = None"
        by auto
      let ?d1 = "d\<lparr>d_id := Sprintf_d (ea_ID created)\<rparr>"
      from assms c a cr obtain diags where
        rb: "read_back_loop conn N ReadAttemptFailed 0 [] ?d1 ?s1 = (diags, d', s')"
        and out: "out = Return diags"
        by (auto simp: ResourceJamfProComputerExtensionAttributesCreate_def call_def
              split: prod.splits)
      from read_back_loop_events [OF rb] obtain rest where
        id: "d_id d' = d_id ?d1"
        and t: "trace s' = trace ?s1 @ rest"
        and ev: "list_all fetch_event rest"
        and by_id: "\<forall>j. GetByID j \<in> set rest \<longrightarrow> Atoi (d_id ?d1) = Some j"
        by blast
      from read_back_loop_result [OF rb]
      have res: "diags = [] \<or> diags = failed_read_backs ReadAttemptFailed ?d1 N 0 \<and> d' = ?d1"
        by simp
      from id t ev by_id res out cr have "?P rest"
        by auto
      then show ?thesis ..
    qed
    with a show "\<exists>r w1 rest.
               CreateComputerExtensionAttribute conn attribute (world s) = (r, w1)
               \<and> trace s' = trace s @ CreateCall attribute # rest
               \<and> list_all fetch_event rest
               \<and> (\<forall>e. snd r = Some e
                      \<longrightarrow> out = Return [Diagnostic Error (FromErr e)] \<and> d' = d \<and> rest = [])
               \<and> (\<forall>created. r = (Some created, None)
                      \<longrightarrow> d_id d' = Sprintf_d (ea_ID created)
                          \<and> (\<forall>j. GetByID j \<in> set rest
                                \<longrightarrow> Atoi (Sprintf_d (ea_ID created)) = Some j)
                          \<and> (out = Return []
                              \<or> out = Return (failed_read_backs ReadAttemptFailed
                                                (d\<lparr>d_id := Sprintf_d (ea_ID created)\<rparr>) N 0)
                                \<and> d' = d\<lparr>d_id := Sprintf_d (ea_ID created)\<rparr>))"
      by (elim exE) (rule exI [of _ "(createdAttribute, err)"], rule exI [of _ w1], rule exI, rule conjI, assumption+)
  qed
qed

lemma Sprintf_d_7: "Sprintf_d 7 = ''7''"
  by code_simp

section \<open>The read in terms of the remote's answers\<close>

lemma attempts_fail_add:
  "attempts_fail conn a nm (j + k) w
     \<longleftrightarrow> attempts_fail conn a nm j w
         \<and> attempts_fail conn a nm k (world_after_failures conn a nm j w)"
  by (induction j arbitrary: w) (auto split: prod.splits)

lemma world_after_failures_add:
  "world_after_failures conn a nm (j + k) w
     = world_after_failures conn a nm k (world_after_failures conn a nm j w)"
  by (induction j arbitrary: w) (auto split: prod.splits)

lemma fetch_loop_skip_failures:
  assumes "attempts_fail conn a nm k (world s)" and "i + k \<le> N" and "fetch_failed cur"
  shows "\<exists>cur'. fetch_failed cur'
           \<and> fetch_loop conn N a nm i cur s
               = fetch_loop conn N a nm (i + k) cur'
                   \<lparr>world = world_after_failures conn a nm k (world s),
                    trace = trace s @ concat (map (failed_attempt a nm) [i..<i + k])\<rparr>"
  using assms
proof (induction k arbitrary: i cur s)
  case 0
  then show ?case
    by (intro exI [of _ cur]) (cases s, simp)
next
  case (Suc k)
  obtain r1 w1 where g1: "GetComputerExtensionAttributeByID conn a (world s) = (r1, w1)"
    by (cases "GetComputerExtensionAttributeByID conn a (world s)")
  obtain r2 w2 where g2: "GetComputerExtensionAttributeByName conn nm w1 = (r2, w2)"
    by (cases "GetComputerExtensionAttributeByName conn nm w1")
  from Suc.prems(1) g1 g2 have f1: "fetch_failed r1" and f2: "fetch_failed r2"
    and rest: "attempts_fail conn a nm k w2"
    by simp_all
  let ?s2 = "\<lparr>world = w2, trace = trace s @ [GetByID a, GetByName nm]\<rparr>"
  have lt: "i < N" using Suc.prems(2) by simp
  have step: "fetch_loop conn N a nm i cur s = fetch_loop conn N a nm (Suc i) r2 (sleep i ?s2)"
    using lt g1 g2 f1 f2 by (subst fetch_loop.simps) (simp add: call_def)
  have w: "world (sleep i ?s2) = w2" by (simp add: sleep_def)
  have "attempts_fail conn a nm k (world (sleep i ?s2))" using rest w by simp
  moreover have "Suc i + k \<le> N" using Suc.prems(2) by simp
  ultimately obtain cur' where c: "fetch_failed cur'"
    and e: "fetch_loop conn N a nm (Suc i) r2 (sleep i ?s2)
              = fetch_loop conn N a nm (Suc i + k) cur'
                  \<lparr>world = world_after_failures conn a nm k (world (sleep i ?s2)),
                   trace = trace (sleep i ?s2)
                           @ concat (map (failed_attempt a nm) [Suc i..<Suc i + k])\<rparr>"
    using Suc.IH [of "sleep i ?s2" "Suc i" r2] f2 by blast
  have "[i..<i + Suc k] = i # [Suc i..<Suc i + k]"
    by (simp add: upt_conv_Cons)
  then have t: "trace (sleep i ?s2) @ concat (map (failed_attempt a nm) [Suc i..<Suc i + k])
             = trace s @ concat (map (failed_attempt a nm) [i..<i + Suc k])"
    by (simp add: sleep_def failed_attempt_def)
  have wa: "world_after_failures conn a nm k (world (sleep i ?s2))
              = world_after_failures conn a nm (Suc k) (world s)"
    using g1 g2 w by simp
  from step e t wa c show ?case
    by (intro exI [of _ cur']) simp
qed

lemma Read_all_attempts_fail:
  assumes "Atoi (d_id d) = Some i" and "attempts_fail conn i (d_name d) N (world s)"
  shows "ResourceJamfProComputerExtensionAttributesRead conn N d s
           = ([Diagnostic Error (FailedToFetchByIDAndName i N)], d,
              \<lparr>world = world_after_failures conn i (d_name d) N (world s),
               trace = trace s @ concat (map (failed_attempt i (d_name d)) [0..<N])\<rparr>)"
proof -
  have "fetch_failed (None, None)" by (simp add: fetch_failed_def)
  from fetch_loop_skip_failures [OF assms(2) _ this, of 0 N]
  obtain cur' where c: "fetch_failed cur'"
    and e: "fetch_loop conn N i (d_name d) 0 (None, None) s
              = fetch_loop conn N i (d_name d) N cur'
                  \<lparr>world = world_after_failures conn i (d_name d) N (world s),
                   trace = trace s @ concat (map (failed_attempt i (d_name d)) [0..<N])\<rparr>"
    by auto
  have "fetch_loop conn N i (d_name d) N cur'
                  \<lparr>world = world_after_failures conn i (d_name d) N (world s),
                   trace = trace s @ concat (map (failed_attempt i (d_name d)) [0..<N])\<rparr>
          = (cur', \<lparr>world = world_after_failures conn i (d_name d) N (world s),
                   trace = trace s @ concat (map (failed_attempt i (d_name d)) [0..<N])\<rparr>)"
    by (subst fetch_loop.simps) simp
  with e c assms(1) show ?thesis
    by (cases cur')
       (auto simp: ResourceJamfProComputerExtensionAttributesRead_def fetch_failed_def
          split: option.splits)
qed

lemma Read_first_success:
  assumes "Atoi (d_id d) = Some i" and "k < N"
    and "attempts_fail conn i (d_name d) k (world s)"
    and "GetComputerExtensionAttributeByID conn i
           (world_after_failures conn i (d_name d) k (world s)) = (r1, w1)"
    and "GetComputerExtensionAttributeByName conn (d_name d) w1 = (r2, w2)"
  shows "\<not> fetch_failed r1 \<longrightarrow>
           ResourceJamfProComputerExtensionAttributesRead conn N d s
             = ([], set_state (the (fst r1)) d,
                \<lparr>world = w1,
                 trace = trace s @ concat (map (failed_attempt i (d_name d)) [0..<k])
                         @ [GetByID i]\<rparr>)"
    and "fetch_failed r1 \<and> \<not> fetch_failed r2 \<longrightarrow>
           ResourceJamfProComputerExtensionAttributesRead conn N d s
             = ([], set_state (the (fst r2)) d,
                \<lparr>world = w2,
                 trace = trace s @ concat (map (failed_attempt i (d_name d)) [0..<k])
                         @ [GetByID i, GetByName (d_name d)]\<rparr>)"
proof -
  have "fetch_failed (None, None)" by (simp add: fetch_failed_def)
  from fetch_loop_skip_failures [OF assms(3) _ this, of 0 N] assms(2)
  obtain cur' where
    e: "fetch_loop conn N i (d_name d) 0 (None, None) s
              = fetch_loop conn N i (d_name d) k cur'
                  \<lparr>world = world_after_failures conn i (d_name d) k (world s),
                   trace = trace s @ concat (map (failed_attempt i (d_name d)) [0..<k])\<rparr>"
    by auto
  show "\<not> fetch_failed r1 \<longrightarrow>
           ResourceJamfProComputerExtensionAttributesRead conn N d s
             = ([], set_state (the (fst r1)) d,
                \<lparr>world = w1,
                 trace = trace s @ concat (map (failed_attempt i (d_name d)) [0..<k])
                         @ [GetByID i]\<rparr>)"
    using assms e
    by (cases r1)
       (auto simp: ResourceJamfProComputerExtensionAttributesRead_def fetch_loop.simps call_def
          fetch_failed_def split: option.splits)
  show "fetch_failed r1 \<and> \<not> fetch_failed r2 \<longrightarrow>
           ResourceJamfProComputerExtensionAttributesRead conn N d s
             = ([], set_state (the (fst r2)) d,
                \<lparr>world = w2,
                 trace = trace s @ concat (map (failed_attempt i (d_name d)) [0..<k])
                         @ [GetByID i, GetByName (d_name d)]\<rparr>)"
    using assms e
    by (cases r1; cases r2)
       (auto simp: ResourceJamfProComputerExtensionAttributesRead_def fetch_loop.simps call_def
          fetch_failed_def split: option.splits)
qed

lemma Read_next_fetch_success:
  assumes "Atoi (d_id d) = Some i" and "k < N"
    and "attempts_fail conn i (d_name d) k (world s)"
    and "next_fetch conn i (d_name d) (world_after_failures conn i (d_name d) k (world s))
           = ((Some a, None), w')"
  shows "\<exists>s'. ResourceJamfProComputerExtensionAttributesRead conn N d s
                 = ([], set_state a d, s') \<and> world s' = w'"
proof -
  obtain r1 w1 where g1: "GetComputerExtensionAttributeByID conn i
           (world_after_failures conn i (d_name d) k (world s)) = (r1, w1)"
    by (metis surj_pair)
  obtain r2 w2 where g2: "GetComputerExtensionAttributeByName conn (d_name d) w1 = (r2, w2)"
    by (metis surj_pair)
  note rs = Read_first_success [OF assms(1-3) g1 g2]
  show ?thesis
  proof (cases "fetch_failed r1")
    case False
    with assms(4) g1 have "r1 = (Some a, None)" "w1 = w'"
      by (simp_all add: next_fetch_def)
    with rs(1) False show ?thesis by simp
  next
    case True
    with assms(4) g1 g2 have "r2 = (Some a, None)" "w2 = w'"
      by (simp_all add: next_fetch_def)
    moreover from this have "\<not> fetch_failed r2" by (simp add: fetch_failed_def)
    ultimately show ?thesis using rs(2) True by simp
  qed
qed

lemma read_back_loop_all_fail:
  assumes "Atoi (d_id d) = Some i" and "j \<le> N"
    and "attempts_fail conn i (d_name d) ((N - j) * N) (world s)"
  shows "\<exists>s'. read_back_loop conn N warn j acc d s
                 = (acc @ failed_read_backs warn d N j, d, s')
              \<and> world s' = world_after_failures conn i (d_name d) ((N - j) * N) (world s)"
  using assms(2,3)
proof (induction "N - j" arbitrary: j acc s)
  case 0
  then have "j = N" by simp
  then show ?case
    by (subst read_back_loop.simps) (simp add: failed_read_backs_def)
next
  case (Suc n)
  then have lt: "j < N" and n: "N - Suc j = n" by simp_all
  have split: "(N - j) * N = N + (N - Suc j) * N"
    unfolding n Suc.hyps(2) [symmetric] by simp
  from Suc.prems(2) have f1: "attempts_fail conn i (d_name d) N (world s)"
    and f2: "attempts_fail conn i (d_name d) ((N - Suc j) * N)
               (world_after_failures conn i (d_name d) N (world s))"
    unfolding split attempts_fail_add by simp_all
  let ?s1 = "\<lparr>world = world_after_failures conn i (d_name d) N (world s),
              trace = trace s @ concat (map (failed_attempt i (d_name d)) [0..<N])\<rparr>"
  have r: "ResourceJamfProComputerExtensionAttributesRead conn N d s
             = ([Diagnostic Error (FailedToFetchByIDAndName i N)], d, ?s1)"
    by (rule Read_all_attempts_fail [OF assms(1) f1])
  have step: "read_back_loop conn N warn j acc d s
        = read_back_loop conn N warn (Suc j)
            (acc @ [Diagnostic Warning (warn (j + 1))]
                 @ [Diagnostic Error (FailedToFetchByIDAndName i N)]) d (sleep j ?s1)"
    using lt r by (subst read_back_loop.simps) simp
  have w: "world (sleep j ?s1) = world_after_failures conn i (d_name d) N (world s)"
    by (simp add: sleep_def)
  have "Suc j \<le> N" using lt by simp
  moreover have "attempts_fail conn i (d_name d) ((N - Suc j) * N) (world (sleep j ?s1))"
    using f2 w by simp
  ultimately obtain s' where
    e: "read_back_loop conn N warn (Suc j)
            (acc @ [Diagnostic Warning (warn (j + 1))]
                 @ [Diagnostic Error (FailedToFetchByIDAndName i N)]) d (sleep j ?s1)
          = ((acc @ [Diagnostic Warning (warn (j + 1))]
                  @ [Diagnostic Error (FailedToFetchByIDAndName i N)])
               @ failed_read_backs warn d N (Suc j), d, s')"
    and ws: "world s' = world_after_failures conn i (d_name d) ((N - Suc j) * N)
                          (world (sleep j ?s1))"
    using Suc.hyps(1) [OF n [symmetric]] by blast
  have frb: "failed_read_backs warn d N j
           = [Diagnostic Warning (warn (j + 1)), Diagnostic Error (FailedToFetchByIDAndName i N)]
             @ failed_read_backs warn d N (Suc j)"
    using lt assms(1) by (simp add: failed_read_backs_def upt_conv_Cons read_failure_def)
  have "world s' = world_after_failures conn i (d_name d) ((N - j) * N) (world s)"
    unfolding split world_after_failures_add using ws w by simp
  with step e frb show ?case
    by (intro exI [of _ s']) simp
qed

lemma read_back_loop_succeeds:
  assumes "Atoi (d_id d) = Some i"
    and "m < (N - j) * N"
    and "attempts_fail conn i (d_name d) m (world s)"
    and "next_fetch conn i (d_name d) (world_after_failures conn i (d_name d) m (world s))
           = ((Some a, None), w')"
  shows "\<exists>s'. read_back_loop conn N warn j acc d s = ([], set_state a d, s') \<and> world s' = w'"
  using assms(2-4)
proof (induction "N - j" arbitrary: j acc s m)
  case 0
  then show ?case by simp
next
  case (Suc n)
  then have lt: "j < N" and n: "N - Suc j = n" by simp_all
  show ?case
  proof (cases "m < N")
    case True
    from Read_next_fetch_success [OF assms(1) True Suc.prems(2,3)]
    obtain s' where "ResourceJamfProComputerExtensionAttributesRead conn N d s
                 = ([], set_state a d, s')" "world s' = w'"
      by blast
    with lt show ?thesis
      by (subst read_back_loop.simps) simp
  next
    case False
    then obtain m' where m: "m = N + m'"
      using le_Suc_ex not_less by blast
    from Suc.prems(2) have f1: "attempts_fail conn i (d_name d) N (world s)"
      and f2: "attempts_fail conn i (d_name d) m'
                 (world_after_failures conn i (d_name d) N (world s))"
      unfolding m attempts_fail_add by simp_all
    let ?s1 = "\<lparr>world = world_after_failures conn i (d_name d) N (world s),
                trace = trace s @ concat (map (failed_attempt i (d_name d)) [0..<N])\<rparr>"
    have r: "ResourceJamfProComputerExtensionAttributesRead conn N d s
               = ([Diagnostic Error (FailedToFetchByIDAndName i N)], d, ?s1)"
      by (rule Read_all_attempts_fail [OF assms(1) f1])
    have step: "read_back_loop conn N warn j acc d s
          = read_back_loop conn N warn (Suc j)
              (acc @ [Diagnostic Warning (warn (j + 1))]
                   @ [Diagnostic Error (FailedToFetchByIDAndName i N)]) d (sleep j ?s1)"
      using lt r by (subst read_back_loop.simps) simp
    have w: "world (sleep j ?s1) = world_after_failures conn i (d_name d) N (world s)"
      by (simp add: sleep_def)
    have "(N - j) * N = N + (N - Suc j) * N"
      unfolding n Suc.hyps(2) [symmetric] by simp
    with Suc.prems(1) m have b: "m' < (N - Suc j) * N" by simp
    have c: "attempts_fail conn i (d_name d) m' (world (sleep j ?s1))"
      using f2 w by simp
    have d: "next_fetch conn i (d_name d)
               (world_after_failures conn i (d_name d) m' (world (sleep j ?s1)))
             = ((Some a, None), w')"
      using Suc.prems(3) unfolding m world_after_failures_add w by simp
    from Suc.hyps(1) [OF n [symmetric] b c d] step show ?thesis
      by simp
  qed
qed

section \<open>Create in terms of the remote's answers\<close>

lemma Create_construct_fails:
  assumes "constructComputerExtensionAttribute d = None"
  shows "ResourceJamfProComputerExtensionAttributesCreate conn N d s
           = (Return [Diagnostic Error FailedToConstruct], d, s)"
  using assms by (simp add: ResourceJamfProComputerExtensionAttributesCreate_def)

lemma Create_read_backs_all_fail:
  assumes "constructComputerExtensionAttribute d = Some attribute"
    and "CreateComputerExtensionAttribute conn attribute (world s) = ((Some created, None), w1)"
    and "- (2 ^ 63) \<le> ea_ID created" and "ea_ID created < 2 ^ 63"
    and "attempts_fail conn (ea_ID created) (d_name d) (N * N) w1"
  shows "\<exists>s'. ResourceJamfProComputerExtensionAttributesCreate conn N d s
                 = (Return (concat (map (\<lambda>k.
                              [Diagnostic Warning (ReadAttemptFailed (k + 1)),
                               Diagnostic Error (FailedToFetchByIDAndName (ea_ID created) N)])
                            [0..<N])),
                    d\<lparr>d_id := Sprintf_d (ea_ID created)\<rparr>, s')
              \<and> world s' = world_after_failures conn (ea_ID created) (d_name d) (N * N) w1"
proof -
  let ?d1 = "d\<lparr>d_id := Sprintf_d (ea_ID created)\<rparr>"
  let ?s1 = "\<lparr>world = w1, trace = trace s @ [CreateCall attribute]\<rparr>"
  have a: "Atoi (d_id ?d1) = Some (ea_ID created)"
    using Atoi_Sprintf_d [OF assms(3,4)] by simp
  have "attempts_fail conn (ea_ID created) (d_name ?d1) ((N - 0) * N) (world ?s1)"
    using assms(5) by simp
  from read_back_loop_all_fail [OF a _ this, of ReadAttemptFailed "[]"]
  obtain s' where
    "read_back_loop conn N ReadAttemptFailed 0 [] ?d1 ?s1
       = (failed_read_backs ReadAttemptFailed ?d1 N 0, ?d1, s')"
    "world s' = world_after_failures conn (ea_ID created) (d_name d) (N * N) w1"
    by auto
  moreover have "failed_read_backs ReadAttemptFailed ?d1 N 0
      = concat (map (\<lambda>k. [Diagnostic Warning (ReadAttemptFailed (k + 1)),
                         Diagnostic Error (FailedToFetchByIDAndName (ea_ID created) N)])
                 [0..<N])"
    using a by (simp add: failed_read_backs_def read_failure_def)
  ultimately show ?thesis
    using assms(1,2)
    by (intro exI [of _ s'])
       (simp add: ResourceJamfProComputerExtensionAttributesCreate_def call_def)
qed

lemma Create_read_back_succeeds:
  assumes "constructComputerExtensionAttribute d = Some attribute"
    and "CreateComputerExtensionAttribute conn attribute (world s) = ((Some created, None), w1)"
    and "- (2 ^ 63) \<le> ea_ID created" and "ea_ID created < 2 ^ 63"
    and "m < N * N"
    and "attempts_fail conn (ea_ID created) (d_name d) m w1"
    and "next_fetch conn (ea_ID created) (d_name d)
           (world_after_failures conn (ea_ID created) (d_name d) m w1) = ((Some a, None), w')"
  shows "\<exists>s'. ResourceJamfProComputerExtensionAttributesCreate conn N d s
                 = (Return [], set_state a (d\<lparr>d_id := Sprintf_d (ea_ID created)\<rparr>), s')
              \<and> world s' = w'"
proof -
  let ?d1 = "d\<lparr>d_id := Sprintf_d (ea_ID created)\<rparr>"
  let ?s1 = "\<lparr>world = w1, trace = trace s @ [CreateCall attribute]\<rparr>"
  have a: "Atoi (d_id ?d1) = Some (ea_ID created)"
    using Atoi_Sprintf_d [OF assms(3,4)] by simp
  have b: "m < (N - 0) * N" using assms(5) by simp
  have c: "attempts_fail conn (ea_ID created) (d_name ?d1) m (world ?s1)"
    using assms(6) by simp
  have d: "next_fetch conn (ea_ID created) (d_name ?d1)
             (world_after_failures conn (ea_ID created) (d_name ?d1) m (world ?s1))
           = ((Some a, None), w')"
    using assms(7) by simp
  from read_back_loop_succeeds [OF a b c d, of ReadAttemptFailed "[]"]
  obtain s' where
    "read_back_loop conn N ReadAttemptFailed 0 [] ?d1 ?s1 = ([], set_state a ?d1, s')"
    "world s' = w'"
    by auto
  then show ?thesis
    using assms(1,2)
    by (intro exI [of _ s'])
       (simp add: ResourceJamfProComputerExtensionAttributesCreate_def call_def)
qed

section \<open>The retried calls in terms of the remote's answers\<close>

lemma retry_create_succeeds:
  assumes "k \<le> n" and "create_calls_fail Create resource k w"
    and "Create resource (world_after_create_calls Create resource k w) = ((r, None), w1)"
  shows "retry_at_most n (create_attempt Create resource) (c, w) = (None, (r, w1))"
  using assms
proof (induction n arbitrary: k c w)
  case 0
  then show ?case by (simp add: create_attempt_def)
next
  case (Suc n)
  show ?case
  proof (cases k)
    case 0
    with Suc.prems show ?thesis by (simp add: create_attempt_def)
  next
    case (Suc k')
    with Suc.prems obtain r0 e0 w0 where
      c0: "Create resource w = ((r0, Some e0), w0)"
      and f: "create_calls_fail Create resource k' w0"
      by (auto split: prod.splits option.splits)
    from Suc.prems(3) Suc c0
    have g: "Create resource (world_after_create_calls Create resource k' w0) = ((r, None), w1)"
      by simp
    have "k' \<le> n" using Suc.prems(1) Suc by simp
    from Suc.IH [OF this f g, of r0] c0 show ?thesis
      by (simp add: create_attempt_def)
  qed
qed

lemma retry_create_fails:
  assumes "create_calls_fail Create resource n w"
    and "Create resource (world_after_create_calls Create resource n w) = ((r, Some e), w1)"
  shows "retry_at_most n (create_attempt Create resource) (c, w) = (Some e, (r, w1))"
  using assms
proof (induction n arbitrary: c w)
  case 0
  then show ?case by (simp add: create_attempt_def)
next
  case (Suc n)
  from Suc.prems(1) obtain r0 e0 w0 where
    c0: "Create resource w = ((r0, Some e0), w0)"
    and f: "create_calls_fail Create resource n w0"
    by (auto split: prod.splits option.splits)
  from Suc.prems(2) c0
  have g: "Create resource (world_after_create_calls Create resource n w0) = ((r, Some e), w1)"
    by simp
  from Suc.IH [OF f g, of r0] c0 show ?case
    by (simp add: create_attempt_def)
qed

lemma retry_delete_succeeds:
  assumes "k \<le> n" and "delete_attempts_fail client i nm k w"
    and "DeleteAdvancedUserSearchByID client i (world_after_delete_attempts client i nm k w)
           = (e1, w1)"
    and "DeleteAdvancedUserSearchByName client nm w1 = (e2, w2)"
  shows "e1 = None \<longrightarrow> retry_at_most n (delete_attempt client i nm) w = (None, w1)"
    and "e1 \<noteq> None \<and> e2 = None \<longrightarrow> retry_at_most n (delete_attempt client i nm) w = (None, w2)"
  using assms
proof (induction n arbitrary: k w)
  case 0
  { case 1 then show ?case by (auto simp: delete_attempt_def) }
  { case 2 then show ?case by (auto simp: delete_attempt_def) }
next
  case (Suc n)
  { case 1
    show ?case
    proof (cases k)
      case 0
      with 1 show ?thesis by (auto simp: delete_attempt_def)
    next
      case (Suc k')
      with 1 obtain a1 v1 a2 v2 where
        d1: "DeleteAdvancedUserSearchByID client i w = (Some a1, v1)"
        and d2: "DeleteAdvancedUserSearchByName client nm v1 = (Some a2, v2)"
        and f: "delete_attempts_fail client i nm k' v2"
        by (auto split: prod.splits option.splits)
      from 1(3) Suc d1 d2
      have g: "DeleteAdvancedUserSearchByID client i
                 (world_after_delete_attempts client i nm k' v2) = (e1, w1)"
        by simp
      have "k' \<le> n" using 1(1) Suc by simp
      from Suc.IH(1) [OF this f g 1(4)] d1 d2 show ?thesis
        by (simp add: delete_attempt_def)
    qed }
  { case 2
    show ?case
    proof (cases k)
      case 0
      with 2 show ?thesis by (auto simp: delete_attempt_def)
    next
      case (Suc k')
      with 2 obtain a1 v1 a2 v2 where
        d1: "DeleteAdvancedUserSearchByID client i w = (Some a1, v1)"
        and d2: "DeleteAdvancedUserSearchByName client nm v1 = (Some a2, v2)"
        and f: "delete_attempts_fail client i nm k' v2"
        by (auto split: prod.splits option.splits)
      from 2(3) Suc d1 d2
      have g: "DeleteAdvancedUserSearchByID client i
                 (world_after_delete_attempts client i nm k' v2) = (e1, w1)"
        by simp
      have "k' \<le> n" using 2(1) Suc by simp
      from Suc.IH(2) [OF this f g 2(4)] d1 d2 show ?thesis
        by (simp add: delete_attempt_def)
    qed }
qed

lemma retry_delete_fails:
  assumes "delete_attempts_fail client i nm n w"
    and "DeleteAdvancedUserSearchByID client i (world_after_delete_attempts client i nm n w)
           = (Some e1, w1)"
    and "DeleteAdvancedUserSearchByName client nm w1 = (Some e2, w2)"
  shows "retry_at_most n (delete_attempt client i nm) w = (Some e2, w2)"
  using assms
proof (induction n arbitrary: w)
  case 0
  then show ?case by (simp add: delete_attempt_def)
next
  case (Suc n)
  from Suc.prems(1) obtain a1 v1 a2 v2 where
    d1: "DeleteAdvancedUserSearchByID client i w = (Some a1, v1)"
    and d2: "DeleteAdvancedUserSearchByName client nm v1 = (Some a2, v2)"
    and f: "delete_attempts_fail client i nm n v2"
    by (auto split: prod.splits option.splits)
  from Suc.prems(2) d1 d2
  have g: "DeleteAdvancedUserSearchByID client i
             (world_after_delete_attempts client i nm n v2) = (Some e1, w1)"
    by simp
  from Suc.IH [OF f g Suc.prems(3)] d1 d2 show ?case
    by (simp add: delete_attempt_def)
qed

section \<open>Every run of attempts fails or has a first success\<close>

lemma fetch_failed_next_fetch:
  "fetch_failed (fst (next_fetch conn a nm w)) \<longleftrightarrow> attempts_fail conn a nm (Suc 0) w"
  by (auto simp: next_fetch_def split: prod.splits)

lemma not_fetch_failed:
  "\<not> fetch_failed r \<longleftrightarrow> (\<exists>a. r = (Some a, None))"
  by (cases r) (auto simp: fetch_failed_def)

lemma attempts_cases:
  "attempts_fail conn a nm N w
   \<or> (\<exists>k<N. attempts_fail conn a nm k w
         \<and> \<not> fetch_failed (fst (next_fetch conn a nm (world_after_failures conn a nm k w))))"
proof (induction N)
  case 0
  show ?case by simp
next
  case (Suc N)
  from Suc show ?case
  proof
    assume f: "attempts_fail conn a nm N w"
    show ?thesis
    proof (cases "fetch_failed (fst (next_fetch conn a nm (world_after_failures conn a nm N w)))")
      case True
      then have "attempts_fail conn a nm (Suc 0) (world_after_failures conn a nm N w)"
        by (simp only: fetch_failed_next_fetch)
      with f have "attempts_fail conn a nm (N + Suc 0) w"
        by (simp only: attempts_fail_add)
      then show ?thesis by simp
    next
      case False
      with f show ?thesis by blast
    qed
  next
    assume "\<exists>k<N. attempts_fail conn a nm k w
         \<and> \<not> fetch_failed (fst (next_fetch conn a nm (world_after_failures conn a nm k w)))"
    then show ?thesis
      using less_Suc_eq by blast
  qed
qed

lemma attempts_first_success:
  assumes "\<not> attempts_fail conn a nm N w"
  shows "\<exists>k x w'. k < N \<and> attempts_fail conn a nm k w
           \<and> next_fetch conn a nm (world_after_failures conn a nm k w) = ((Some x, None), w')"
proof -
  from attempts_cases [of conn a nm N w] assms obtain k where
    k: "k < N" "attempts_fail conn a nm k w"
       "\<not> fetch_failed (fst (next_fetch conn a nm (world_after_failures conn a nm k w)))"
    by blast
  obtain r w' where n: "next_fetch conn a nm (world_after_failures conn a nm k w) = (r, w')"
    by (cases "next_fetch conn a nm (world_after_failures conn a nm k w)")
  with k(3) obtain x where "r = (Some x, None)"
    by (auto simp: not_fetch_failed)
  with k n show ?thesis by blast
qed

section \<open>A stored ID that is not a number\<close>

lemma Read_parse_fails:
  assumes "Atoi (d_id d) = None"
  shows "ResourceJamfProComputerExtensionAttributesRead conn N d s
           = ([Diagnostic Error (FailedToParseAttributeID (d_id d))], d, s)"
  using assms by (simp add: ResourceJamfProComputerExtensionAttributesRead_def)

lemma Update_parse_fails:
  assumes "Atoi (d_id d) = None"
  shows "ResourceJamfProComputerExtensionAttributesUpdate conn N d s
           = (Return [Diagnostic Error (FailedToParseAttributeID (d_id d))], d, s)"
  using assms by (simp add: ResourceJamfProComputerExtensionAttributesUpdate_def)

lemma Delete_parse_fails:
  assumes "Atoi (d_id d) = None"
  shows "ResourceJamfProComputerExtensionAttributesDelete conn d s
           = ([Diagnostic Error (FailedToParseAttributeID (d_id d))], d, s)"
  using assms by (simp add: ResourceJamfProComputerExtensionAttributesDelete_def)

section \<open>A create whose reads do not all fail\<close>

lemma Create_no_diagnostic:
  assumes "constructComputerExtensionAttribute d = Some attribute"
    and "CreateComputerExtensionAttribute conn attribute (world s) = ((Some created, None), w1)"
    and "- (2 ^ 63) \<le> ea_ID created" and "ea_ID created < 2 ^ 63"
    and "\<not> attempts_fail conn (ea_ID created) (d_name d) (N * N) w1"
  shows "fst (ResourceJamfProComputerExtensionAttributesCreate conn N d s) = Return []"
proof -
  from attempts_first_success [OF assms(5)] obtain k x w' where
    "k < N * N" "attempts_fail conn (ea_ID created) (d_name d) k w1"
    "next_fetch conn (ea_ID created) (d_name d)
       (world_after_failures conn (ea_ID created) (d_name d) k w1) = ((Some x, None), w')"
    by blast
  from Create_read_back_succeeds [OF assms(1-4) this] show ?thesis
    by auto
qed

section \<open>Update in terms of the remote's answers\<close>

lemma Update_calls_succeed:
  assumes "Atoi (d_id d) = Some i"
    and "UpdateComputerExtensionAttributeByID conn i (constructComputerExtensionAttribute d)
           (world s) = ((u1, e1), w1)"
    and "UpdateComputerExtensionAttributeByName conn (d_name d)
           (constructComputerExtensionAttribute d) w1 = ((u2, e2), w2)"
    and "e1 = None \<and> u1 = Some updated \<and> wu = w1
            \<and> ev = [UpdateByID i (constructComputerExtensionAttribute d)]
         \<or> e1 \<noteq> None \<and> e2 = None \<and> u2 = Some updated \<and> wu = w2
            \<and> ev = [UpdateByID i (constructComputerExtensionAttribute d),
                    UpdateByName (d_name d) (constructComputerExtensionAttribute d)]"
  shows "ResourceJamfProComputerExtensionAttributesUpdate conn N d s
           = (case read_back_loop conn N ReadAttemptFailedAfterUpdate 0 []
                     (d\<lparr>d_id := Sprintf_d (ea_ID updated)\<rparr>)
                     \<lparr>world = wu, trace = trace s @ ev\<rparr> of
                (diags, d', s') \<Rightarrow> (Return diags, d', s'))"
  using assms
  by (auto simp: ResourceJamfProComputerExtensionAttributesUpdate_def call_def Let_def
        split: option.splits)

lemma Update_read_backs_all_fail:
  assumes "Atoi (d_id d) = Some i"
    and "UpdateComputerExtensionAttributeByID conn i (constructComputerExtensionAttribute d)
           (world s) = ((u1, e1), w1)"
    and "UpdateComputerExtensionAttributeByName conn (d_name d)
           (constructComputerExtensionAttribute d) w1 = ((u2, e2), w2)"
    and "e1 = None \<and> u1 = Some updated \<and> wu = w1
         \<or> e1 \<noteq> None \<and> e2 = None \<and> u2 = Some updated \<and> wu = w2"
    and "- (2 ^ 63) \<le> ea_ID updated" and "ea_ID updated < 2 ^ 63"
    and "attempts_fail conn (ea_ID updated) (d_name d) (N * N) wu"
  shows "\<exists>s'. ResourceJamfProComputerExtensionAttributesUpdate conn N d s
                 = (Return (concat (map (\<lambda>k.
                              [Diagnostic Warning (ReadAttemptFailedAfterUpdate (k + 1)),
                               Diagnostic Error (FailedToFetchByIDAndName (ea_ID updated) N)])
                            [0..<N])),
                    d\<lparr>d_id := Sprintf_d (ea_ID updated)\<rparr>, s')
              \<and> world s' = world_after_failures conn (ea_ID updated) (d_name d) (N * N) wu"
proof -
  let ?d1 = "d\<lparr>d_id := Sprintf_d (ea_ID updated)\<rparr>"
  from assms(4) obtain ev where
    ev: "e1 = None \<and> u1 = Some updated \<and> wu = w1
            \<and> ev = [UpdateByID i (constructComputerExtensionAttribute d)]
         \<or> e1 \<noteq> None \<and> e2 = None \<and> u2 = Some updated \<and> wu = w2
            \<and> ev = [UpdateByID i (constructComputerExtensionAttribute d),
                    UpdateByName (d_name d) (constructComputerExtensionAttribute d)]"
    by (elim disjE) simp_all
  let ?s1 = "\<lparr>world = wu, trace = trace s @ ev\<rparr>"
  note u = Update_calls_succeed [OF assms(1-3) ev, of N]
  have a: "Atoi (d_id ?d1) = Some (ea_ID updated)"
    using Atoi_Sprintf_d [OF assms(5,6)] by simp
  have "attempts_fail conn (ea_ID updated) (d_name ?d1) ((N - 0) * N) (world ?s1)"
    using assms(7) by simp
  from read_back_loop_all_fail [OF a _ this, of ReadAttemptFailedAfterUpdate "[]"]
  obtain s' where
    "read_back_loop conn N ReadAttemptFailedAfterUpdate 0 [] ?d1 ?s1
       = (failed_read_backs ReadAttemptFailedAfterUpdate ?d1 N 0, ?d1, s')"
    "world s' = world_after_failures conn (ea_ID updated) (d_name d) (N * N) wu"
    by auto
  moreover have "failed_read_backs ReadAttemptFailedAfterUpdate ?d1 N 0
      = concat (map (\<lambda>k. [Diagnostic Warning (ReadAttemptFailedAfterUpdate (k + 1)),
                         Diagnostic Error (FailedToFetchByIDAndName (ea_ID updated) N)])
                 [0..<N])"
    using a by (simp add: failed_read_backs_def read_failure_def)
  ultimately show ?thesis
    using u by (intro exI [of _ s']) simp
qed

lemma Update_read_back_succeeds:
  assumes "Atoi (d_id d) = Some i"
    and "UpdateComputerExtensionAttributeByID conn i (constructComputerExtensionAttribute d)
           (world s) = ((u1, e1), w1)"
    and "UpdateComputerExtensionAttributeByName conn (d_name d)
           (constructComputerExtensionAttribute d) w1 = ((u2, e2), w2)"
    and "e1 = None \<and> u1 = Some updated \<and> wu = w1
         \<or> e1 \<noteq> None \<and> e2 = None \<and> u2 = Some updated \<and> wu = w2"
    and "- (2 ^ 63) \<le> ea_ID updated" and "ea_ID updated < 2 ^ 63"
    and "m < N * N"
    and "attempts_fail conn (ea_ID updated) (d_name d) m wu"
    and "next_fetch conn (ea_ID updated) (d_name d)
           (world_after_failures conn (ea_ID updated) (d_name d) m wu) = ((Some a, None), w')"
  shows "\<exists>s'. ResourceJamfProComputerExtensionAttributesUpdate conn N d s
                 = (Return [], set_state a (d\<lparr>d_id := Sprintf_d (ea_ID updated)\<rparr>), s')
              \<and> world s' = w'"
proof -
  let ?d1 = "d\<lparr>d_id := Sprintf_d (ea_ID updated)\<rparr>"
  from assms(4) obtain ev where
    ev: "e1 = None \<and> u1 = Some updated \<and> wu = w1
            \<and> ev = [UpdateByID i (constructComputerExtensionAttribute d)]
         \<or> e1 \<noteq> None \<and> e2 = None \<and> u2 = Some updated \<and> wu = w2
            \<and> ev = [UpdateByID i (constructComputerExtensionAttribute d),
                    UpdateByName (d_name d) (constructComputerExtensionAttribute d)]"
    by (elim disjE) simp_all
  let ?s1 = "\<lparr>world = wu, trace = trace s @ ev\<rparr>"
  note u = Update_calls_succeed [OF assms(1-3) ev, of N]
  have a: "Atoi (d_id ?d1) = Some (ea_ID updated)"
    using Atoi_Sprintf_d [OF assms(5,6)] by simp
  have b: "m < (N - 0) * N" using assms(7) by simp
  have c: "attempts_fail conn (ea_ID updated) (d_name ?d1) m (world ?s1)"
    using assms(8) by simp
  have d: "next_fetch conn (ea_ID updated) (d_name ?d1)
             (world_after_failures conn (ea_ID updated) (d_name ?d1) m (world ?s1))
           = ((Some a, None), w')"
    using assms(9) by simp
  from read_back_loop_succeeds [OF a b c d, of ReadAttemptFailedAfterUpdate "[]"]
  obtain s' where
    "read_back_loop conn N ReadAttemptFailedAfterUpdate 0 [] ?d1 ?s1 = ([], set_state a ?d1, s')"
    "world s' = w'"
    by auto
  then show ?thesis
    using u by (intro exI [of _ s']) simp
qed

section \<open>The delete of a user search in terms of the remote's answers\<close>

lemma retry_delete_fails_iff:
  "fst (retry_at_most n (delete_attempt client i nm) w) \<noteq> None
     \<longleftrightarrow> delete_attempts_fail client i nm (Suc n) w"
proof (induction n arbitrary: w)
  case 0
  show ?case
    by (auto simp: delete_attempt_def split: prod.splits option.splits)
next
  case (Suc n)
  show ?case
  proof (cases "delete_attempt client i nm w")
    case (Pair e w')
    show ?thesis
    proof (cases e)
      case None
      with Pair show ?thesis
        by (auto simp: delete_attempt_def split: prod.splits option.splits)
    next
      case (Some err)
      with Pair have "fst (retry_at_most (Suc n) (delete_attempt client i nm) w) \<noteq> None
          \<longleftrightarrow> delete_attempts_fail client i nm (Suc n) w'"
        using Suc.IH [of w'] by simp
      moreover from Pair Some
      have "delete_attempts_fail client i nm (Suc (Suc n)) w
          \<longleftrightarrow> delete_attempts_fail client i nm (Suc n) w'"
        by (auto simp: delete_attempt_def split: prod.splits option.splits)
      ultimately show ?thesis by simp
    qed
  qed
qed

lemma user_search_delete_parse_fails:
  assumes "Atoi (rd_id u) = None"
  shows "resourceJamfProAdvancedUserSearchDelete RetryContext client u w
           = ([Diagnostic Error (ErrorConvertingResourceID (rd_id u))], u, w)"
  using assms by (simp add: resourceJamfProAdvancedUserSearchDelete_def Let_def)

lemma user_search_delete_cleared_iff:
  assumes "Atoi (rd_id u) = Some i"
  shows "(\<not> delete_attempts_fail client i (rd_name u) (Suc n) w
            \<longrightarrow> fst (resourceJamfProAdvancedUserSearchDelete (retry_at_most n) client u w) = []
                \<and> fst (snd (resourceJamfProAdvancedUserSearchDelete (retry_at_most n) client u w))
                    = u\<lparr>rd_id := ''''\<rparr>)
       \<and> (delete_attempts_fail client i (rd_name u) (Suc n) w
            \<longrightarrow> fst (resourceJamfProAdvancedUserSearchDelete (retry_at_most n) client u w) \<noteq> []
                \<and> fst (snd (resourceJamfProAdvancedUserSearchDelete (retry_at_most n) client u w))
                    = u)"
  using assms retry_delete_fails_iff [of n client i "rd_name u" w]
  by (auto simp: resourceJamfProAdvancedUserSearchDelete_def Let_def
        split: prod.splits option.splits)

lemma user_search_delete_succeeds:
  assumes "Atoi (rd_id u) = Some i"
    and "k \<le> n" and "delete_attempts_fail client i (rd_name u) k w"
    and "DeleteAdvancedUserSearchByID client i
           (world_after_delete_attempts client i (rd_name u) k w) = (e1, w1)"
    and "DeleteAdvancedUserSearchByName client (rd_name u) w1 = (e2, w2)"
  shows "e1 = None \<longrightarrow>
           resourceJamfProAdvancedUserSearchDelete (retry_at_most n) client u w
             = ([], u\<lparr>rd_id := ''''\<rparr>, w1)"
    and "e1 \<noteq> None \<and> e2 = None \<longrightarrow>
           resourceJamfProAdvancedUserSearchDelete (retry_at_most n) client u w
             = ([], u\<lparr>rd_id := ''''\<rparr>, w2)"
  using assms(1) retry_delete_succeeds [OF assms(2-5)]
  by (simp_all add: resourceJamfProAdvancedUserSearchDelete_def Let_def)

lemma user_search_delete_fails:
  assumes "Atoi (rd_id u) = Some i"
    and "delete_attempts_fail client i (rd_name u) n w"
    and "DeleteAdvancedUserSearchByID client i
           (world_after_delete_attempts client i (rd_name u) n w) = (Some e1, w1)"
    and "DeleteAdvancedUserSearchByName client (rd_name u) w1 = (Some e2, w2)"
  shows "resourceJamfProAdvancedUserSearchDelete (retry_at_most n) client u w
           = ([Diagnostic Error (FailedToDeleteAfterRetries (rd_name u) (rd_id u) e2)], u, w2)"
  using assms(1) retry_delete_fails [OF assms(2-4)]
  by (simp add: resourceJamfProAdvancedUserSearchDelete_def Let_def)

section \<open>The creates built on RetryContext in terms of the remote's answers\<close>

lemma user_search_create_succeeds:
  assumes "construct u = Inr resource"
    and "k \<le> n" and "create_calls_fail Create resource k w"
    and "Create resource (world_after_create_calls Create resource k w) = ((Some i, None), w1)"
  shows "resourceJamfProAdvancedUserSearchCreate (retry_at_most n) construct Name Create Read u w
           = (case Read (u\<lparr>rd_id := Sprintf_d i\<rparr>) w1 of
                (diags, u', w') \<Rightarrow> (Return diags, u', w'))"
  using assms(1) retry_create_succeeds [OF assms(2-4), of None]
  by (simp add: resourceJamfProAdvancedUserSearchCreate_def)

lemma user_search_create_fails:
  assumes "construct u = Inr resource"
    and "create_calls_fail Create resource n w"
    and "Create resource (world_after_create_calls Create resource n w) = ((r, Some e), w1)"
  shows "resourceJamfProAdvancedUserSearchCreate (retry_at_most n) construct Name Create Read u w
           = (Return [Diagnostic Error (FailedToCreateAfterRetries (Name resource) e)], u, w1)"
  using assms(1) retry_create_fails [OF assms(2,3), of None]
  by (simp add: resourceJamfProAdvancedUserSearchCreate_def)

lemma user_search_create_construct_fails:
  assumes "construct u = Inl err"
  shows "resourceJamfProAdvancedUserSearchCreate RetryContext construct Name Create Read u w
           = (Return [Diagnostic Error (FailedToConstructResource err)], u, w)"
  using assms by (simp add: resourceJamfProAdvancedUserSearchCreate_def)

lemma appinstallers_create_succeeds:
  assumes "construct u = Inr resource"
    and "k \<le> n" and "create_calls_fail Create resource k w"
    and "Create resource (world_after_create_calls Create resource k w) = ((Some i, None), w1)"
  shows "appinstallers_create (retry_at_most n) construct Name Create readNoCleanup u w
           = (case readNoCleanup (u\<lparr>rd_id := i\<rparr>) w1 of
                (diags, u', w') \<Rightarrow> (Return diags, u', w'))"
  using assms(1) retry_create_succeeds [OF assms(2-4), of None]
  by (simp add: appinstallers_create_def)

lemma appinstallers_create_fails:
  assumes "construct u = Inr resource"
    and "create_calls_fail Create resource n w"
    and "Create resource (world_after_create_calls Create resource n w) = ((r, Some e), w1)"
  shows "appinstallers_create (retry_at_most n) construct Name Create readNoCleanup u w
           = (Return [Diagnostic Error (FailedToCreateAfterRetries (Name resource) e)], u, w1)"
  using assms(1) retry_create_fails [OF assms(2,3), of None]
  by (simp add: appinstallers_create_def)

lemma appinstallers_create_construct_fails:
  assumes "construct u = Inl err"
  shows "appinstallers_create RetryContext construct Name Create readNoCleanup u w
           = (Return [Diagnostic Error (FailedToConstructResource err)], u, w)"
  using assms by (simp add: appinstallers_create_def)

section \<open>The retried read and the create call made once\<close>

text \<open>
  C3, amended. The read of a computer extension attribute whose stored ID is the number
  \<open>i\<close> makes up to \<open>N\<close> attempts, each a fetch by ID followed, when that fails, by a fetch
  by name, and sleeps \<open>exponentialBackoffWithJitter(j)\<close> after each failed attempt \<open>j\<close>
  (counted from 0, the last one included):
  \<^item> when the remote lets all \<open>N\<close> attempts fail, the read returns the one error "Failed to
    fetch attribute by both ID (i) and name after N retries", the state unchanged, having
    made exactly the \<open>N\<close> failed attempts;
  \<^item> when the remote lets the first \<open>k < N\<close> attempts fail and answers the fetch by ID of
    the next attempt with an attribute, the read stops there: it returns no diagnostic
    and the state written from that attribute, and its last event is that fetch by ID;
  \<^item> when the remote lets the first \<open>k < N\<close> attempts fail and at the next lets the fetch
    by ID fail and answers the fetch by name with an attribute, the read stops there in
    the same way, its last event being that fetch by name;
  \<^item> so the read returns a diagnostic exactly when all \<open>N\<close> attempts fail.

  The create API call of a computer extension attribute is not retried: when the call
  returns an error the create returns that error and the state unchanged, and the
  create call is its only event: no sleep and no second call; whatever the remote
  answers, the create call is made at most once, with the constructed payload, and all
  later events are fetches and sleeps of the reads that follow.

  The create call of an app installer is retried by \<open>retry.RetryContext\<close>: taken to allow
  \<open>n + 1\<close> runs, it stops at the first call that returns no error, and when all \<open>n + 1\<close>
  calls return an error the create returns the error of the last one.
\<close>

theorem read_retried_create_call_not:
  "(\<forall>i. Atoi (d_id d) = Some i \<and> attempts_fail conn i (d_name d) N (world s)
        \<longrightarrow> ResourceJamfProComputerExtensionAttributesRead conn N d s
              = ([Diagnostic Error (FailedToFetchByIDAndName i N)], d,
                 \<lparr>world = world_after_failures conn i (d_name d) N (world s),
                  trace = trace s @ concat (map (failed_attempt i (d_name d)) [0..<N])\<rparr>))
   \<and> (\<forall>i k r1 w1 r2 w2.
         Atoi (d_id d) = Some i \<and> k < N \<and> attempts_fail conn i (d_name d) k (world s)
         \<and> GetComputerExtensionAttributeByID conn i
             (world_after_failures conn i (d_name d) k (world s)) = (r1, w1)
         \<and> GetComputerExtensionAttributeByName conn (d_name d) w1 = (r2, w2)
         \<longrightarrow> (\<not> fetch_failed r1 \<longrightarrow>
                ResourceJamfProComputerExtensionAttributesRead conn N d s
                  = ([], set_state (the (fst r1)) d,
                     \<lparr>world = w1,
                      trace = trace s @ concat (map (failed_attempt i (d_name d)) [0..<k])
                                @ [GetByID i]\<rparr>))
            \<and> (fetch_failed r1 \<and> \<not> fetch_failed r2 \<longrightarrow>
                ResourceJamfProComputerExtensionAttributesRead conn N d s
                  = ([], set_state (the (fst r2)) d,
                     \<lparr>world = w2,
                      trace = trace s @ concat (map (failed_attempt i (d_name d)) [0..<k])
                                @ [GetByID i, GetByName (d_name d)]\<rparr>)))
   \<and> (\<forall>i. Atoi (d_id d) = Some i
        \<longrightarrow> (fst (ResourceJamfProComputerExtensionAttributesRead conn N d s) \<noteq> []
               \<longleftrightarrow> attempts_fail conn i (d_name d) N (world s)))
   \<and> (\<forall>attribute x e w1.
         constructComputerExtensionAttribute d = Some attribute
         \<and> CreateComputerExtensionAttribute conn attribute (world s) = ((x, Some e), w1)
         \<longrightarrow> ResourceJamfProComputerExtensionAttributesCreate conn N d s
               = (Return [Diagnostic Error (FromErr e)], d,
                  \<lparr>world = w1, trace = trace s @ [CreateCall attribute]\<rparr>))
   \<and> (\<forall>out d' s'.
         ResourceJamfProComputerExtensionAttributesCreate conn N d s = (out, d', s')
         \<longrightarrow> (case constructComputerExtensionAttribute d of
                None \<Rightarrow> s' = s
              | Some attribute \<Rightarrow>
                  (\<exists>rest. trace s' = trace s @ CreateCall attribute # rest
                       \<and> list_all fetch_event rest)))
   \<and> (\<forall>resource k i w1.
         construct v = Inr resource \<and> k \<le> n \<and> create_calls_fail Create resource k w
         \<and> Create resource (world_after_create_calls Create resource k w) = ((Some i, None), w1)
         \<longrightarrow> appinstallers_create (retry_at_most n) construct Name Create readNoCleanup v w
               = (case readNoCleanup (v\<lparr>rd_id := i\<rparr>) w1 of
                    (diags, v', w') \<Rightarrow> (Return diags, v', w')))
   \<and> (\<forall>resource r e w1.
         construct v = Inr resource \<and> create_calls_fail Create resource n w
         \<and> Create resource (world_after_create_calls Create resource n w) = ((r, Some e), w1)
         \<longrightarrow> appinstallers_create (retry_at_most n) construct Name Create readNoCleanup v w
               = (Return [Diagnostic Error (FailedToCreateAfterRetries (Name resource) e)],
                  v, w1))"
  (is "?R1 \<and> ?R2 \<and> ?R3 \<and> ?C1 \<and> ?C2 \<and> ?A1 \<and> ?A2")
proof -
  have 1: ?R1
    by (intro allI impI, elim conjE) (rule Read_all_attempts_fail)
  have 2: ?R2
  proof (intro allI impI, elim conjE)
    fix i k r1 w1 r2 w2
    assume "Atoi (d_id d) = Some i" "k < N" "attempts_fail conn i (d_name d) k (world s)"
      "GetComputerExtensionAttributeByID conn i
         (world_after_failures conn i (d_name d) k (world s)) = (r1, w1)"
      "GetComputerExtensionAttributeByName conn (d_name d) w1 = (r2, w2)"
    from Read_first_success(1) [OF this] Read_first_success(2) [OF this]
    show "(\<not> fetch_failed r1 \<longrightarrow>
                ResourceJamfProComputerExtensionAttributesRead conn N d s
                  = ([], set_state (the (fst r1)) d,
                     \<lparr>world = w1,
                      trace = trace s @ concat (map (failed_attempt i (d_name d)) [0..<k])
                                @ [GetByID i]\<rparr>))
            \<and> (fetch_failed r1 \<and> \<not> fetch_failed r2 \<longrightarrow>
                ResourceJamfProComputerExtensionAttributesRead conn N d s
                  = ([], set_state (the (fst r2)) d,
                     \<lparr>world = w2,
                      trace = trace s @ concat (map (failed_attempt i (d_name d)) [0..<k])
                                @ [GetByID i, GetByName (d_name d)]\<rparr>))"
      by (rule conjI)
  qed
  have 3: ?R3
    by (intro allI impI) (rule Read_fails_iff)
  have 4: ?C1
    by (intro allI impI, elim conjE) (rule Create_call_fails)
  have 5: ?C2
    by (intro allI impI) (rule Create_trace)
  have 6: ?A1
    by (intro allI impI, elim conjE) (rule appinstallers_create_succeeds)
  have 7: ?A2
    by (intro allI impI, elim conjE) (rule appinstallers_create_fails)
  from 1 2 3 4 5 6 7 show ?thesis
    by (intro conjI)
qed

theorem read_retried_create_call_not_witness:
  "Atoi (d_id example_state) = Some 42
   \<and> attempts_fail scripted_client 42 (d_name example_state) 1
       (world (start [(None, Some (OtherApiError ''e1'')), (None, Some (OtherApiError ''e2'')),
                      (None, Some (OtherApiError ''e3'')), (Some example_attribute, None)]))
   \<and> ResourceJamfProComputerExtensionAttributesRead scripted_client 3 example_state
       (start [(None, Some (OtherApiError ''e1'')), (None, Some (OtherApiError ''e2'')),
               (None, Some (OtherApiError ''e3'')), (Some example_attribute, None)])
     = ([], set_state example_attribute example_state,
        \<lparr>world = [], trace = [GetByID 42, GetByName ''Battery'', Sleep 0,
                               GetByID 42, GetByName ''Battery'']\<rparr>)"
proof -
  let ?s = "start [(None, Some (OtherApiError ''e1'')), (None, Some (OtherApiError ''e2'')),
                   (None, Some (OtherApiError ''e3'')), (Some example_attribute, None)]"
  have a: "Atoi (d_id example_state) = Some 42"
    by (simp add: example_state_def Atoi_42)
  have k: "(1::nat) < 3" by simp
  have f: "attempts_fail scripted_client 42 (d_name example_state) 1 (world ?s)"
    by (simp add: run_simps example_state_def)
  have g1: "GetComputerExtensionAttributeByID scripted_client 42
              (world_after_failures scripted_client 42 (d_name example_state) 1 (world ?s))
            = ((None, Some (OtherApiError ''e3'')), [(Some example_attribute, None)])"
    by (simp add: run_simps example_state_def)
  have g2: "GetComputerExtensionAttributeByName scripted_client (d_name example_state)
              [(Some example_attribute, None)]
            = ((Some example_attribute, None), [])"
    by (simp add: run_simps)
  from read_retried_create_call_not [THEN conjunct2, THEN conjunct1, rule_format,
      OF conjI [OF a conjI [OF k conjI [OF f conjI [OF g1 g2]]]], THEN conjunct2]
  have "ResourceJamfProComputerExtensionAttributesRead scripted_client 3 example_state ?s
     = ([], set_state example_attribute example_state,
        \<lparr>world = [], trace = [GetByID 42, GetByName ''Battery'', Sleep 0,
                               GetByID 42, GetByName ''Battery'']\<rparr>)"
    by (simp add: fetch_failed_def failed_attempt_def example_state_def start_def)
  with a f show ?thesis
    by simp
qed

section \<open>The diagnostics of a failed read and of a failed create\<close>

text \<open>
  C4, amended. A retried operation of the computer extension attribute does not return
  the error of its last failed attempt.

  The read:
  \<^item> when the stored ID is not a number, returns the parse error and calls nothing;
  \<^item> when the stored ID is the number \<open>i\<close> and the remote lets all \<open>N\<close> attempts fail,
    returns exactly one diagnostic, the generic error "Failed to fetch attribute by both
    ID (i) and name after N retries", which carries no error of any attempt, and leaves
    the state unchanged;
  \<^item> returns a diagnostic in no other case.

  The create:
  \<^item> when the construction fails, returns the construction error and calls nothing;
  \<^item> when the create call returns the error \<open>e\<close>, returns exactly \<open>e\<close> and leaves the state
    unchanged;
  \<^item> when the create call succeeds, with an ID that fits Go's \<open>int\<close>, and the remote lets
    the \<open>N\<close> attempts of each of the \<open>N\<close> reads that follow fail, returns the diagnostics
    of all \<open>N\<close> reads in order, for the read number \<open>k\<close> the warning "Resource read attempt
    k failed" followed by that read's generic error, and the state with the new ID
    recorded;
  \<^item> when the create call succeeds and those attempts do not all fail, returns no
    diagnostic.
\<close>

theorem exhausted_retries_diagnostics:
  "(Atoi (d_id d) = None
      \<longrightarrow> ResourceJamfProComputerExtensionAttributesRead conn N d s
            = ([Diagnostic Error (FailedToParseAttributeID (d_id d))], d, s))
   \<and> (\<forall>i. Atoi (d_id d) = Some i \<and> attempts_fail conn i (d_name d) N (world s)
        \<longrightarrow> ResourceJamfProComputerExtensionAttributesRead conn N d s
              = ([Diagnostic Error (FailedToFetchByIDAndName i N)], d,
                 \<lparr>world = world_after_failures conn i (d_name d) N (world s),
                  trace = trace s @ concat (map (failed_attempt i (d_name d)) [0..<N])\<rparr>))
   \<and> (\<forall>i. Atoi (d_id d) = Some i \<and> \<not> attempts_fail conn i (d_name d) N (world s)
        \<longrightarrow> fst (ResourceJamfProComputerExtensionAttributesRead conn N d s) = [])
   \<and> (constructComputerExtensionAttribute d = None
        \<longrightarrow> ResourceJamfProComputerExtensionAttributesCreate conn N d s
              = (Return [Diagnostic Error FailedToConstruct], d, s))
   \<and> (\<forall>attribute x e w1.
         constructComputerExtensionAttribute d = Some attribute
         \<and> CreateComputerExtensionAttribute conn attribute (world s) = ((x, Some e), w1)
         \<longrightarrow> ResourceJamfProComputerExtensionAttributesCreate conn N d s
               = (Return [Diagnostic Error (FromErr e)], d,
                  \<lparr>world = w1, trace = trace s @ [CreateCall attribute]\<rparr>))
   \<and> (\<forall>attribute created w1.
         constructComputerExtensionAttribute d = Some attribute
         \<and> CreateComputerExtensionAttribute conn attribute (world s) = ((Some created, None), w1)
         \<and> - (2 ^ 63) \<le> ea_ID created \<and> ea_ID created < 2 ^ 63
         \<and> attempts_fail conn (ea_ID created) (d_name d) (N * N) w1
         \<longrightarrow> (\<exists>s'. ResourceJamfProComputerExtensionAttributesCreate conn N d s
                      = (Return (concat (map (\<lambda>k.
                                   [Diagnostic Warning (ReadAttemptFailed (k + 1)),
                                    Diagnostic Error
                                      (FailedToFetchByIDAndName (ea_ID created) N)])
                                 [0..<N])),
                         d\<lparr>d_id := Sprintf_d (ea_ID created)\<rparr>, s')
                   \<and> world s'
                       = world_after_failures conn (ea_ID created) (d_name d) (N * N) w1))
   \<and> (\<forall>attribute created w1.
         constructComputerExtensionAttribute d = Some attribute
         \<and> CreateComputerExtensionAttribute conn attribute (world s) = ((Some created, None), w1)
         \<and> - (2 ^ 63) \<le> ea_ID created \<and> ea_ID created < 2 ^ 63
         \<and> \<not> attempts_fail conn (ea_ID created) (d_name d) (N * N) w1
         \<longrightarrow> fst (ResourceJamfProComputerExtensionAttributesCreate conn N d s) = Return [])"
  (is "?P \<and> ?R1 \<and> ?R2 \<and> ?C1 \<and> ?C2 \<and> ?C3 \<and> ?C4")
proof -
  have 1: ?P
    by (intro impI) (rule Read_parse_fails)
  have 2: ?R1
    by (intro allI impI, elim conjE) (rule Read_all_attempts_fail)
  have 3: ?R2
    using Read_fails_iff [of d _ conn N s] by blast
  have 4: ?C1
    by (intro impI) (rule Create_construct_fails)
  have 5: ?C2
    by (intro allI impI, elim conjE) (rule Create_call_fails)
  have 6: ?C3
    by (intro allI impI, elim conjE) (rule Create_read_backs_all_fail)
  have 7: ?C4
    by (intro allI impI, elim conjE) (rule Create_no_diagnostic)
  from 1 2 3 4 5 6 7 show ?thesis
    by (intro conjI)
qed

lemma construct_unsaved_state:
  "constructComputerExtensionAttribute unsaved_state
     = Some (the (constructComputerExtensionAttribute unsaved_state))"
  by (simp add: constructComputerExtensionAttribute_def unsaved_state_def example_state_def)

theorem exhausted_retries_diagnostics_witness:
  "Atoi (d_id example_state) = Some 42
   \<and> attempts_fail scripted_client 42 (d_name example_state) 2
       (world (start [(None, Some (OtherApiError ''e1'')), (None, Some (OtherApiError ''e2'')),
                      (None, Some (OtherApiError ''e3'')), (None, Some (OtherApiError ''e4''))]))
   \<and> ResourceJamfProComputerExtensionAttributesRead scripted_client 2 example_state
       (start [(None, Some (OtherApiError ''e1'')), (None, Some (OtherApiError ''e2'')),
               (None, Some (OtherApiError ''e3'')), (None, Some (OtherApiError ''e4''))])
     = ([Diagnostic Error (FailedToFetchByIDAndName 42 2)], example_state,
        \<lparr>world = [], trace = [GetByID 42, GetByName ''Battery'', Sleep 0,
                               GetByID 42, GetByName ''Battery'', Sleep 1]\<rparr>)
   \<and> d_id unsaved_state = ''''
   \<and> attempts_fail scripted_client 42 (d_name unsaved_state) (2 * 2) []
   \<and> (\<exists>s'. ResourceJamfProComputerExtensionAttributesCreate scripted_client 2 unsaved_state
              (start [(Some example_attribute, None)])
            = (Return [Diagnostic Warning (ReadAttemptFailed 1),
                       Diagnostic Error (FailedToFetchByIDAndName 42 2),
                       Diagnostic Warning (ReadAttemptFailed 2),
                       Diagnostic Error (FailedToFetchByIDAndName 42 2)],
               unsaved_state\<lparr>d_id := ''42''\<rparr>, s')
          \<and> world s' = [])"
proof -
  let ?s = "start [(None, Some (OtherApiError ''e1'')), (None, Some (OtherApiError ''e2'')),
                   (None, Some (OtherApiError ''e3'')), (None, Some (OtherApiError ''e4''))]"
  have a: "Atoi (d_id example_state) = Some 42"
    by (simp add: example_state_def Atoi_42)
  have f: "attempts_fail scripted_client 42 (d_name example_state) 2 (world ?s)"
    by (simp add: run_simps example_state_def numeral_2_eq_2)
  from exhausted_retries_diagnostics [THEN conjunct2, THEN conjunct1, rule_format,
      OF conjI [OF a f]]
  have r: "ResourceJamfProComputerExtensionAttributesRead scripted_client 2 example_state ?s
     = ([Diagnostic Error (FailedToFetchByIDAndName 42 2)], example_state,
        \<lparr>world = [], trace = [GetByID 42, GetByName ''Battery'', Sleep 0,
                               GetByID 42, GetByName ''Battery'', Sleep 1]\<rparr>)"
    by (simp add: run_simps failed_attempt_def example_state_def numeral_2_eq_2)
  have c: "CreateComputerExtensionAttribute scripted_client
             (the (constructComputerExtensionAttribute unsaved_state))
             (world (start [(Some example_attribute, None)]))
           = ((Some example_attribute, None), [])"
    by (simp add: run_simps)
  have lo: "- (2 ^ 63) \<le> ea_ID example_attribute"
    and hi: "ea_ID example_attribute < 2 ^ 63"
    by (simp_all add: example_attribute_def)
  have g: "attempts_fail scripted_client (ea_ID example_attribute) (d_name unsaved_state)
             (2 * 2) []"
    by (simp add: run_simps example_attribute_def eval_nat_numeral)
  from exhausted_retries_diagnostics [THEN conjunct2, THEN conjunct2, THEN conjunct2,
      THEN conjunct2, THEN conjunct2, THEN conjunct1, rule_format,
      OF conjI [OF construct_unsaved_state conjI [OF c conjI [OF lo conjI [OF hi g]]]]]
  have "\<exists>s'. ResourceJamfProComputerExtensionAttributesCreate scripted_client 2 unsaved_state
              (start [(Some example_attribute, None)])
            = (Return [Diagnostic Warning (ReadAttemptFailed 1),
                       Diagnostic Error (FailedToFetchByIDAndName 42 2),
                       Diagnostic Warning (ReadAttemptFailed 2),
                       Diagnostic Error (FailedToFetchByIDAndName 42 2)],
               unsaved_state\<lparr>d_id := ''42''\<rparr>, s')
          \<and> world s' = []"
    by (simp add: run_simps example_attribute_def Sprintf_d_42 eval_nat_numeral)
  moreover have "d_id unsaved_state = ''''"
    by (simp add: unsaved_state_def)
  moreover have "attempts_fail scripted_client 42 (d_name unsaved_state) (2 * 2) []"
    using g by (simp add: example_attribute_def)
  ultimately show ?thesis
    using a f r by simp
qed

section \<open>Read, update and delete by ID and then by name\<close>

lemma Delete_results:
  assumes "Atoi (d_id d) = Some i"
    and "DeleteComputerExtensionAttributeByID conn i (world s) = (e1, w1)"
    and "DeleteComputerExtensionAttributeByNameByID conn (d_name d) w1 = (e2, w2)"
  shows "(e1 = None \<longrightarrow>
            ResourceJamfProComputerExtensionAttributesDelete conn d s
              = ([], d\<lparr>d_id := ''''\<rparr>, \<lparr>world = w1, trace = trace s @ [DeleteByID i]\<rparr>))
       \<and> (e1 \<noteq> None \<and> e2 = None \<longrightarrow>
            ResourceJamfProComputerExtensionAttributesDelete conn d s
              = ([], d\<lparr>d_id := ''''\<rparr>,
                 \<lparr>world = w2, trace = trace s @ [DeleteByID i, DeleteByName (d_name d)]\<rparr>))
       \<and> (e1 \<noteq> None \<and> e2 \<noteq> None \<longrightarrow>
            ResourceJamfProComputerExtensionAttributesDelete conn d s
              = ([Diagnostic Error (FailedToDelete (the e2))], d,
                 \<lparr>world = w2, trace = trace s @ [DeleteByID i, DeleteByName (d_name d)]\<rparr>))"
  using assms
  by (auto simp: ResourceJamfProComputerExtensionAttributesDelete_def call_def
        split: option.splits)

lemma Update_read_backs:
  assumes "Atoi (d_id d) = Some i"
    and "UpdateComputerExtensionAttributeByID conn i (constructComputerExtensionAttribute d)
           (world s) = ((u1, e1), w1)"
    and "UpdateComputerExtensionAttributeByName conn (d_name d)
           (constructComputerExtensionAttribute d) w1 = ((u2, e2), w2)"
    and "(e1 = None \<and> u1 = Some updated \<and> wu = w1
          \<or> e1 \<noteq> None \<and> e2 = None \<and> u2 = Some updated \<and> wu = w2)
         \<and> - (2 ^ 63) \<le> ea_ID updated \<and> ea_ID updated < 2 ^ 63"
  shows "(attempts_fail conn (ea_ID updated) (d_name d) (N * N) wu
            \<longrightarrow> (\<exists>s'. ResourceJamfProComputerExtensionAttributesUpdate conn N d s
                         = (Return (concat (map (\<lambda>k.
                                      [Diagnostic Warning (ReadAttemptFailedAfterUpdate (k + 1)),
                                       Diagnostic Error
                                         (FailedToFetchByIDAndName (ea_ID updated) N)])
                                    [0..<N])),
                            d\<lparr>d_id := Sprintf_d (ea_ID updated)\<rparr>, s')
                      \<and> world s'
                          = world_after_failures conn (ea_ID updated) (d_name d) (N * N) wu))
       \<and> (\<forall>m a w'.
             m < N * N \<and> attempts_fail conn (ea_ID updated) (d_name d) m wu
             \<and> next_fetch conn (ea_ID updated) (d_name d)
                 (world_after_failures conn (ea_ID updated) (d_name d) m wu)
               = ((Some a, None), w')
             \<longrightarrow> (\<exists>s'. ResourceJamfProComputerExtensionAttributesUpdate conn N d s
                          = (Return [],
                             set_state a (d\<lparr>d_id := Sprintf_d (ea_ID updated)\<rparr>), s')
                       \<and> world s' = w'))"
proof (rule conjI)
  from assms(4) have c: "e1 = None \<and> u1 = Some updated \<and> wu = w1
          \<or> e1 \<noteq> None \<and> e2 = None \<and> u2 = Some updated \<and> wu = w2"
    and lo: "- (2 ^ 63) \<le> ea_ID updated" and hi: "ea_ID updated < 2 ^ 63"
    by simp_all
  show "attempts_fail conn (ea_ID updated) (d_name d) (N * N) wu
            \<longrightarrow> (\<exists>s'. ResourceJamfProComputerExtensionAttributesUpdate conn N d s
                         = (Return (concat (map (\<lambda>k.
                                      [Diagnostic Warning (ReadAttemptFailedAfterUpdate (k + 1)),
                                       Diagnostic Error
                                         (FailedToFetchByIDAndName (ea_ID updated) N)])
                                    [0..<N])),
                            d\<lparr>d_id := Sprintf_d (ea_ID updated)\<rparr>, s')
                      \<and> world s'
                          = world_after_failures conn (ea_ID updated) (d_name d) (N * N) wu)"
    by (rule impI) (rule Update_read_backs_all_fail [OF assms(1-3) c lo hi])
  show "\<forall>m a w'.
             m < N * N \<and> attempts_fail conn (ea_ID updated) (d_name d) m wu
             \<and> next_fetch conn (ea_ID updated) (d_name d)
                 (world_after_failures conn (ea_ID updated) (d_name d) m wu)
               = ((Some a, None), w')
             \<longrightarrow> (\<exists>s'. ResourceJamfProComputerExtensionAttributesUpdate conn N d s
                          = (Return [],
                             set_state a (d\<lparr>d_id := Sprintf_d (ea_ID updated)\<rparr>), s')
                       \<and> world s' = w')"
    by (intro allI impI, elim conjE)
       (rule Update_read_back_succeeds [OF assms(1-3) c lo hi])
qed

text \<open>
  C9, amended. When the stored ID of a computer extension attribute is not a decimal
  integer, the read, the update and the delete each return the parse error and call
  nothing. When it is the number \<open>i\<close>:
  \<^item> the read returns a diagnostic exactly when, at each of its \<open>N\<close> attempts, the fetch by
    ID fails and the fetch by name that follows fails too; at every attempt (the first
    \<open>k < N\<close> having failed) a fetch by ID that succeeds ends the read without the name
    being used, and a fetch by ID that fails is followed by a fetch by name which, when
    it succeeds, ends the read with no diagnostic;
  \<^item> the delete calls the API by name exactly when the delete by ID returned an error;
    it clears the ID and returns nothing when either call succeeds, and returns the
    error of the call by name, the state unchanged, when both fail;
  \<^item> the update calls the API by name exactly when the update by ID returned an error;
    when both return an error it returns the error of the call by name and nothing else;
    otherwise it records the returned ID (one that fits Go's \<open>int\<close>) and reads back up to
    \<open>N\<close> times: it returns no diagnostic once the remote answers a fetch of those reads
    with an attribute, and when the remote lets all their attempts fail it returns the
    warnings and errors of the \<open>N\<close> failed reads, although an update call succeeded.
\<close>

theorem fallback_to_name:
  "(Atoi (d_id d) = None
      \<longrightarrow> ResourceJamfProComputerExtensionAttributesRead conn N d s
              = ([Diagnostic Error (FailedToParseAttributeID (d_id d))], d, s)
          \<and> ResourceJamfProComputerExtensionAttributesUpdate conn N d s
              = (Return [Diagnostic Error (FailedToParseAttributeID (d_id d))], d, s)
          \<and> ResourceJamfProComputerExtensionAttributesDelete conn d s
              = ([Diagnostic Error (FailedToParseAttributeID (d_id d))], d, s))
   \<and> (\<forall>i. Atoi (d_id d) = Some i
        \<longrightarrow> (fst (ResourceJamfProComputerExtensionAttributesRead conn N d s) \<noteq> []
               \<longleftrightarrow> attempts_fail conn i (d_name d) N (world s)))
   \<and> (\<forall>i k r1 w1 r2 w2.
         Atoi (d_id d) = Some i \<and> k < N \<and> attempts_fail conn i (d_name d) k (world s)
         \<and> GetComputerExtensionAttributeByID conn i
             (world_after_failures conn i (d_name d) k (world s)) = (r1, w1)
         \<and> GetComputerExtensionAttributeByName conn (d_name d) w1 = (r2, w2)
         \<longrightarrow> (\<not> fetch_failed r1 \<longrightarrow>
                ResourceJamfProComputerExtensionAttributesRead conn N d s
                  = ([], set_state (the (fst r1)) d,
                     \<lparr>world = w1,
                      trace = trace s @ concat (map (failed_attempt i (d_name d)) [0..<k])
                                @ [GetByID i]\<rparr>))
            \<and> (fetch_failed r1 \<and> \<not> fetch_failed r2 \<longrightarrow>
                ResourceJamfProComputerExtensionAttributesRead conn N d s
                  = ([], set_state (the (fst r2)) d,
                     \<lparr>world = w2,
                      trace = trace s @ concat (map (failed_attempt i (d_name d)) [0..<k])
                                @ [GetByID i, GetByName (d_name d)]\<rparr>)))
   \<and> (\<forall>i e1 w1 e2 w2.
         Atoi (d_id d) = Some i
         \<and> DeleteComputerExtensionAttributeByID conn i (world s) = (e1, w1)
         \<and> DeleteComputerExtensionAttributeByNameByID conn (d_name d) w1 = (e2, w2)
         \<longrightarrow> (e1 = None \<longrightarrow>
                ResourceJamfProComputerExtensionAttributesDelete conn d s
                  = ([], d\<lparr>d_id := ''''\<rparr>, \<lparr>world = w1, trace = trace s @ [DeleteByID i]\<rparr>))
            \<and> (e1 \<noteq> None \<and> e2 = None \<longrightarrow>
                ResourceJamfProComputerExtensionAttributesDelete conn d s
                  = ([], d\<lparr>d_id := ''''\<rparr>,
                     \<lparr>world = w2,
                      trace = trace s @ [DeleteByID i, DeleteByName (d_name d)]\<rparr>))
            \<and> (e1 \<noteq> None \<and> e2 \<noteq> None \<longrightarrow>
                ResourceJamfProComputerExtensionAttributesDelete conn d s
                  = ([Diagnostic Error (FailedToDelete (the e2))], d,
                     \<lparr>world = w2,
                      trace = trace s @ [DeleteByID i, DeleteByName (d_name d)]\<rparr>)))
   \<and> (\<forall>i u1 e1 w1 u2 e2 w2.
         Atoi (d_id d) = Some i
         \<and> UpdateComputerExtensionAttributeByID conn i (constructComputerExtensionAttribute d)
             (world s) = ((u1, e1), w1)
         \<and> UpdateComputerExtensionAttributeByName conn (d_name d)
             (constructComputerExtensionAttribute d) w1 = ((u2, e2), w2)
         \<longrightarrow> (e1 \<noteq> None \<and> e2 \<noteq> None \<longrightarrow>
                ResourceJamfProComputerExtensionAttributesUpdate conn N d s
                  = (Return [Diagnostic Error (FromErr (the e2))], d,
                     \<lparr>world = w2,
                      trace = trace s @
                        [UpdateByID i (constructComputerExtensionAttribute d),
                         UpdateByName (d_name d) (constructComputerExtensionAttribute d)]\<rparr>))
            \<and> (e1 = None \<longrightarrow> (\<forall>updated. u1 = Some updated \<longrightarrow>
                ResourceJamfProComputerExtensionAttributesUpdate conn N d s
                  = (case read_back_loop conn N ReadAttemptFailedAfterUpdate 0 []
                            (d\<lparr>d_id := Sprintf_d (ea_ID updated)\<rparr>)
                            \<lparr>world = w1,
                             trace = trace s @
                               [UpdateByID i (constructComputerExtensionAttribute d)]\<rparr> of
                       (diags, d', s') \<Rightarrow> (Return diags, d', s'))))
            \<and> (e1 \<noteq> None \<and> e2 = None \<longrightarrow> (\<forall>updated. u2 = Some updated \<longrightarrow>
                ResourceJamfProComputerExtensionAttributesUpdate conn N d s
                  = (case read_back_loop conn N ReadAttemptFailedAfterUpdate 0 []
                            (d\<lparr>d_id := Sprintf_d (ea_ID updated)\<rparr>)
                            \<lparr>world = w2,
                             trace = trace s @
                               [UpdateByID i (constructComputerExtensionAttribute d),
                                UpdateByName (d_name d)
                                  (constructComputerExtensionAttribute d)]\<rparr> of
                       (diags, d', s') \<Rightarrow> (Return diags, d', s')))))
   \<and> (\<forall>i u1 e1 w1 u2 e2 w2 updated wu.
         Atoi (d_id d) = Some i
         \<and> UpdateComputerExtensionAttributeByID conn i (constructComputerExtensionAttribute d)
             (world s) = ((u1, e1), w1)
         \<and> UpdateComputerExtensionAttributeByName conn (d_name d)
             (constructComputerExtensionAttribute d) w1 = ((u2, e2), w2)
         \<and> ((e1 = None \<and> u1 = Some updated \<and> wu = w1
              \<or> e1 \<noteq> None \<and> e2 = None \<and> u2 = Some updated \<and> wu = w2)
             \<and> - (2 ^ 63) \<le> ea_ID updated \<and> ea_ID updated < 2 ^ 63)
         \<longrightarrow> (attempts_fail conn (ea_ID updated) (d_name d) (N * N) wu
                \<longrightarrow> (\<exists>s'. ResourceJamfProComputerExtensionAttributesUpdate conn N d s
                         = (Return (concat (map (\<lambda>k.
                                      [Diagnostic Warning (ReadAttemptFailedAfterUpdate (k + 1)),
                                       Diagnostic Error
                                         (FailedToFetchByIDAndName (ea_ID updated) N)])
                                    [0..<N])),
                            d\<lparr>d_id := Sprintf_d (ea_ID updated)\<rparr>, s')
                      \<and> world s'
                          = world_after_failures conn (ea_ID updated) (d_name d) (N * N) wu))
            \<and> (\<forall>m a w'.
                  m < N * N \<and> attempts_fail conn (ea_ID updated) (d_name d) m wu
                  \<and> next_fetch conn (ea_ID updated) (d_name d)
                      (world_after_failures conn (ea_ID updated) (d_name d) m wu)
                    = ((Some a, None), w')
                  \<longrightarrow> (\<exists>s'. ResourceJamfProComputerExtensionAttributesUpdate conn N d s
                          = (Return [],
                             set_state a (d\<lparr>d_id := Sprintf_d (ea_ID updated)\<rparr>), s')
                       \<and> world s' = w')))"
  (is "?P \<and> ?R1 \<and> ?R2 \<and> ?D \<and> ?U1 \<and> ?U2")
proof -
  have 1: ?P
    by (intro impI conjI)
       (rule Read_parse_fails, assumption, rule Update_parse_fails, assumption,
        rule Delete_parse_fails, assumption)
  have 2: ?R1
    by (intro allI impI) (rule Read_fails_iff)
  have 3: ?R2
  proof (intro allI impI, elim conjE)
    fix i k r1 w1 r2 w2
    assume "Atoi (d_id d) = Some i" "k < N" "attempts_fail conn i (d_name d) k (world s)"
      "GetComputerExtensionAttributeByID conn i
         (world_after_failures conn i (d_name d) k (world s)) = (r1, w1)"
      "GetComputerExtensionAttributeByName conn (d_name d) w1 = (r2, w2)"
    from Read_first_success(1) [OF this] Read_first_success(2) [OF this]
    show "(\<not> fetch_failed r1 \<longrightarrow>
                ResourceJamfProComputerExtensionAttributesRead conn N d s
                  = ([], set_state (the (fst r1)) d,
                     \<lparr>world = w1,
                      trace = trace s @ concat (map (failed_attempt i (d_name d)) [0..<k])
                                @ [GetByID i]\<rparr>))
            \<and> (fetch_failed r1 \<and> \<not> fetch_failed r2 \<longrightarrow>
                ResourceJamfProComputerExtensionAttributesRead conn N d s
                  = ([], set_state (the (fst r2)) d,
                     \<lparr>world = w2,
                      trace = trace s @ concat (map (failed_attempt i (d_name d)) [0..<k])
                                @ [GetByID i, GetByName (d_name d)]\<rparr>))"
      by (rule conjI)
  qed
  have 4: ?D
    by (intro allI impI, elim conjE) (rule Delete_results)
  have 5: ?U1
    by (intro allI impI, elim conjE) (rule Update_fallback)
  have 6: ?U2
    by (intro allI, rule impI, elim conjE) (rule Update_read_backs, assumption+, intro conjI)
  from 1 2 3 4 5 6 show ?thesis
    by (intro conjI)
qed

theorem fallback_to_name_witness:
  "Atoi (d_id (example_state\<lparr>d_id := ''abc''\<rparr>)) = None
   \<and> ResourceJamfProComputerExtensionAttributesRead scripted_client 3
       (example_state\<lparr>d_id := ''abc''\<rparr>) (start [(Some example_attribute, None)])
     = ([Diagnostic Error (FailedToParseAttributeID ''abc'')],
        example_state\<lparr>d_id := ''abc''\<rparr>, start [(Some example_attribute, None)])
   \<and> Atoi (d_id example_state) = Some 42
   \<and> attempts_fail scripted_client 42 (d_name example_state) 1
       (world (start [(None, Some (OtherApiError ''e1'')), (None, Some (OtherApiError ''e2'')),
                      (None, Some (OtherApiError ''e3'')), (Some example_attribute, None)]))
   \<and> ResourceJamfProComputerExtensionAttributesRead scripted_client 3 example_state
       (start [(None, Some (OtherApiError ''e1'')), (None, Some (OtherApiError ''e2'')),
               (None, Some (OtherApiError ''e3'')), (Some example_attribute, None)])
     = ([], set_state example_attribute example_state,
        \<lparr>world = [], trace = [GetByID 42, GetByName ''Battery'', Sleep 0,
                               GetByID 42, GetByName ''Battery'']\<rparr>)
   \<and> ResourceJamfProComputerExtensionAttributesDelete scripted_client example_state
       (start [(None, Some (OtherApiError ''no such id'')), (None, None)])
     = ([], example_state\<lparr>d_id := ''''\<rparr>,
        \<lparr>world = [], trace = [DeleteByID 42, DeleteByName ''Battery'']\<rparr>)"
proof -
  let ?s = "start [(None, Some (OtherApiError ''e1'')), (None, Some (OtherApiError ''e2'')),
                   (None, Some (OtherApiError ''e3'')), (Some example_attribute, None)]"
  let ?t = "start [(None, Some (OtherApiError ''no such id'')), (None, None)]"
  have p: "Atoi (d_id (example_state\<lparr>d_id := ''abc''\<rparr>)) = None"
    by (simp add: Atoi_abc)
  from fallback_to_name [THEN conjunct1, THEN mp, OF p, THEN conjunct1]
  have r0: "ResourceJamfProComputerExtensionAttributesRead scripted_client 3
       (example_state\<lparr>d_id := ''abc''\<rparr>) (start [(Some example_attribute, None)])
     = ([Diagnostic Error (FailedToParseAttributeID ''abc'')],
        example_state\<lparr>d_id := ''abc''\<rparr>, start [(Some example_attribute, None)])"
    by simp
  have a: "Atoi (d_id example_state) = Some 42"
    by (simp add: example_state_def Atoi_42)
  have k: "(1::nat) < 3" by simp
  have f: "attempts_fail scripted_client 42 (d_name example_state) 1 (world ?s)"
    by (simp add: run_simps example_state_def)
  have g1: "GetComputerExtensionAttributeByID scripted_client 42
              (world_after_failures scripted_client 42 (d_name example_state) 1 (world ?s))
            = ((None, Some (OtherApiError ''e3'')), [(Some example_attribute, None)])"
    by (simp add: run_simps example_state_def)
  have g2: "GetComputerExtensionAttributeByName scripted_client (d_name example_state)
              [(Some example_attribute, None)]
            = ((Some example_attribute, None), [])"
    by (simp add: run_simps)
  from fallback_to_name [THEN conjunct2, THEN conjunct2, THEN conjunct1, rule_format,
      OF conjI [OF a conjI [OF k conjI [OF f conjI [OF g1 g2]]]], THEN conjunct2]
  have r1: "ResourceJamfProComputerExtensionAttributesRead scripted_client 3 example_state ?s
     = ([], set_state example_attribute example_state,
        \<lparr>world = [], trace = [GetByID 42, GetByName ''Battery'', Sleep 0,
                               GetByID 42, GetByName ''Battery'']\<rparr>)"
    by (simp add: fetch_failed_def failed_attempt_def example_state_def start_def)
  have d1: "DeleteComputerExtensionAttributeByID scripted_client 42 (world ?t)
              = (Some (OtherApiError ''no such id''), [(None, None)])"
    by (simp add: run_simps)
  have d2: "DeleteComputerExtensionAttributeByNameByID scripted_client (d_name example_state)
              [(None, None)] = (None, [])"
    by (simp add: run_simps)
  from fallback_to_name [THEN conjunct2, THEN conjunct2, THEN conjunct2, THEN conjunct1,
      rule_format, OF conjI [OF a conjI [OF d1 d2]], THEN conjunct2, THEN conjunct1]
  have r2: "ResourceJamfProComputerExtensionAttributesDelete scripted_client example_state ?t
     = ([], example_state\<lparr>d_id := ''''\<rparr>,
        \<lparr>world = [], trace = [DeleteByID 42, DeleteByName ''Battery'']\<rparr>)"
    by (simp add: example_state_def start_def)
  from p r0 a f r1 r2 show ?thesis
    by (intro conjI)
qed

section \<open>Delete clears the stored ID\<close>

text \<open>
  C10. For the delete of a computer extension attribute and for the delete of an advanced
  user search, the stored ID is cleared (set to the empty string) exactly when the remote
  deletion succeeds, and then no diagnostic is returned; when the deletion does not
  succeed the handler returns one error diagnostic and leaves the whole state, the
  stored ID included, as it was.

  For the computer extension attribute the remote deletion succeeds
  (\<open>deletion_succeeds\<close>) when the stored ID is a number and the delete by ID, or else the
  delete by name, returns no error.

  For the advanced user search, whose delete attempt (by ID, then by name) is run by
  \<open>retry.RetryContext\<close>, taken to allow \<open>n + 1\<close> runs:
  \<^item> when the stored ID is not a number the handler returns the conversion error, the
    state unchanged, and calls nothing;
  \<^item> when the remote lets the first \<open>k \<le> n\<close> attempts fail and at the next answers the
    delete by ID, or after an error of that the delete by name, with no error, the
    handler clears the ID and returns no diagnostic;
  \<^item> when the remote lets all \<open>n + 1\<close> attempts fail, the handler returns the error of
    the last delete by name, wrapped with the name and the ID, and the state unchanged;
  \<^item> so the ID is cleared exactly when not all \<open>n + 1\<close> attempts fail.
\<close>

theorem delete_clears_id_iff_deleted:
  "(\<forall>diags d' s'.
      ResourceJamfProComputerExtensionAttributesDelete conn d s = (diags, d', s') \<longrightarrow>
        (deletion_succeeds conn d s \<longrightarrow> diags = [] \<and> d' = d\<lparr>d_id := ''''\<rparr>)
      \<and> (\<not> deletion_succeeds conn d s \<longrightarrow> (\<exists>m. diags = [Diagnostic Error m]) \<and> d' = d)
      \<and> (d_id d \<noteq> '''' \<longrightarrow> (d_id d' = '''' \<longleftrightarrow> deletion_succeeds conn d s)))
   \<and> (Atoi (rd_id u) = None
        \<longrightarrow> resourceJamfProAdvancedUserSearchDelete (retry_at_most n) client u w
              = ([Diagnostic Error (ErrorConvertingResourceID (rd_id u))], u, w))
   \<and> (\<forall>i k e1 w1 e2 w2.
         Atoi (rd_id u) = Some i \<and> k \<le> n
         \<and> delete_attempts_fail client i (rd_name u) k w
         \<and> DeleteAdvancedUserSearchByID client i
             (world_after_delete_attempts client i (rd_name u) k w) = (e1, w1)
         \<and> DeleteAdvancedUserSearchByName client (rd_name u) w1 = (e2, w2)
         \<longrightarrow> (e1 = None \<longrightarrow>
                resourceJamfProAdvancedUserSearchDelete (retry_at_most n) client u w
                  = ([], u\<lparr>rd_id := ''''\<rparr>, w1))
            \<and> (e1 \<noteq> None \<and> e2 = None \<longrightarrow>
                resourceJamfProAdvancedUserSearchDelete (retry_at_most n) client u w
                  = ([], u\<lparr>rd_id := ''''\<rparr>, w2)))
   \<and> (\<forall>i e1 w1 e2 w2.
         Atoi (rd_id u) = Some i
         \<and> delete_attempts_fail client i (rd_name u) n w
         \<and> DeleteAdvancedUserSearchByID client i
             (world_after_delete_attempts client i (rd_name u) n w) = (Some e1, w1)
         \<and> DeleteAdvancedUserSearchByName client (rd_name u) w1 = (Some e2, w2)
         \<longrightarrow> resourceJamfProAdvancedUserSearchDelete (retry_at_most n) client u w
               = ([Diagnostic Error (FailedToDeleteAfterRetries (rd_name u) (rd_id u) e2)],
                  u, w2))
   \<and> (\<forall>i. Atoi (rd_id u) = Some i
        \<longrightarrow> (\<not> delete_attempts_fail client i (rd_name u) (Suc n) w
              \<longrightarrow> fst (resourceJamfProAdvancedUserSearchDelete (retry_at_most n) client u w)
                    = []
                  \<and> fst (snd (resourceJamfProAdvancedUserSearchDelete (retry_at_most n)
                                client u w))
                    = u\<lparr>rd_id := ''''\<rparr>)
           \<and> (delete_attempts_fail client i (rd_name u) (Suc n) w
              \<longrightarrow> fst (resourceJamfProAdvancedUserSearchDelete (retry_at_most n) client u w)
                    \<noteq> []
                  \<and> fst (snd (resourceJamfProAdvancedUserSearchDelete (retry_at_most n)
                                client u w))
                    = u))"
  (is "?D \<and> ?U0 \<and> ?U1 \<and> ?U2 \<and> ?U3")
proof -
  have 1: ?D
    by (auto simp: ResourceJamfProComputerExtensionAttributesDelete_def deletion_succeeds_def
          call_def split: option.splits prod.splits if_splits)
  have 2: ?U0
    by (intro impI) (rule user_search_delete_parse_fails)
  have 3: ?U1
  proof (intro allI impI, elim conjE)
    fix i k e1 w1 e2 w2
    assume "Atoi (rd_id u) = Some i" "k \<le> n"
      "delete_attempts_fail client i (rd_name u) k w"
      "DeleteAdvancedUserSearchByID client i
         (world_after_delete_attempts client i (rd_name u) k w) = (e1, w1)"
      "DeleteAdvancedUserSearchByName client (rd_name u) w1 = (e2, w2)"
    from user_search_delete_succeeds(1) [OF this] user_search_delete_succeeds(2) [OF this]
    show "(e1 = None \<longrightarrow>
                resourceJamfProAdvancedUserSearchDelete (retry_at_most n) client u w
                  = ([], u\<lparr>rd_id := ''''\<rparr>, w1))
            \<and> (e1 \<noteq> None \<and> e2 = None \<longrightarrow>
                resourceJamfProAdvancedUserSearchDelete (retry_at_most n) client u w
                  = ([], u\<lparr>rd_id := ''''\<rparr>, w2))"
      by (rule conjI)
  qed
  have 4: ?U2
    by (intro allI impI, elim conjE) (rule user_search_delete_fails)
  have 5: ?U3
    by (intro allI impI) (rule user_search_delete_cleared_iff)
  from 1 2 3 4 5 show ?thesis
    by (intro conjI)
qed

theorem delete_clears_id_iff_deleted_witness:
  "deletion_succeeds scripted_client example_state
     (start [(None, Some (OtherApiError ''busy'')), (None, None)])
   \<and> d_id example_state \<noteq> ''''
   \<and> ResourceJamfProComputerExtensionAttributesDelete scripted_client example_state
       (start [(None, Some (OtherApiError ''busy'')), (None, None)])
     = ([], example_state\<lparr>d_id := ''''\<rparr>,
        \<lparr>world = [], trace = [DeleteByID 42, DeleteByName ''Battery'']\<rparr>)
   \<and> Atoi (rd_id \<lparr>rd_id = ''42'', rd_name = ''Admins'', rd_other = ()\<rparr>) = Some 42
   \<and> delete_attempts_fail scripted_user_search_client 42 ''Admins'' 1
       [(None, Some (OtherApiError ''busy'')), (None, Some (OtherApiError ''busy'')),
        (None, Some (OtherApiError ''no such id'')), (None, None)]
   \<and> resourceJamfProAdvancedUserSearchDelete (retry_at_most 2) scripted_user_search_client
       \<lparr>rd_id = ''42'', rd_name = ''Admins'', rd_other = ()\<rparr>
       [(None, Some (OtherApiError ''busy'')), (None, Some (OtherApiError ''busy'')),
        (None, Some (OtherApiError ''no such id'')), (None, None)]
     = ([], \<lparr>rd_id = '''', rd_name = ''Admins'', rd_other = ()\<rparr>, [])"
proof -
  let ?u = "\<lparr>rd_id = ''42'', rd_name = ''Admins'', rd_other = ()\<rparr>"
  let ?w = "[(None, Some (OtherApiError ''busy'')), (None, Some (OtherApiError ''busy'')),
             (None, Some (OtherApiError ''no such id'')), (None, None)] :: response list"
  have a: "deletion_succeeds scripted_client example_state
             (start [(None, Some (OtherApiError ''busy'')), (None, None)])"
    using delete_clears_id_iff_deleted [THEN conjunct1, rule_format, OF delete_example]
    by (auto simp: example_state_def)
  have i: "Atoi (rd_id ?u) = Some 42"
    by (simp add: Atoi_42)
  have k: "(1::nat) \<le> 2" by simp
  have f: "delete_attempts_fail scripted_user_search_client 42 (rd_name ?u) 1 ?w"
    by (simp add: scripted_user_search_client_def next_answer_def)
  have d1: "DeleteAdvancedUserSearchByID scripted_user_search_client 42
              (world_after_delete_attempts scripted_user_search_client 42 (rd_name ?u) 1 ?w)
            = (Some (OtherApiError ''no such id''), [(None, None)])"
    by (simp add: scripted_user_search_client_def next_answer_def)
  have d2: "DeleteAdvancedUserSearchByName scripted_user_search_client (rd_name ?u)
              [(None, None)] = (None, [])"
    by (simp add: scripted_user_search_client_def next_answer_def)
  from delete_clears_id_iff_deleted [THEN conjunct2, THEN conjunct2, THEN conjunct1,
      rule_format, OF conjI [OF i conjI [OF k conjI [OF f conjI [OF d1 d2]]]],
      THEN conjunct2]
  have b: "resourceJamfProAdvancedUserSearchDelete (retry_at_most 2)
             scripted_user_search_client ?u ?w
           = ([], \<lparr>rd_id = '''', rd_name = ''Admins'', rd_other = ()\<rparr>, [])"
    by simp
  from a b i f delete_example show ?thesis
    by (simp add: example_state_def)
qed

section \<open>The four steps of each create\<close>

text \<open>
  C5, amended. The create handlers do not all follow one template; each performs four
  steps in order, and they differ in what the retry is wrapped around.

  The create of a computer extension attribute:
  \<^item> constructs the payload; when that fails it returns the construction error and
    calls nothing;
  \<^item> calls the create API exactly once, not in a retry loop, with the constructed
    payload, as the first event of the run; when the call returns an error the create
    returns that error, the state unchanged, and does nothing more;
  \<^item> records the returned ID (one that fits Go's \<open>int\<close>) as its decimal, and every fetch
    by ID of the run asks for the ID read from that string;
  \<^item> reads back, and it is the read that is retried, up to \<open>N\<close> reads of up to \<open>N\<close>
    attempts each: when the remote lets the first \<open>m < N * N\<close> attempts fail and answers
    the next fetch with an attribute, the create returns no diagnostic and the state
    written from that attribute; when the remote lets all \<open>N * N\<close> attempts fail, the
    create returns the warnings and errors of the \<open>N\<close> failed reads and the state with
    the ID recorded.

  The create of an advanced user search and the create of an app installer, with
  \<open>retry.RetryContext\<close> taken to allow \<open>n + 1\<close> runs:
  \<^item> construct the payload; when that fails they return the construction error and the
    remote is untouched;
  \<^item> make the create call in the retry: when the remote lets the first \<open>k \<le> n\<close> calls
    fail and answers the next with an ID, they record that ID (for the user search its
    decimal) and read back once, on the remote as that call left it, returning the
    diagnostics and the state of that read;
  \<^item> when the remote lets all \<open>n + 1\<close> calls fail, they return the error of the last
    call, wrapped with the payload's name, the state unchanged, and read nothing.
\<close>

theorem create_steps_in_order:
  "(constructComputerExtensionAttribute d = None
      \<longrightarrow> ResourceJamfProComputerExtensionAttributesCreate conn N d s
            = (Return [Diagnostic Error FailedToConstruct], d, s))
   \<and> (\<forall>attribute x e w1.
         constructComputerExtensionAttribute d = Some attribute
         \<and> CreateComputerExtensionAttribute conn attribute (world s) = ((x, Some e), w1)
         \<longrightarrow> ResourceJamfProComputerExtensionAttributesCreate conn N d s
               = (Return [Diagnostic Error (FromErr e)], d,
                  \<lparr>world = w1, trace = trace s @ [CreateCall attribute]\<rparr>))
   \<and> (\<forall>attribute created w1 m a w'.
         constructComputerExtensionAttribute d = Some attribute
         \<and> CreateComputerExtensionAttribute conn attribute (world s) = ((Some created, None), w1)
         \<and> - (2 ^ 63) \<le> ea_ID created \<and> ea_ID created < 2 ^ 63
         \<and> m < N * N
         \<and> attempts_fail conn (ea_ID created) (d_name d) m w1
         \<and> next_fetch conn (ea_ID created) (d_name d)
             (world_after_failures conn (ea_ID created) (d_name d) m w1) = ((Some a, None), w')
         \<longrightarrow> (\<exists>s'. ResourceJamfProComputerExtensionAttributesCreate conn N d s
                      = (Return [], set_state a (d\<lparr>d_id := Sprintf_d (ea_ID created)\<rparr>), s')
                   \<and> world s' = w'))
   \<and> (\<forall>attribute created w1.
         constructComputerExtensionAttribute d = Some attribute
         \<and> CreateComputerExtensionAttribute conn attribute (world s) = ((Some created, None), w1)
         \<and> - (2 ^ 63) \<le> ea_ID created \<and> ea_ID created < 2 ^ 63
         \<and> attempts_fail conn (ea_ID created) (d_name d) (N * N) w1
         \<longrightarrow> (\<exists>s'. ResourceJamfProComputerExtensionAttributesCreate conn N d s
                      = (Return (concat (map (\<lambda>k.
                                   [Diagnostic Warning (ReadAttemptFailed (k + 1)),
                                    Diagnostic Error
                                      (FailedToFetchByIDAndName (ea_ID created) N)])
                                 [0..<N])),
                         d\<lparr>d_id := Sprintf_d (ea_ID created)\<rparr>, s')
                   \<and> world s'
                       = world_after_failures conn (ea_ID created) (d_name d) (N * N) w1))
   \<and> (\<forall>out d' s'.
        ResourceJamfProComputerExtensionAttributesCreate conn N d s = (out, d', s') \<longrightarrow>
          (constructComputerExtensionAttribute d = None
              \<longrightarrow> out = Return [Diagnostic Error FailedToConstruct] \<and> d' = d \<and> s' = s)
         \<and> (\<forall>attribute. constructComputerExtensionAttribute d = Some attribute \<longrightarrow>
              (\<exists>r w1 rest.
                 CreateComputerExtensionAttribute conn attribute (world s) = (r, w1)
                 \<and> trace s' = trace s @ CreateCall attribute # rest
                 \<and> list_all fetch_event rest
                 \<and> (\<forall>e. snd r = Some e
                        \<longrightarrow> out = Return [Diagnostic Error (FromErr e)] \<and> d' = d \<and> rest = [])
                 \<and> (\<forall>created. r = (Some created, None)
                        \<longrightarrow> d_id d' = Sprintf_d (ea_ID created)
                            \<and> (\<forall>j. GetByID j \<in> set rest
                                  \<longrightarrow> Atoi (Sprintf_d (ea_ID created)) = Some j)
                            \<and> (out = Return []
                                \<or> out = Return (failed_read_backs ReadAttemptFailed
                                                  (d\<lparr>d_id := Sprintf_d (ea_ID created)\<rparr>) N 0)
                                  \<and> d' = d\<lparr>d_id := Sprintf_d (ea_ID created)\<rparr>)))))
   \<and> (\<forall>err. construct u = Inl err \<longrightarrow>
          resourceJamfProAdvancedUserSearchCreate (retry_at_most n) construct Name Create Read
            u w
            = (Return [Diagnostic Error (FailedToConstructResource err)], u, w))
   \<and> (\<forall>resource k i w1.
         construct u = Inr resource \<and> k \<le> n \<and> create_calls_fail Create resource k w
         \<and> Create resource (world_after_create_calls Create resource k w) = ((Some i, None), w1)
         \<longrightarrow> resourceJamfProAdvancedUserSearchCreate (retry_at_most n) construct Name Create
               Read u w
               = (case Read (u\<lparr>rd_id := Sprintf_d i\<rparr>) w1 of
                    (diags, u', w') \<Rightarrow> (Return diags, u', w')))
   \<and> (\<forall>resource r e w1.
         construct u = Inr resource \<and> create_calls_fail Create resource n w
         \<and> Create resource (world_after_create_calls Create resource n w) = ((r, Some e), w1)
         \<longrightarrow> resourceJamfProAdvancedUserSearchCreate (retry_at_most n) construct Name Create
               Read u w
               = (Return [Diagnostic Error (FailedToCreateAfterRetries (Name resource) e)],
                  u, w1))
   \<and> (\<forall>err. construct2 v = Inl err \<longrightarrow>
          appinstallers_create (retry_at_most n2) construct2 Name2 Create2 readNoCleanup v w2
            = (Return [Diagnostic Error (FailedToConstructResource err)], v, w2))
   \<and> (\<forall>resource k i w1.
         construct2 v = Inr resource \<and> k \<le> n2 \<and> create_calls_fail Create2 resource k w2
         \<and> Create2 resource (world_after_create_calls Create2 resource k w2)
             = ((Some i, None), w1)
         \<longrightarrow> appinstallers_create (retry_at_most n2) construct2 Name2 Create2 readNoCleanup
               v w2
               = (case readNoCleanup (v\<lparr>rd_id := i\<rparr>) w1 of
                    (diags, v', w') \<Rightarrow> (Return diags, v', w')))
   \<and> (\<forall>resource r e w1.
         construct2 v = Inr resource \<and> create_calls_fail Create2 resource n2 w2
         \<and> Create2 resource (world_after_create_calls Create2 resource n2 w2)
             = ((r, Some e), w1)
         \<longrightarrow> appinstallers_create (retry_at_most n2) construct2 Name2 Create2 readNoCleanup
               v w2
               = (Return [Diagnostic Error (FailedToCreateAfterRetries (Name2 resource) e)],
                  v, w1))"
  (is "?E1 \<and> ?E2 \<and> ?E3 \<and> ?E4 \<and> ?E5 \<and> ?S1 \<and> ?S2 \<and> ?S3 \<and> ?A1 \<and> ?A2 \<and> ?A3")
proof -
  have 1: ?E1
    by (intro impI) (rule Create_construct_fails)
  have 2: ?E2
    by (intro allI impI, elim conjE) (rule Create_call_fails)
  have 3: ?E3
    by (intro allI impI, elim conjE) (rule Create_read_back_succeeds)
  have 4: ?E4
    by (intro allI impI, elim conjE) (rule Create_read_backs_all_fail)
  have 5: ?E5
    by (intro allI impI) (rule Create_steps)
  have 6: ?S1
    by (intro allI impI) (rule user_search_create_construct_fails)
  have 7: ?S2
    by (intro allI impI, elim conjE) (rule user_search_create_succeeds)
  have 8: ?S3
    by (intro allI impI, elim conjE) (rule user_search_create_fails)
  have 9: ?A1
    by (intro allI impI) (rule appinstallers_create_construct_fails)
  have 10: ?A2
    by (intro allI impI, elim conjE) (rule appinstallers_create_succeeds)
  have 11: ?A3
    by (intro allI impI, elim conjE) (rule appinstallers_create_fails)
  from 1 2 3 4 5 6 7 8 9 10 11 show ?thesis
    by (intro conjI)
qed

text \<open>
  For the concrete run of the user search's create: a create call that answers from a
  list, a construction that takes the name as the payload, and a read that changes
  nothing.
\<close>

theorem create_steps_in_order_witness:
  "d_id unsaved_state = ''''
   \<and> attempts_fail scripted_client 42 (d_name unsaved_state) 1
       [(None, Some (OtherApiError ''e1'')), (None, Some (OtherApiError ''e2'')),
        (Some example_attribute, None)]
   \<and> (\<exists>s'. ResourceJamfProComputerExtensionAttributesCreate scripted_client 3 unsaved_state
              (start [(Some example_attribute, None),
                      (None, Some (OtherApiError ''e1'')), (None, Some (OtherApiError ''e2'')),
                      (Some example_attribute, None)])
            = (Return [], set_state example_attribute (unsaved_state\<lparr>d_id := ''42''\<rparr>), s')
          \<and> world s' = [])
   \<and> create_calls_fail
       (\<lambda>p w. case w of [] \<Rightarrow> ((None, Some ResourceNotFound), []) | r # rest \<Rightarrow> (r, rest))
       ''Admins'' 1 [(None, Some (OtherApiError ''busy'')), (Some (7::int), None)]
   \<and> resourceJamfProAdvancedUserSearchCreate (retry_at_most 2) (\<lambda>d. Inr (rd_name d)) (\<lambda>p. p)
       (\<lambda>p w. case w of [] \<Rightarrow> ((None, Some ResourceNotFound), []) | r # rest \<Rightarrow> (r, rest))
       (\<lambda>d w. ([], d, w))
       \<lparr>rd_id = '''', rd_name = ''Admins'', rd_other = ()\<rparr>
       [(None, Some (OtherApiError ''busy'')), (Some 7, None)]
     = (Return [], \<lparr>rd_id = ''7'', rd_name = ''Admins'', rd_other = ()\<rparr>, [])"
proof -
  let ?w1 = "[(None, Some (OtherApiError ''e1'')), (None, Some (OtherApiError ''e2'')),
              (Some example_attribute, None)]"
  have c: "CreateComputerExtensionAttribute scripted_client
             (the (constructComputerExtensionAttribute unsaved_state))
             (world (start ((Some example_attribute, None) # ?w1)))
           = ((Some example_attribute, None), ?w1)"
    by (simp add: run_simps)
  have lo: "- (2 ^ 63) \<le> ea_ID example_attribute"
    and hi: "ea_ID example_attribute < 2 ^ 63"
    by (simp_all add: example_attribute_def)
  have m: "(1::nat) < 3 * 3" by simp
  have f: "attempts_fail scripted_client (ea_ID example_attribute) (d_name unsaved_state) 1 ?w1"
    by (simp add: run_simps)
  have g: "next_fetch scripted_client (ea_ID example_attribute) (d_name unsaved_state)
             (world_after_failures scripted_client (ea_ID example_attribute)
                (d_name unsaved_state) 1 ?w1)
           = ((Some example_attribute, None), [])"
    by (simp add: next_fetch_def run_simps)
  from create_steps_in_order [THEN conjunct2, THEN conjunct2, THEN conjunct1, rule_format,
      OF conjI [OF construct_unsaved_state
           conjI [OF c conjI [OF lo conjI [OF hi conjI [OF m conjI [OF f g]]]]]]]
  have a: "\<exists>s'. ResourceJamfProComputerExtensionAttributesCreate scripted_client 3 unsaved_state
              (start [(Some example_attribute, None),
                      (None, Some (OtherApiError ''e1'')), (None, Some (OtherApiError ''e2'')),
                      (Some example_attribute, None)])
            = (Return [], set_state example_attribute (unsaved_state\<lparr>d_id := ''42''\<rparr>), s')
          \<and> world s' = []"
    by (simp add: example_attribute_def Sprintf_d_42)
  let ?Create = "\<lambda>(p::string) (w::((int option \<times> api_error option) list)).
                   case w of [] \<Rightarrow> ((None, Some ResourceNotFound), []) | r # rest \<Rightarrow> (r, rest)"
  let ?u = "\<lparr>rd_id = '''', rd_name = ''Admins'', rd_other = ()\<rparr>"
  let ?w = "[(None, Some (OtherApiError ''busy'')), (Some (7::int), None)]"
  have k: "(1::nat) \<le> 2" by simp
  have cf: "create_calls_fail ?Create ''Admins'' 1 ?w"
    by simp
  have cc: "?Create ''Admins'' (world_after_create_calls ?Create ''Admins'' 1 ?w)
              = ((Some 7, None), [])"
    by simp
  have cu: "(\<lambda>d. Inr (rd_name d) :: string + string) ?u = Inr ''Admins''"
    by simp
  from create_steps_in_order [where construct = "\<lambda>d. Inr (rd_name d)" and u = ?u
        and Create = ?Create and n = 2 and w = ?w and Name = "\<lambda>p. p"
        and Read = "\<lambda>d w. ([], d, w)",
      THEN conjunct2, THEN conjunct2, THEN conjunct2, THEN conjunct2,
      THEN conjunct2, THEN conjunct2, THEN conjunct1, rule_format,
      OF conjI [OF cu conjI [OF k conjI [OF cf cc]]]]
  have b: "resourceJamfProAdvancedUserSearchCreate (retry_at_most 2) (\<lambda>d. Inr (rd_name d))
             (\<lambda>p. p) ?Create (\<lambda>d w. ([], d, w)) ?u ?w
           = (Return [], \<lparr>rd_id = ''7'', rd_name = ''Admins'', rd_other = ()\<rparr>, [])"
    by (simp add: Sprintf_d_7)
  have "d_id unsaved_state = ''''"
    by (simp add: unsaved_state_def)
  moreover have "attempts_fail scripted_client 42 (d_name unsaved_state) 1 ?w1"
    using f by (simp add: example_attribute_def)
  ultimately show ?thesis
    using a b cf by (intro conjI)
qed

end
